theory Spec2Isabelle
  imports Main "HOL-Library.Word"
begin

section \<open>Values, exceptions and the Python library the two scripts call\<close>

text \<open>
  The repository is two scripts, \<^verbatim>\<open>scripts/crypto_encrypt.py\<close> (the sealer) and
  \<^verbatim>\<open>scripts/crypto_decrypt.py\<close> (the opener). Everything they compute is glue around
  library calls: \<^verbatim>\<open>hashlib.scrypt\<close>, the AEAD classes of \<^verbatim>\<open>cryptography\<close>,
  \<^verbatim>\<open>base64\<close>, \<^verbatim>\<open>json\<close>, \<^verbatim>\<open>os.urandom\<close>, \<^verbatim>\<open>getpass\<close>. The library is
  not part of the repository, so it is a parameter of the model (the record \<open>lib\<close>);
  the scripts themselves are translated line by line.
\<close>

type_synonym byte = "8 word"
type_synonym bytes = "byte list"

text \<open>A parsed JSON document, as \<^verbatim>\<open>json.load\<close> returns it (the envelope holds no floats).\<close>

datatype json =
    JNull
  | JBool bool
  | JInt int
  | JStr string
  | JArr "json list"
  | JObj "(string \<times> json) list"

datatype aead_alg = XChaCha20Poly1305 | ChaCha20Poly1305

text \<open>
  The exceptions that can reach the scripts. The two \<^verbatim>\<open>RuntimeError\<close>s of
  \<^verbatim>\<open>aead_new\<close> carry what their message is built from.
\<close>

datatype exn =
    KeyError string
  | TypeError
  | AttributeError
  | UnicodeEncodeError
  | UnicodeDecodeError
  | BinasciiError
  | ValueError
  | InvalidTag
  | JSONDecodeError
  | ImportError
  | RuntimeError_not_available aead_alg
  | RuntimeError_unsupported json

record lib =
  has_xchacha :: bool
    \<comment> \<open>\<^verbatim>\<open>from ...aead import XChaCha20Poly1305\<close> succeeds\<close>
  has_chacha :: bool
    \<comment> \<open>\<^verbatim>\<open>from ...aead import ChaCha20Poly1305\<close> succeeds\<close>
  utf8_encode :: "string \<Rightarrow> exn + bytes"
    \<comment> \<open>\<^verbatim>\<open>s.encode("utf-8")\<close>\<close>
  utf8_decode :: "bytes \<Rightarrow> exn + string"
    \<comment> \<open>\<^verbatim>\<open>b.decode("utf-8")\<close>\<close>
  b64encode :: "bytes \<Rightarrow> string"
    \<comment> \<open>\<^verbatim>\<open>base64.b64encode(data)\<close>, an ASCII text\<close>
  b64decode :: "string \<Rightarrow> exn + bytes"
    \<comment> \<open>\<^verbatim>\<open>base64.b64decode(text)\<close> on an ASCII text\<close>
  int_of_str :: "string \<Rightarrow> exn + int"
    \<comment> \<open>\<^verbatim>\<open>int(s)\<close> on a str\<close>
  json_dumps :: "json \<Rightarrow> string"
    \<comment> \<open>\<^verbatim>\<open>json.dumps(v, sort_keys=True)\<close>\<close>
  scrypt :: "bytes \<Rightarrow> bytes \<Rightarrow> int \<Rightarrow> int \<Rightarrow> int \<Rightarrow> int \<Rightarrow> exn + bytes"
    \<comment> \<open>\<^verbatim>\<open>hashlib.scrypt(password, salt=, n=, r=, p=, dklen=)\<close>\<close>
  aead_init :: "aead_alg \<Rightarrow> bytes \<Rightarrow> exn option"
    \<comment> \<open>the constructor \<^verbatim>\<open>Cls(key)\<close>: \<open>Some e\<close> when it raises \<open>e\<close>\<close>
  aead_encrypt :: "aead_alg \<Rightarrow> bytes \<Rightarrow> bytes \<Rightarrow> bytes \<Rightarrow> bytes \<Rightarrow> exn + bytes"
    \<comment> \<open>\<^verbatim>\<open>Cls(key).encrypt(nonce, data, aad)\<close>\<close>
  aead_decrypt :: "aead_alg \<Rightarrow> bytes \<Rightarrow> bytes \<Rightarrow> bytes \<Rightarrow> bytes \<Rightarrow> exn + bytes"
    \<comment> \<open>\<^verbatim>\<open>Cls(key).decrypt(nonce, data, aad)\<close>\<close>

text \<open>An AEAD object: the class it was built from and its key.\<close>

datatype cipher = Cipher aead_alg bytes

text \<open>What \<^verbatim>\<open>demo.json\<close> is when the opener starts, and what a script writes to a file.\<close>

datatype demo_file = Missing | Unparsable | Doc json

datatype content = Json json | Text string

section \<open>Effects\<close>

text \<open>
  Every effect of a run is an event of its trace, in the order the script performs it:
  console output, prompts, and every library call that touches key material.
\<close>

datatype event =
    Stdout string
  | Stderr string
  | ReadLine
  | Getpass string
  | Urandom nat
  | Scrypt bytes bytes int int int int
  | Construct aead_alg bytes
  | Encrypt aead_alg bytes bytes bytes bytes
  | Decrypt aead_alg bytes bytes bytes bytes
  | WriteFile string content

record world =
  trace :: "event list"
  entropy :: "nat \<Rightarrow> byte"

text \<open>
  A statement sequence runs in a world and either raises (\<open>Inl\<close>) or yields a value
  (\<open>Inr\<close>); the world it leaves behind holds the trace so far.
\<close>

type_synonym 'a prog = "world \<Rightarrow> (exn + 'a) \<times> world"

definition return_io :: "'a \<Rightarrow> 'a prog" where
  "return_io a w = (Inr a, w)"

definition raise_io :: "exn \<Rightarrow> 'a prog" where
  "raise_io e w = (Inl e, w)"

definition lift_io :: "exn + 'a \<Rightarrow> 'a prog" where
  "lift_io r w = (r, w)"

definition bind_io :: "'a prog \<Rightarrow> ('a \<Rightarrow> 'b prog) \<Rightarrow> 'b prog" where
  "bind_io m f w = (case m w of (Inl e, w') \<Rightarrow> (Inl e, w') | (Inr a, w') \<Rightarrow> f a w')"

text \<open>\<^verbatim>\<open>try: m  except Exception: ...\<close> hands the exception to the code that follows.\<close>

definition catch_io :: "'a prog \<Rightarrow> (exn + 'a) prog" where
  "catch_io m w = (case m w of (r, w') \<Rightarrow> (Inr r, w'))"

definition emit :: "event \<Rightarrow> unit prog" where
  "emit ev w = (Inr (), w\<lparr>trace := trace w @ [ev]\<rparr>)"

definition bind_exn :: "exn + 'a \<Rightarrow> ('a \<Rightarrow> exn + 'b) \<Rightarrow> exn + 'b" where
  "bind_exn r f = (case r of Inl e \<Rightarrow> Inl e | Inr a \<Rightarrow> f a)"

definition nl :: string where
  "nl = [CHR 0x0A]"

definition dq :: string where
  "dq = [CHR 0x22]"

subsection \<open>Library calls as effects\<close>

text \<open>
  \<^verbatim>\<open>os.urandom(n)\<close> hands out the next \<open>n\<close> bytes of the entropy source and moves on.
\<close>

definition draw :: "(nat \<Rightarrow> byte) \<Rightarrow> nat \<Rightarrow> bytes" where
  "draw g n = map g [0..<n]"

definition shift :: "(nat \<Rightarrow> byte) \<Rightarrow> nat \<Rightarrow> (nat \<Rightarrow> byte)" where
  "shift g n = (\<lambda>i. g (i + n))"

definition urandom :: "nat \<Rightarrow> bytes prog" where
  "urandom n w =
     (Inr (draw (entropy w) n),
      w\<lparr>trace := trace w @ [Urandom n], entropy := shift (entropy w) n\<rparr>)"

definition getpass :: "string \<Rightarrow> string \<Rightarrow> string prog" where
  "getpass prompt typed = bind_io (emit (Getpass prompt)) (\<lambda>_. return_io typed)"

definition hashlib_scrypt ::
  "lib \<Rightarrow> bytes \<Rightarrow> bytes \<Rightarrow> int \<Rightarrow> int \<Rightarrow> int \<Rightarrow> int \<Rightarrow> bytes prog" where
  "hashlib_scrypt L password salt n r p dklen =
     bind_io (emit (Scrypt password salt n r p dklen))
       (\<lambda>_. lift_io (scrypt L password salt n r p dklen))"

definition construct :: "lib \<Rightarrow> aead_alg \<Rightarrow> bytes \<Rightarrow> cipher prog" where
  "construct L alg key =
     bind_io (emit (Construct alg key))
       (\<lambda>_. case aead_init L alg key of
               Some e \<Rightarrow> raise_io e
             | None \<Rightarrow> return_io (Cipher alg key))"

fun cipher_encrypt :: "lib \<Rightarrow> cipher \<Rightarrow> bytes \<Rightarrow> bytes \<Rightarrow> bytes \<Rightarrow> bytes prog" where
  "cipher_encrypt L (Cipher alg key) nonce data aad =
     bind_io (emit (Encrypt alg key nonce data aad))
       (\<lambda>_. lift_io (aead_encrypt L alg key nonce data aad))"

fun cipher_decrypt :: "lib \<Rightarrow> cipher \<Rightarrow> bytes \<Rightarrow> bytes \<Rightarrow> bytes \<Rightarrow> bytes prog" where
  "cipher_decrypt L (Cipher alg key) nonce data aad =
     bind_io (emit (Decrypt alg key nonce data aad))
       (\<lambda>_. lift_io (aead_decrypt L alg key nonce data aad))"

subsection \<open>Python's built-in operations on the values involved\<close>

text \<open>\<^verbatim>\<open>obj[key]\<close> with a str key: a dict looks it up, anything else raises TypeError.\<close>

fun getitem :: "json \<Rightarrow> string \<Rightarrow> exn + json" where
  "getitem (JObj kvs) k = (case map_of kvs k of None \<Rightarrow> Inl (KeyError k) | Some v \<Rightarrow> Inr v)"
| "getitem _ k = Inl TypeError"

text \<open>\<^verbatim>\<open>int(v)\<close> on a JSON value.\<close>

fun py_int :: "lib \<Rightarrow> json \<Rightarrow> exn + int" where
  "py_int L (JInt i) = Inr i"
| "py_int L (JBool b) = Inr (if b then 1 else 0)"
| "py_int L (JStr s) = int_of_str L s"
| "py_int L _ = Inl TypeError"

text \<open>\<^verbatim>\<open>s.rstrip("\n")\<close>\<close>

definition rstrip_nl :: "string \<Rightarrow> string" where
  "rstrip_nl s = rev (dropWhile (\<lambda>c. c = CHR 0x0A) (rev s))"

definition is_ascii :: "string \<Rightarrow> bool" where
  "is_ascii s = list_all (\<lambda>c. (of_char c :: nat) < 128) s"

section \<open>crypto\_decrypt.py\<close>

text \<open>
  \<^verbatim>\<open>b64d(value)\<close> is \<^verbatim>\<open>base64.b64decode(value.encode("ascii"))\<close>: only a str has
  \<^verbatim>\<open>encode\<close>, and only an ASCII str encodes.
\<close>

fun b64d :: "lib \<Rightarrow> json \<Rightarrow> exn + bytes" where
  "b64d L (JStr s) = (if is_ascii s then b64decode L s else Inl UnicodeEncodeError)"
| "b64d L _ = Inl AttributeError"

definition dec_aead_new :: "lib \<Rightarrow> json \<Rightarrow> bytes \<Rightarrow> (cipher \<times> nat) prog" where
  "dec_aead_new L aead key =
     (if aead = JStr ''xchacha20poly1305'' then
        (if \<not> has_xchacha L then raise_io (RuntimeError_not_available XChaCha20Poly1305)
         else bind_io (construct L XChaCha20Poly1305 key) (\<lambda>c. return_io (c, 24)))
      else if aead = JStr ''chacha20poly1305'' then
        (if \<not> has_chacha L then raise_io (RuntimeError_not_available ChaCha20Poly1305)
         else bind_io (construct L ChaCha20Poly1305 key) (\<lambda>c. return_io (c, 12)))
      else raise_io (RuntimeError_unsupported aead))"

text \<open>The three unwrapping layers, lines 66 to 82 of the script.\<close>

definition dec_layers ::
  "lib \<Rightarrow> json \<Rightarrow> bytes \<Rightarrow> bytes \<Rightarrow> bytes \<Rightarrow> bytes \<Rightarrow> bytes \<Rightarrow> int prog" where
  "dec_layers L aead master_key vault_key_enc enc_dek nonce_payload ciphertext =
     bind_io (dec_aead_new L aead master_key) (\<lambda>(wrap_master, nonce_len).
     let nonce_vault = take nonce_len vault_key_enc;
         ct_vault = drop nonce_len vault_key_enc in
     bind_io (catch_io (cipher_decrypt L wrap_master nonce_vault ct_vault [])) (\<lambda>r.
     case r of
       Inl e \<Rightarrow>
         bind_io (emit (Stderr (''decrypt failed (wrong master password?)'' @ nl)))
           (\<lambda>_. return_io 3)
     | Inr vault_key \<Rightarrow>
     bind_io (dec_aead_new L aead vault_key) (\<lambda>(wrap, nonce_len).
     let nonce_dek = take nonce_len enc_dek;
         ct_dek = drop nonce_len enc_dek in
     bind_io (cipher_decrypt L wrap nonce_dek ct_dek []) (\<lambda>dek.
     bind_io (dec_aead_new L aead dek) (\<lambda>(payload_cipher, _).
     bind_io (cipher_decrypt L payload_cipher nonce_payload ciphertext []) (\<lambda>plaintext.
     bind_io (lift_io (utf8_decode L plaintext)) (\<lambda>text.
     bind_io (emit (Stdout (text @ nl))) (\<lambda>_.
     return_io 0))))))))"

text \<open>Lines 43 to 47: the fields of the document, the four blobs decoded.\<close>

definition dec_load :: "lib \<Rightarrow> json \<Rightarrow> exn + (json \<times> bytes \<times> bytes \<times> bytes \<times> bytes)" where
  "dec_load L payload =
     bind_exn (getitem payload ''aead'') (\<lambda>aead.
     bind_exn (bind_exn (getitem payload ''vault_key_enc_b64'') (b64d L)) (\<lambda>vault_key_enc.
     bind_exn (bind_exn (getitem payload ''enc_dek_b64'') (b64d L)) (\<lambda>enc_dek.
     bind_exn (bind_exn (getitem payload ''nonce_payload_b64'') (b64d L)) (\<lambda>nonce_payload.
     bind_exn (bind_exn (getitem payload ''ciphertext_b64'') (b64d L)) (\<lambda>ciphertext.
     Inr (aead, vault_key_enc, enc_dek, nonce_payload, ciphertext))))))"

text \<open>
  Lines 54 to 63: the arguments of the \<^verbatim>\<open>hashlib.scrypt\<close> call, evaluated in the
  order Python evaluates them.
\<close>

definition dec_kdf_args ::
  "lib \<Rightarrow> json \<Rightarrow> string \<Rightarrow> exn + (bytes \<times> bytes \<times> int \<times> int \<times> int \<times> int)" where
  "dec_kdf_args L payload master_password =
     bind_exn (getitem payload ''kdf'') (\<lambda>kdf.
     bind_exn (getitem kdf ''params'') (\<lambda>params.
     bind_exn (bind_exn (getitem kdf ''salt_b64'') (b64d L)) (\<lambda>kdf_salt.
     bind_exn (utf8_encode L master_password) (\<lambda>password.
     bind_exn (bind_exn (getitem params ''n'') (py_int L)) (\<lambda>n.
     bind_exn (bind_exn (getitem params ''r'') (py_int L)) (\<lambda>r.
     bind_exn (bind_exn (getitem params ''p'') (py_int L)) (\<lambda>p.
     bind_exn (bind_exn (getitem params ''dk_len'') (py_int L)) (\<lambda>dklen.
     Inr (password, kdf_salt, n, r, p, dklen)))))))))"

definition dec_main :: "lib \<Rightarrow> demo_file \<Rightarrow> string \<Rightarrow> int prog" where
  "dec_main L demo_json typed =
     (case demo_json of
        Missing \<Rightarrow> bind_io (emit (Stderr (''demo.json not found'' @ nl))) (\<lambda>_. return_io 2)
      | Unparsable \<Rightarrow> raise_io JSONDecodeError
      | Doc payload \<Rightarrow>
     bind_io (lift_io (dec_load L payload))
       (\<lambda>(aead, vault_key_enc, enc_dek, nonce_payload, ciphertext).
     bind_io (getpass ''Master password: '' typed) (\<lambda>master_password.
     if master_password = [] then
       bind_io (emit (Stderr (''master password cannot be empty'' @ nl))) (\<lambda>_. return_io 2)
     else
     bind_io (lift_io (dec_kdf_args L payload master_password))
       (\<lambda>(password, kdf_salt, n, r, p, dklen).
     bind_io (hashlib_scrypt L password kdf_salt n r p dklen) (\<lambda>master_key.
     dec_layers L aead master_key vault_key_enc enc_dek nonce_payload ciphertext)))))"

section \<open>crypto\_encrypt.py\<close>

text \<open>
  The module body picks the AEAD when the script is loaded: the preferred class, else
  the fallback with its shorter nonce, else the import error ends the script.
\<close>

definition enc_import :: "lib \<Rightarrow> (string \<times> nat) prog" where
  "enc_import L =
     (if has_xchacha L then return_io (''xchacha20poly1305'', 24)
      else if has_chacha L then
        bind_io (emit (Stderr
          (''XChaCha20Poly1305 unavailable, falling back to ChaCha20Poly1305 for demo.'' @ nl)))
          (\<lambda>_.
        bind_io (emit (Stderr
          (''This changes nonce length but keeps the envelope flow identical.'' @ nl)))
          (\<lambda>_.
        return_io (''chacha20poly1305'', 12)))
      else
        bind_io (emit (Stderr (''missing dependency: python 'cryptography' (AEAD)'' @ nl)))
          (\<lambda>_.
        bind_io (emit (Stderr (''install: pip install cryptography'' @ nl))) (\<lambda>_.
        raise_io ImportError)))"

definition b64 :: "lib \<Rightarrow> bytes \<Rightarrow> string" where
  "b64 L data = b64encode L data"

definition enc_aead_new :: "lib \<Rightarrow> string \<Rightarrow> bytes \<Rightarrow> cipher prog" where
  "enc_aead_new L AEAD key =
     (if AEAD = ''xchacha20poly1305'' then construct L XChaCha20Poly1305 key
      else construct L ChaCha20Poly1305 key)"

text \<open>The dict \<^verbatim>\<open>kdf_params\<close> of line 51, and \<^verbatim>\<open>d[k]\<close> on it.\<close>

definition kdf_params :: "(string \<times> int) list" where
  "kdf_params = [(''n'', 2 ^ 14), (''r'', 8), (''p'', 1), (''dk_len'', 32)]"

definition dict_get :: "(string \<times> 'a) list \<Rightarrow> string \<Rightarrow> exn + 'a" where
  "dict_get d k = (case map_of d k of None \<Rightarrow> Inl (KeyError k) | Some v \<Rightarrow> Inr v)"

text \<open>The dict \<^verbatim>\<open>out\<close> of lines 76 to 87, one field per key.\<close>

record out_dict =
  out_aead :: string
  out_kdf_type :: string
  out_kdf_salt_b64 :: string
  out_kdf_params :: "(string \<times> int) list"
  out_vault_key_enc_b64 :: string
  out_enc_dek_b64 :: string
  out_nonce_payload_b64 :: string
  out_ciphertext_b64 :: string

text \<open>The document \<^verbatim>\<open>json.dump(out, ...)\<close> stores and \<^verbatim>\<open>json.load\<close> reads back.\<close>

definition params_json :: "(string \<times> int) list \<Rightarrow> json" where
  "params_json d = JObj (map (\<lambda>(k, v). (k, JInt v)) d)"

definition out_json :: "out_dict \<Rightarrow> json" where
  "out_json out =
     JObj [(''aead'', JStr (out_aead out)),
           (''kdf'', JObj [(''type'', JStr (out_kdf_type out)),
                           (''salt_b64'', JStr (out_kdf_salt_b64 out)),
                           (''params'', params_json (out_kdf_params out))]),
           (''vault_key_enc_b64'', JStr (out_vault_key_enc_b64 out)),
           (''enc_dek_b64'', JStr (out_enc_dek_b64 out)),
           (''nonce_payload_b64'', JStr (out_nonce_payload_b64 out)),
           (''ciphertext_b64'', JStr (out_ciphertext_b64 out))]"

text \<open>The text written to \<^verbatim>\<open>demo.jsonc\<close>, one \<^verbatim>\<open>handle.write\<close> per line (lines 91 to 109).\<close>

definition jsonc_text :: "lib \<Rightarrow> out_dict \<Rightarrow> string" where
  "jsonc_text L out = concat
     [''// Demo bundle for crypto_decrypt.py'' @ nl,
      ''// This file is JSONC (JSON with comments).'' @ nl,
      ''{'' @ nl,
      ''  '' @ dq @ ''aead'' @ dq @ '': '' @ dq @ out_aead out @ dq @ '','' @ nl,
      ''  // Base64: nonce_vault || vault_key_enc (vault key wrapped by master key)'' @ nl,
      ''  '' @ dq @ ''vault_key_enc_b64'' @ dq @ '': '' @ dq @ out_vault_key_enc_b64 out
        @ dq @ '','' @ nl,
      ''  // Base64: nonce_dek || ct_dek (per-item DEK wrapped by vault key)'' @ nl,
      ''  '' @ dq @ ''enc_dek_b64'' @ dq @ '': '' @ dq @ out_enc_dek_b64 out @ dq @ '','' @ nl,
      ''  // Base64: payload nonce'' @ nl,
      ''  '' @ dq @ ''nonce_payload_b64'' @ dq @ '': '' @ dq @ out_nonce_payload_b64 out
        @ dq @ '','' @ nl,
      ''  // Base64: encrypted payload (AEAD ciphertext)'' @ nl,
      ''  '' @ dq @ ''ciphertext_b64'' @ dq @ '': '' @ dq @ out_ciphertext_b64 out
        @ dq @ '','' @ nl,
      ''  // KDF parameters used to derive master key (demo only)'' @ nl,
      ''  '' @ dq @ ''kdf'' @ dq @ '': {'' @ nl,
      ''    '' @ dq @ ''type'' @ dq @ '': '' @ dq @ out_kdf_type out @ dq @ '','' @ nl,
      ''    '' @ dq @ ''salt_b64'' @ dq @ '': '' @ dq @ out_kdf_salt_b64 out @ dq @ '','' @ nl,
      ''    '' @ dq @ ''params'' @ dq @ '': ''
        @ json_dumps L (params_json (out_kdf_params out)) @ nl,
      ''  }'' @ nl,
      ''}'' @ nl]"

definition enc_main :: "lib \<Rightarrow> string \<Rightarrow> nat \<Rightarrow> string \<Rightarrow> string \<Rightarrow> int prog" where
  "enc_main L AEAD NonceLen stdin_line typed =
     bind_io (emit (Stdout (''Enter plaintext to encrypt:'' @ nl))) (\<lambda>_.
     bind_io (emit ReadLine) (\<lambda>_.
     bind_io (lift_io (utf8_encode L (rstrip_nl stdin_line))) (\<lambda>plaintext.
     if plaintext = [] then
       bind_io (emit (Stderr (''plaintext cannot be empty'' @ nl))) (\<lambda>_. return_io 2)
     else
     bind_io (getpass ''Master password: '' typed) (\<lambda>master_password.
     if master_password = [] then
       bind_io (emit (Stderr (''master password cannot be empty'' @ nl))) (\<lambda>_. return_io 2)
     else
     bind_io (urandom 16) (\<lambda>kdf_salt.
     bind_io (lift_io (utf8_encode L master_password)) (\<lambda>password.
     bind_io (lift_io (dict_get kdf_params ''n'')) (\<lambda>n.
     bind_io (lift_io (dict_get kdf_params ''r'')) (\<lambda>r.
     bind_io (lift_io (dict_get kdf_params ''p'')) (\<lambda>p.
     bind_io (lift_io (dict_get kdf_params ''dk_len'')) (\<lambda>dklen.
     bind_io (hashlib_scrypt L password kdf_salt n r p dklen) (\<lambda>master_key.
     bind_io (urandom 32) (\<lambda>vault_key.
     bind_io (urandom NonceLen) (\<lambda>nonce_vault.
     bind_io (enc_aead_new L AEAD master_key) (\<lambda>wrap_master.
     bind_io (cipher_encrypt L wrap_master nonce_vault vault_key []) (\<lambda>vault_key_enc.
     bind_io (urandom 32) (\<lambda>dek.
     bind_io (urandom NonceLen) (\<lambda>nonce_dekwrap.
     bind_io (enc_aead_new L AEAD vault_key) (\<lambda>wrap.
     bind_io (cipher_encrypt L wrap nonce_dekwrap dek []) (\<lambda>ct_dekwrap.
     let enc_dek = nonce_dekwrap @ ct_dekwrap in
     bind_io (urandom NonceLen) (\<lambda>nonce_payload.
     bind_io (enc_aead_new L AEAD dek) (\<lambda>payload_cipher.
     bind_io (cipher_encrypt L payload_cipher nonce_payload plaintext []) (\<lambda>ciphertext.
     let out = \<lparr>out_aead = AEAD,
                out_kdf_type = ''scrypt'',
                out_kdf_salt_b64 = b64 L kdf_salt,
                out_kdf_params = kdf_params,
                out_vault_key_enc_b64 = b64 L (nonce_vault @ vault_key_enc),
                out_enc_dek_b64 = b64 L enc_dek,
                out_nonce_payload_b64 = b64 L nonce_payload,
                out_ciphertext_b64 = b64 L ciphertext\<rparr> in
     bind_io (emit (WriteFile ''demo.json'' (Json (out_json out)))) (\<lambda>_.
     bind_io (emit (WriteFile ''demo.jsonc'' (Text (jsonc_text L out)))) (\<lambda>_.
     bind_io (emit (Stdout (''Wrote demo.json and demo.jsonc'' @ nl))) (\<lambda>_.
     return_io 0)))))))))))))))))))))))))"

text \<open>Running the script: the module body, then \<^verbatim>\<open>main()\<close>.\<close>

definition enc_script :: "lib \<Rightarrow> string \<Rightarrow> string \<Rightarrow> int prog" where
  "enc_script L stdin_line typed =
     bind_io (enc_import L) (\<lambda>(AEAD, NonceLen). enc_main L AEAD NonceLen stdin_line typed)"

section \<open>Observing a run\<close>

text \<open>A script starts with nothing done yet; \<open>g\<close> is what \<^verbatim>\<open>os.urandom\<close> will deliver.\<close>

definition start :: "(nat \<Rightarrow> byte) \<Rightarrow> world" where
  "start g = \<lparr>trace = [], entropy = g\<rparr>"

text \<open>
  The cryptographic work of a run: random key material, key derivation, and every
  construction or use of an AEAD object.
\<close>

fun is_crypto_op :: "event \<Rightarrow> bool" where
  "is_crypto_op (Urandom n) = True"
| "is_crypto_op (Scrypt pw salt n r p dklen) = True"
| "is_crypto_op (Construct alg key) = True"
| "is_crypto_op (Encrypt alg key nonce data aad) = True"
| "is_crypto_op (Decrypt alg key nonce data aad) = True"
| "is_crypto_op _ = False"

definition crypto_ops :: "event list \<Rightarrow> event list" where
  "crypto_ops tr = filter is_crypto_op tr"

fun stdout_of :: "event list \<Rightarrow> string list" where
  "stdout_of [] = []"
| "stdout_of (Stdout s # tr) = s # stdout_of tr"
| "stdout_of (_ # tr) = stdout_of tr"

fun stderr_of :: "event list \<Rightarrow> string list" where
  "stderr_of [] = []"
| "stderr_of (Stderr s # tr) = s # stderr_of tr"
| "stderr_of (_ # tr) = stderr_of tr"

fun written :: "string \<Rightarrow> event list \<Rightarrow> content list" where
  "written name [] = []"
| "written name (WriteFile f c # tr) = (if f = name then c # written name tr else written name tr)"
| "written name (_ # tr) = written name tr"

section \<open>Reading the annotated rendering\<close>

text \<open>
  What a reader of \<^verbatim>\<open>demo.jsonc\<close> finds for a key: the text is cut at the newlines,
  the lines whose first characters after the indentation are \<^verbatim>\<open>//\<close> are skipped, and
  the first remaining line that, after its indentation, starts with the quoted key, a
  colon and a space yields what follows, without the comma that may end the line. This
  reader is not part of the scripts; it states what ``the value the rendering carries
  for a field'' means.
\<close>

fun split_lines :: "string \<Rightarrow> string list" where
  "split_lines [] = []"
| "split_lines (c # cs) =
     (if c = CHR 0x0A then [] # split_lines cs
      else (case split_lines cs of [] \<Rightarrow> [[c]] | l # ls \<Rightarrow> (c # l) # ls))"

definition strip_indent :: "string \<Rightarrow> string" where
  "strip_indent l = dropWhile (\<lambda>c. c = CHR '' '') l"

definition is_comment :: "string \<Rightarrow> bool" where
  "is_comment l = (take 2 (strip_indent l) = ''//'')"

definition strip_comma :: "string \<Rightarrow> string" where
  "strip_comma l = (if l \<noteq> [] \<and> last l = CHR '','' then butlast l else l)"

definition entry_value :: "string \<Rightarrow> string \<Rightarrow> string option" where
  "entry_value key l =
     (let prefix = dq @ key @ dq @ '': '' in
      if take (length prefix) (strip_indent l) = prefix
      then Some (strip_comma (drop (length prefix) (strip_indent l)))
      else None)"

fun first_value :: "string \<Rightarrow> string list \<Rightarrow> string option" where
  "first_value key [] = None"
| "first_value key (l # ls) =
     (if is_comment l then first_value key ls
      else (case entry_value key l of Some v \<Rightarrow> Some v | None \<Rightarrow> first_value key ls))"

definition jsonc_field :: "string \<Rightarrow> string \<Rightarrow> string option" where
  "jsonc_field key text = first_value key (split_lines text)"

definition one_line :: "string \<Rightarrow> bool" where
  "one_line s \<longleftrightarrow> CHR 0x0A \<notin> set s"

text \<open>The lines of \<^verbatim>\<open>jsonc_text\<close>, without the newline that ends each.\<close>

definition jsonc_lines :: "lib \<Rightarrow> out_dict \<Rightarrow> string list" where
  "jsonc_lines L out =
     [''// Demo bundle for crypto_decrypt.py'',
      ''// This file is JSONC (JSON with comments).'',
      ''{'',
      ''  '' @ dq @ ''aead'' @ dq @ '': '' @ dq @ out_aead out @ dq @ '','',
      ''  // Base64: nonce_vault || vault_key_enc (vault key wrapped by master key)'',
      ''  '' @ dq @ ''vault_key_enc_b64'' @ dq @ '': '' @ dq @ out_vault_key_enc_b64 out
        @ dq @ '','',
      ''  // Base64: nonce_dek || ct_dek (per-item DEK wrapped by vault key)'',
      ''  '' @ dq @ ''enc_dek_b64'' @ dq @ '': '' @ dq @ out_enc_dek_b64 out @ dq @ '','',
      ''  // Base64: payload nonce'',
      ''  '' @ dq @ ''nonce_payload_b64'' @ dq @ '': '' @ dq @ out_nonce_payload_b64 out
        @ dq @ '','',
      ''  // Base64: encrypted payload (AEAD ciphertext)'',
      ''  '' @ dq @ ''ciphertext_b64'' @ dq @ '': '' @ dq @ out_ciphertext_b64 out
        @ dq @ '','',
      ''  // KDF parameters used to derive master key (demo only)'',
      ''  '' @ dq @ ''kdf'' @ dq @ '': {'',
      ''    '' @ dq @ ''type'' @ dq @ '': '' @ dq @ out_kdf_type out @ dq @ '','',
      ''    '' @ dq @ ''salt_b64'' @ dq @ '': '' @ dq @ out_kdf_salt_b64 out @ dq @ '','',
      ''    '' @ dq @ ''params'' @ dq @ '': ''
        @ json_dumps L (params_json (out_kdf_params out)),
      ''  }'',
      ''}'']"

section \<open>What the scripts rely on from the library\<close>

text \<open>
  The nonce length each AEAD class demands (24 bytes for XChaCha20-Poly1305, 12 for
  ChaCha20-Poly1305); both classes take a 32-byte key.
\<close>

fun lib_nonce_len :: "aead_alg \<Rightarrow> nat" where
  "lib_nonce_len XChaCha20Poly1305 = 24"
| "lib_nonce_len ChaCha20Poly1305 = 12"

text \<open>Base64 text is ASCII and decodes to the bytes it encodes.\<close>

definition b64_roundtrip :: "lib \<Rightarrow> bool" where
  "b64_roundtrip L \<longleftrightarrow>
     (\<forall>x. is_ascii (b64encode L x) \<and> b64decode L (b64encode L x) = Inr x)"

text \<open>
  With a 32-byte key and a nonce of the demanded length, the class is constructed,
  encrypts, and decrypts its own ciphertext to the data.
\<close>

definition aead_sound :: "lib \<Rightarrow> bool" where
  "aead_sound L \<longleftrightarrow>
     (\<forall>alg key nonce data.
        length key = 32 \<and> length nonce = lib_nonce_len alg \<longrightarrow>
        aead_init L alg key = None \<and>
        (\<exists>ct. aead_encrypt L alg key nonce data [] = Inr ct \<and>
              aead_decrypt L alg key nonce ct [] = Inr data))"

text \<open>With the parameters of \<^verbatim>\<open>kdf_params\<close>, scrypt returns a key of 32 bytes.\<close>

definition scrypt_total :: "lib \<Rightarrow> bool" where
  "scrypt_total L \<longleftrightarrow>
     (\<forall>pw salt. \<exists>k. scrypt L pw salt (2 ^ 14) 8 1 32 = Inr k \<and> length k = 32)"

text \<open>The AEAD refuses to decrypt with a nonce that has not the length it demands.\<close>

definition rejects_bad_nonce :: "lib \<Rightarrow> bool" where
  "rejects_bad_nonce L \<longleftrightarrow>
     (\<forall>alg key nonce data aad.
        length nonce \<noteq> lib_nonce_len alg \<longrightarrow>
        (\<exists>e. aead_decrypt L alg key nonce data aad = Inl e))"

text \<open>
  The AEAD refuses to decrypt under a 32-byte key what was encrypted under another: the
  authentication of the primitive, taken as exact.
\<close>

definition rejects_wrong_key :: "lib \<Rightarrow> bool" where
  "rejects_wrong_key L \<longleftrightarrow>
     (\<forall>alg k1 k2 nonce data ct.
        length k1 = 32 \<and> length k2 = 32 \<and> k1 \<noteq> k2 \<and>
        aead_encrypt L alg k1 nonce data [] = Inr ct \<longrightarrow>
        (\<exists>e. aead_decrypt L alg k2 nonce ct [] = Inl e))"

text \<open>Base64 text holds no newline.\<close>

definition b64_one_line :: "lib \<Rightarrow> bool" where
  "b64_one_line L \<longleftrightarrow> (\<forall>x. one_line (b64encode L x))"

text \<open>
  \<^verbatim>\<open>json.dumps\<close> without \<^verbatim>\<open>indent\<close> renders \<^verbatim>\<open>kdf_params\<close> on one line, which does not
  end with a comma (it ends with the closing brace).
\<close>

definition params_one_line :: "lib \<Rightarrow> bool" where
  "params_one_line L \<longleftrightarrow>
     one_line (json_dumps L (params_json kdf_params)) \<and>
     strip_comma (json_dumps L (params_json kdf_params))
       = json_dumps L (params_json kdf_params)"

section \<open>A small library instance\<close>

text \<open>
  An executable stand-in for the library, to run the scripts on concrete inputs. It
  keeps the interface and the checks of the real one (key and nonce lengths, rejection
  of a ciphertext made under another key or nonce) and none of its secrecy: the tag of
  a ciphertext is the key and nonce themselves, and the key derivation is the salt
  followed by the password, padded with zero bytes (as the HMAC inside scrypt pads the
  password it is keyed with). The text encoding is base64. The instance has the fallback
  AEAD only, and its \<^verbatim>\<open>int\<close> accepts no string (the sealer writes the KDF parameters
  as integers).
\<close>

definition toy_utf8_encode :: "string \<Rightarrow> exn + bytes" where
  "toy_utf8_encode s = (if is_ascii s then Inr (map of_char s) else Inl UnicodeEncodeError)"

definition toy_utf8_decode :: "bytes \<Rightarrow> exn + string" where
  "toy_utf8_decode b =
     (if list_all (\<lambda>x. x < 128) b then Inr (map (\<lambda>x. char_of (unat x)) b)
      else Inl UnicodeDecodeError)"

text \<open>
  Base64 as RFC 4648 has it: three bytes become four characters of the alphabet, and a
  last group of one or two bytes is padded with \<^verbatim>\<open>=\<close>. The decoder is strict: it takes
  whole groups of four characters of the alphabet, padded at the end only, and raises
  on anything else.
\<close>

definition b64_alphabet :: string where
  "b64_alphabet = ''ABCDEFGHIJKLMNOPQRSTUVWXYZabcdefghijklmnopqrstuvwxyz0123456789+/''"

definition b64_char :: "nat \<Rightarrow> char" where
  "b64_char i = b64_alphabet ! i"

fun index_of :: "char \<Rightarrow> string \<Rightarrow> nat option" where
  "index_of c [] = None"
| "index_of c (d # ds) = (if c = d then Some 0 else map_option Suc (index_of c ds))"

definition b64_index :: "char \<Rightarrow> nat option" where
  "b64_index c = index_of c b64_alphabet"

definition sextet1 :: "byte \<Rightarrow> nat" where
  "sextet1 a = unat a div 4"

definition sextet2 :: "byte \<Rightarrow> byte \<Rightarrow> nat" where
  "sextet2 a b = unat a mod 4 * 16 + unat b div 16"

definition sextet3 :: "byte \<Rightarrow> byte \<Rightarrow> nat" where
  "sextet3 b c = unat b mod 16 * 4 + unat c div 64"

definition sextet4 :: "byte \<Rightarrow> nat" where
  "sextet4 c = unat c mod 64"

definition octet1 :: "nat \<Rightarrow> nat \<Rightarrow> byte" where
  "octet1 i1 i2 = of_nat (i1 * 4 + i2 div 16)"

definition octet2 :: "nat \<Rightarrow> nat \<Rightarrow> byte" where
  "octet2 i2 i3 = of_nat (i2 mod 16 * 16 + i3 div 4)"

definition octet3 :: "nat \<Rightarrow> nat \<Rightarrow> byte" where
  "octet3 i3 i4 = of_nat (i3 mod 4 * 64 + i4)"

fun toy_b64encode :: "bytes \<Rightarrow> string" where
  "toy_b64encode [] = []"
| "toy_b64encode [a] =
     [b64_char (sextet1 a), b64_char (sextet2 a 0), CHR ''='', CHR ''='']"
| "toy_b64encode [a, b] =
     [b64_char (sextet1 a), b64_char (sextet2 a b), b64_char (sextet3 b 0), CHR ''='']"
| "toy_b64encode (a # b # c # xs) =
     [b64_char (sextet1 a), b64_char (sextet2 a b), b64_char (sextet3 b c),
      b64_char (sextet4 c)] @ toy_b64encode xs"

fun toy_b64decode :: "string \<Rightarrow> exn + bytes" where
  "toy_b64decode [] = Inr []"
| "toy_b64decode (c1 # c2 # c3 # c4 # cs) =
     (case (b64_index c1, b64_index c2) of
        (Some i1, Some i2) \<Rightarrow>
          (if c3 = CHR ''='' \<and> c4 = CHR ''='' \<and> cs = [] then Inr [octet1 i1 i2]
           else
             (case b64_index c3 of
                None \<Rightarrow> Inl BinasciiError
              | Some i3 \<Rightarrow>
                  (if c4 = CHR ''='' \<and> cs = [] then Inr [octet1 i1 i2, octet2 i2 i3]
                   else
                     (case b64_index c4 of
                        None \<Rightarrow> Inl BinasciiError
                      | Some i4 \<Rightarrow>
                          (case toy_b64decode cs of
                             Inl e \<Rightarrow> Inl e
                           | Inr xs \<Rightarrow>
                               Inr (octet1 i1 i2 # octet2 i2 i3 # octet3 i3 i4 # xs))))))
      | _ \<Rightarrow> Inl BinasciiError)"
| "toy_b64decode _ = Inl BinasciiError"

definition toy_scrypt :: "bytes \<Rightarrow> bytes \<Rightarrow> int \<Rightarrow> int \<Rightarrow> int \<Rightarrow> int \<Rightarrow> exn + bytes" where
  "toy_scrypt pw salt n r p dklen =
     (if n < 2 \<or> r < 1 \<or> p < 1 \<or> dklen < 1 then Inl ValueError
      else Inr (take (nat dklen) (salt @ pw @ replicate (nat dklen) 0)))"

definition toy_init :: "aead_alg \<Rightarrow> bytes \<Rightarrow> exn option" where
  "toy_init alg key = (if length key = 32 then None else Some ValueError)"

definition toy_encrypt :: "aead_alg \<Rightarrow> bytes \<Rightarrow> bytes \<Rightarrow> bytes \<Rightarrow> bytes \<Rightarrow> exn + bytes" where
  "toy_encrypt alg key nonce data aad =
     (if length nonce \<noteq> lib_nonce_len alg then Inl ValueError
      else Inr (key @ nonce @ aad @ data))"

definition toy_decrypt :: "aead_alg \<Rightarrow> bytes \<Rightarrow> bytes \<Rightarrow> bytes \<Rightarrow> bytes \<Rightarrow> exn + bytes" where
  "toy_decrypt alg key nonce data aad =
     (if length nonce \<noteq> lib_nonce_len alg then Inl ValueError
      else if take (length (key @ nonce @ aad)) data = key @ nonce @ aad
        then Inr (drop (length (key @ nonce @ aad)) data)
      else Inl InvalidTag)"

text \<open>
  The serializer of the instance: decimal integers, strings between quotes without
  escapes, and the entries of an object sorted by key and separated by a comma and a
  space, as \<^verbatim>\<open>json.dumps(..., sort_keys=True)\<close> lays them out.
\<close>

fun toy_digits :: "nat \<Rightarrow> string" where
  "toy_digits n =
     (if n < 10 then [''0123456789'' ! n]
      else toy_digits (n div 10) @ [''0123456789'' ! (n mod 10)])"

declare toy_digits.simps [simp del]

fun toy_join :: "string list \<Rightarrow> string" where
  "toy_join [] = []"
| "toy_join [x] = x"
| "toy_join (x # y # ys) = x @ '', '' @ toy_join (y # ys)"

fun key_le :: "string \<Rightarrow> string \<Rightarrow> bool" where
  "key_le [] _ = True"
| "key_le (c # cs) [] = False"
| "key_le (c # cs) (d # ds) =
     ((of_char c :: nat) < of_char d \<or> (of_char c :: nat) = of_char d \<and> key_le cs ds)"

fun key_insert :: "string \<times> 'a \<Rightarrow> (string \<times> 'a) list \<Rightarrow> (string \<times> 'a) list" where
  "key_insert x [] = [x]"
| "key_insert x (y # ys) = (if key_le (fst x) (fst y) then x # y # ys else y # key_insert x ys)"

definition sort_keys :: "(string \<times> 'a) list \<Rightarrow> (string \<times> 'a) list" where
  "sort_keys kvs = foldr key_insert kvs []"

fun toy_dumps :: "json \<Rightarrow> string" where
  "toy_dumps JNull = ''null''"
| "toy_dumps (JBool b) = (if b then ''true'' else ''false'')"
| "toy_dumps (JInt i) = (if i < 0 then ''-'' else []) @ toy_digits (nat \<bar>i\<bar>)"
| "toy_dumps (JStr s) = dq @ s @ dq"
| "toy_dumps (JArr vs) = ''['' @ toy_join (map toy_dumps vs) @ '']''"
| "toy_dumps (JObj kvs) =
     ''{'' @ toy_join (map snd (sort_keys
              (map (\<lambda>(k, v). (k, dq @ k @ dq @ '': '' @ toy_dumps v)) kvs))) @ ''}''"

definition toy_lib :: lib where
  "toy_lib =
     \<lparr>has_xchacha = False,
      has_chacha = True,
      utf8_encode = toy_utf8_encode,
      utf8_decode = toy_utf8_decode,
      b64encode = toy_b64encode,
      b64decode = toy_b64decode,
      int_of_str = (\<lambda>s. Inl ValueError),
      json_dumps = toy_dumps,
      scrypt = toy_scrypt,
      aead_init = toy_init,
      aead_encrypt = toy_encrypt,
      aead_decrypt = toy_decrypt\<rparr>"

text \<open>A document with the five top-level fields and no \<^verbatim>\<open>kdf\<close> entry.\<close>

definition small_doc :: json where
  "small_doc = JObj [(''aead'', JStr ''chacha20poly1305''),
                     (''vault_key_enc_b64'', JStr ''AAAB''),
                     (''enc_dek_b64'', JStr ''AAAC''),
                     (''nonce_payload_b64'', JStr ''AAAD''),
                     (''ciphertext_b64'', JStr ''AAAE'')]"

section \<open>What a sealing run computes\<close>

text \<open>
  The values of one run of the sealer: the algorithm it selected, the random salt, keys
  and nonces it drew, the master key it derived, and the three ciphertexts. \<open>sealing_ok\<close>
  says they are related as the script computes them from the password bytes \<open>pw\<close> and
  the payload \<open>P\<close>; \<open>sealing_out\<close> is the dict \<^verbatim>\<open>out\<close> built from them, and
  \<open>sealing_trace\<close> the events of the run from the first prompt on.
\<close>

record sealing =
  s_AEAD :: string
  s_NonceLen :: nat
  s_alg :: aead_alg
  s_kdf_salt :: bytes
  s_master_key :: bytes
  s_vault_key :: bytes
  s_nonce_vault :: bytes
  s_vault_key_enc :: bytes
  s_dek :: bytes
  s_nonce_dek :: bytes
  s_ct_dek :: bytes
  s_nonce_payload :: bytes
  s_ciphertext :: bytes

definition sealing_ok :: "lib \<Rightarrow> bytes \<Rightarrow> bytes \<Rightarrow> sealing \<Rightarrow> bool" where
  "sealing_ok L pw P s \<longleftrightarrow>
     (s_AEAD s = ''xchacha20poly1305'' \<and> s_NonceLen s = 24 \<and> s_alg s = XChaCha20Poly1305
        \<and> has_xchacha L
      \<or> s_AEAD s = ''chacha20poly1305'' \<and> s_NonceLen s = 12 \<and> s_alg s = ChaCha20Poly1305
        \<and> \<not> has_xchacha L \<and> has_chacha L) \<and>
     length (s_kdf_salt s) = 16 \<and>
     length (s_vault_key s) = 32 \<and> length (s_dek s) = 32 \<and>
     length (s_nonce_vault s) = s_NonceLen s \<and>
     length (s_nonce_dek s) = s_NonceLen s \<and>
     length (s_nonce_payload s) = s_NonceLen s \<and>
     scrypt L pw (s_kdf_salt s) 16384 8 1 32 = Inr (s_master_key s) \<and>
     aead_init L (s_alg s) (s_master_key s) = None \<and>
     aead_encrypt L (s_alg s) (s_master_key s) (s_nonce_vault s) (s_vault_key s) []
       = Inr (s_vault_key_enc s) \<and>
     aead_init L (s_alg s) (s_vault_key s) = None \<and>
     aead_encrypt L (s_alg s) (s_vault_key s) (s_nonce_dek s) (s_dek s) []
       = Inr (s_ct_dek s) \<and>
     aead_init L (s_alg s) (s_dek s) = None \<and>
     aead_encrypt L (s_alg s) (s_dek s) (s_nonce_payload s) P [] = Inr (s_ciphertext s)"

definition sealing_out :: "lib \<Rightarrow> sealing \<Rightarrow> out_dict" where
  "sealing_out L s =
     \<lparr>out_aead = s_AEAD s,
      out_kdf_type = ''scrypt'',
      out_kdf_salt_b64 = b64encode L (s_kdf_salt s),
      out_kdf_params = kdf_params,
      out_vault_key_enc_b64 = b64encode L (s_nonce_vault s @ s_vault_key_enc s),
      out_enc_dek_b64 = b64encode L (s_nonce_dek s @ s_ct_dek s),
      out_nonce_payload_b64 = b64encode L (s_nonce_payload s),
      out_ciphertext_b64 = b64encode L (s_ciphertext s)\<rparr>"

definition sealing_trace :: "lib \<Rightarrow> bytes \<Rightarrow> bytes \<Rightarrow> sealing \<Rightarrow> event list" where
  "sealing_trace L pw P s =
     [Stdout (''Enter plaintext to encrypt:'' @ nl), ReadLine,
      Getpass ''Master password: '',
      Urandom 16, Scrypt pw (s_kdf_salt s) 16384 8 1 32,
      Urandom 32, Urandom (s_NonceLen s),
      Construct (s_alg s) (s_master_key s),
      Encrypt (s_alg s) (s_master_key s) (s_nonce_vault s) (s_vault_key s) [],
      Urandom 32, Urandom (s_NonceLen s),
      Construct (s_alg s) (s_vault_key s),
      Encrypt (s_alg s) (s_vault_key s) (s_nonce_dek s) (s_dek s) [],
      Urandom (s_NonceLen s),
      Construct (s_alg s) (s_dek s),
      Encrypt (s_alg s) (s_dek s) (s_nonce_payload s) P [],
      WriteFile ''demo.json'' (Json (out_json (sealing_out L s))),
      WriteFile ''demo.jsonc'' (Text (jsonc_text L (sealing_out L s))),
      Stdout (''Wrote demo.json and demo.jsonc'' @ nl)]"

text \<open>
  The entropy source after the six \<^verbatim>\<open>os.urandom\<close> calls of a run, and the two notices
  the module body prints when it falls back to ChaCha20-Poly1305.
\<close>

definition entropy_after :: "(nat \<Rightarrow> byte) \<Rightarrow> nat \<Rightarrow> (nat \<Rightarrow> byte)" where
  "entropy_after g NonceLen =
     shift (shift (shift (shift (shift (shift g 16) 32) NonceLen) 32) NonceLen) NonceLen"

definition fallback_notice :: "lib \<Rightarrow> event list" where
  "fallback_notice L =
     (if has_xchacha L then []
      else [Stderr (''XChaCha20Poly1305 unavailable, falling back to ChaCha20Poly1305 for demo.''
                    @ nl),
            Stderr (''This changes nonce length but keeps the envelope flow identical.'' @ nl)])"

text \<open>
  More observations of a trace: the key derivations, the keys AEAD objects were built
  from, the encryptions and the decryptions, each in the order of the run.
\<close>

fun kdf_calls :: "event list \<Rightarrow> event list" where
  "kdf_calls [] = []"
| "kdf_calls (Scrypt pw salt n r p dklen # tr) = Scrypt pw salt n r p dklen # kdf_calls tr"
| "kdf_calls (_ # tr) = kdf_calls tr"

fun aead_keys :: "event list \<Rightarrow> bytes list" where
  "aead_keys [] = []"
| "aead_keys (Construct alg key # tr) = key # aead_keys tr"
| "aead_keys (_ # tr) = aead_keys tr"

fun encryptions :: "event list \<Rightarrow> event list" where
  "encryptions [] = []"
| "encryptions (Encrypt alg key nonce data aad # tr) =
     Encrypt alg key nonce data aad # encryptions tr"
| "encryptions (_ # tr) = encryptions tr"

fun decryptions :: "event list \<Rightarrow> event list" where
  "decryptions [] = []"
| "decryptions (Decrypt alg key nonce data aad # tr) =
     Decrypt alg key nonce data aad # decryptions tr"
| "decryptions (_ # tr) = decryptions tr"

section \<open>A worked example\<close>

text \<open>
  The sealer run on the line \<^verbatim>\<open>hello vault\<close> with the password \<^verbatim>\<open>correct horse\<close>,
  the small library, and an entropy source that counts 0, 1, 2, ...: the values the run
  draws and computes.
\<close>

definition example_entropy :: "nat \<Rightarrow> byte" where
  "example_entropy i = of_nat i"

definition example_sealing :: sealing where
  "example_sealing =
     \<lparr>s_AEAD = ''chacha20poly1305'', s_NonceLen = 12, s_alg = ChaCha20Poly1305,
      s_kdf_salt = map of_nat [0..<16],
      s_master_key = map of_nat [0..<16] @ map of_char ''correct horse'' @ [0, 0, 0],
      s_vault_key = map of_nat [16..<48],
      s_nonce_vault = map of_nat [48..<60],
      s_vault_key_enc =
        (map of_nat [0..<16] @ map of_char ''correct horse'' @ [0, 0, 0])
        @ map of_nat [48..<60] @ map of_nat [16..<48],
      s_dek = map of_nat [60..<92],
      s_nonce_dek = map of_nat [92..<104],
      s_ct_dek = map of_nat [16..<48] @ map of_nat [92..<104] @ map of_nat [60..<92],
      s_nonce_payload = map of_nat [104..<116],
      s_ciphertext =
        map of_nat [60..<92] @ map of_nat [104..<116] @ map of_char ''hello vault''\<rparr>"

text \<open>
  The sealed envelope of the example with one bit flipped: bit \<open>k\<close> of byte \<open>i\<close> of a
  blob, in the vault-key wrap, in the DEK wrap, and in the payload ciphertext.
\<close>

definition flip_bit_at :: "nat \<Rightarrow> nat \<Rightarrow> bytes \<Rightarrow> bytes" where
  "flip_bit_at i k xs = xs[i := xor (xs ! i) (push_bit k 1)]"

definition tampered_vault :: json where
  "tampered_vault =
     out_json ((sealing_out toy_lib example_sealing)
       \<lparr>out_vault_key_enc_b64 :=
          b64 toy_lib (flip_bit_at 12 0
            (s_nonce_vault example_sealing @ s_vault_key_enc example_sealing))\<rparr>)"

definition tampered_dek :: json where
  "tampered_dek =
     out_json ((sealing_out toy_lib example_sealing)
       \<lparr>out_enc_dek_b64 :=
          b64 toy_lib (flip_bit_at 12 0
            (s_nonce_dek example_sealing @ s_ct_dek example_sealing))\<rparr>)"

definition tampered_payload :: json where
  "tampered_payload =
     out_json ((sealing_out toy_lib example_sealing)
       \<lparr>out_ciphertext_b64 :=
          b64 toy_lib (flip_bit_at 0 0 (s_ciphertext example_sealing))\<rparr>)"

text \<open>
  Documents with a structural defect: an algorithm identifier the opener does not know,
  no \<^verbatim>\<open>aead\<close> field, and a blob that is not base64 (a single character).
\<close>

definition unknown_aead_doc :: json where
  "unknown_aead_doc =
     JObj [(''aead'', JStr ''aes256gcm''),
           (''kdf'', JObj [(''type'', JStr ''scrypt''),
                           (''salt_b64'', JStr ''AAAB''),
                           (''params'', params_json kdf_params)]),
           (''vault_key_enc_b64'', JStr ''AAAB''),
           (''enc_dek_b64'', JStr ''AAAC''),
           (''nonce_payload_b64'', JStr ''AAAD''),
           (''ciphertext_b64'', JStr ''AAAE'')]"

definition no_aead_doc :: json where
  "no_aead_doc =
     JObj [(''vault_key_enc_b64'', JStr ''AAAB''),
           (''enc_dek_b64'', JStr ''AAAC''),
           (''nonce_payload_b64'', JStr ''AAAD''),
           (''ciphertext_b64'', JStr ''AAAE'')]"

definition bad_base64_doc :: json where
  "bad_base64_doc =
     JObj [(''aead'', JStr ''chacha20poly1305''),
           (''vault_key_enc_b64'', JStr ''AAAB''),
           (''enc_dek_b64'', JStr ''A''),
           (''nonce_payload_b64'', JStr ''AAAD''),
           (''ciphertext_b64'', JStr ''AAAE'')]"

text \<open>
  Documents with a defect in the \<^verbatim>\<open>kdf\<close> section: no \<^verbatim>\<open>params\<close>, a salt that is not
  base64, and no parameter \<^verbatim>\<open>n\<close>.
\<close>

definition no_params_doc :: json where
  "no_params_doc =
     JObj [(''aead'', JStr ''chacha20poly1305''),
           (''kdf'', JObj [(''type'', JStr ''scrypt''), (''salt_b64'', JStr ''AAAB'')]),
           (''vault_key_enc_b64'', JStr ''AAAB''),
           (''enc_dek_b64'', JStr ''AAAC''),
           (''nonce_payload_b64'', JStr ''AAAD''),
           (''ciphertext_b64'', JStr ''AAAE'')]"

definition bad_salt_doc :: json where
  "bad_salt_doc =
     JObj [(''aead'', JStr ''chacha20poly1305''),
           (''kdf'', JObj [(''type'', JStr ''scrypt''),
                           (''salt_b64'', JStr ''A''),
                           (''params'', params_json kdf_params)]),
           (''vault_key_enc_b64'', JStr ''AAAB''),
           (''enc_dek_b64'', JStr ''AAAC''),
           (''nonce_payload_b64'', JStr ''AAAD''),
           (''ciphertext_b64'', JStr ''AAAE'')]"

definition no_n_doc :: json where
  "no_n_doc =
     JObj [(''aead'', JStr ''chacha20poly1305''),
           (''kdf'', JObj [(''type'', JStr ''scrypt''),
                           (''salt_b64'', JStr ''AAAB''),
                           (''params'', JObj [(''r'', JInt 8), (''p'', JInt 1),
                                              (''dk_len'', JInt 32)])]),
           (''vault_key_enc_b64'', JStr ''AAAB''),
           (''enc_dek_b64'', JStr ''AAAC''),
           (''nonce_payload_b64'', JStr ''AAAD''),
           (''ciphertext_b64'', JStr ''AAAE'')]"

text \<open>
  A document whose \<^verbatim>\<open>kdf\<close> section stores parameters other than the sealer's.
\<close>

definition custom_kdf_doc :: json where
  "custom_kdf_doc =
     JObj [(''aead'', JStr ''chacha20poly1305''),
           (''kdf'', JObj [(''type'', JStr ''scrypt''),
                           (''salt_b64'', JStr ''AAAB''),
                           (''params'', JObj [(''n'', JInt 1024), (''r'', JInt 4),
                                              (''p'', JInt 2), (''dk_len'', JInt 32)])]),
           (''vault_key_enc_b64'', JStr ''AAAB''),
           (''enc_dek_b64'', JStr ''AAAC''),
           (''nonce_payload_b64'', JStr ''AAAD''),
           (''ciphertext_b64'', JStr ''AAAE'')]"

text \<open>
  The sealed envelope of the example with a wrapped-key blob of three bytes, in the
  vault-key wrap and in the DEK wrap.
\<close>

definition short_vault_doc :: json where
  "short_vault_doc =
     out_json ((sealing_out toy_lib example_sealing)\<lparr>out_vault_key_enc_b64 := ''AAAB''\<rparr>)"

definition short_dek_doc :: json where
  "short_dek_doc =
     out_json ((sealing_out toy_lib example_sealing)\<lparr>out_enc_dek_b64 := ''AAAB''\<rparr>)"

section \<open>Basic facts about the effect combinators\<close>

lemma bind_exn_Inr [simp]: "bind_exn (Inr a) f = f a"
  by (simp add: bind_exn_def)

lemma bind_exn_Inl [simp]: "bind_exn (Inl e) f = Inl e"
  by (simp add: bind_exn_def)

lemma bind_io_return [simp]: "bind_io (return_io a) f = f a"
  by (rule ext) (simp add: bind_io_def return_io_def)

lemma bind_io_raise [simp]: "bind_io (raise_io e) f = raise_io e"
  by (rule ext) (simp add: bind_io_def raise_io_def)

lemma bind_io_lift_Inr [simp]: "bind_io (lift_io (Inr a)) f = f a"
  by (rule ext) (simp add: bind_io_def lift_io_def)

lemma bind_io_lift_Inl [simp]: "bind_io (lift_io (Inl e)) f = raise_io e"
  by (rule ext) (simp add: bind_io_def lift_io_def raise_io_def)

lemma bind_io_emit [simp]:
  "bind_io (emit ev) f w = f () (w\<lparr>trace := trace w @ [ev]\<rparr>)"
  by (simp add: bind_io_def emit_def)

lemma bind_io_getpass [simp]:
  "bind_io (getpass prompt typed) f w = f typed (w\<lparr>trace := trace w @ [Getpass prompt]\<rparr>)"
  by (simp add: getpass_def bind_io_def emit_def return_io_def)

lemma bind_io_urandom [simp]:
  "bind_io (urandom n) f w =
     f (draw (entropy w) n)
       (w\<lparr>trace := trace w @ [Urandom n], entropy := shift (entropy w) n\<rparr>)"
  by (simp add: bind_io_def urandom_def)

lemma length_draw [simp]: "length (draw g n) = n"
  by (simp add: draw_def)

lemma bind_io_scrypt_ok [simp]:
  "scrypt L pw salt n r p dklen = Inr k \<Longrightarrow>
   bind_io (hashlib_scrypt L pw salt n r p dklen) f w =
     f k (w\<lparr>trace := trace w @ [Scrypt pw salt n r p dklen]\<rparr>)"
  by (simp add: hashlib_scrypt_def bind_io_def emit_def lift_io_def)

lemma return_io_apply [simp]: "return_io a w = (Inr a, w)"
  by (simp add: return_io_def)

lemma raise_io_apply [simp]: "raise_io e w = (Inl e, w)"
  by (simp add: raise_io_def)

lemma toy_lib_sel [simp]:
  "has_xchacha toy_lib = False" "has_chacha toy_lib = True"
  "utf8_encode toy_lib = toy_utf8_encode" "utf8_decode toy_lib = toy_utf8_decode"
  "b64encode toy_lib = toy_b64encode" "b64decode toy_lib = toy_b64decode"
  "scrypt toy_lib = toy_scrypt" "aead_init toy_lib = toy_init"
  "aead_encrypt toy_lib = toy_encrypt" "aead_decrypt toy_lib = toy_decrypt"
  "json_dumps toy_lib = toy_dumps"
  by (simp_all add: toy_lib_def)

lemma rstrip_nl_line [simp]: "CHR 0x0A \<notin> set s \<Longrightarrow> rstrip_nl (s @ nl) = s"
  by (cases "rev s") (auto simp add: rstrip_nl_def nl_def)

lemma example_payload:
  "utf8_encode toy_lib (rstrip_nl (''hello vault'' @ nl)) = Inr (map of_char ''hello vault'')"
  by (simp add: toy_utf8_encode_def is_ascii_def rstrip_nl_def nl_def)

lemma rstrip_nl_nl [simp]: "rstrip_nl nl = []"
  by (simp add: rstrip_nl_def nl_def)

lemma bind_io_assoc [simp]:
  "bind_io (bind_io m f) h = bind_io m (\<lambda>x. bind_io (f x) h)"
  by (rule ext) (simp add: bind_io_def split: prod.splits sum.splits)

lemma bind_io_construct_ok [simp]:
  "aead_init L alg key = None \<Longrightarrow>
   bind_io (construct L alg key) f w =
     f (Cipher alg key) (w\<lparr>trace := trace w @ [Construct alg key]\<rparr>)"
  by (simp add: construct_def)

lemma bind_io_construct_fail [simp]:
  "aead_init L alg key = Some e \<Longrightarrow>
   bind_io (construct L alg key) f w =
     (Inl e, w\<lparr>trace := trace w @ [Construct alg key]\<rparr>)"
  by (simp add: construct_def)

lemma bind_io_catch_emit_lift [simp]:
  "bind_io (catch_io (bind_io (emit ev) (\<lambda>_. lift_io r))) f w =
     f r (w\<lparr>trace := trace w @ [ev]\<rparr>)"
  by (simp add: bind_io_def catch_io_def emit_def lift_io_def)

section \<open>The opener on a sealed document\<close>

lemma kdf_params_get [simp]:
  "dict_get kdf_params ''n'' = Inr 16384" "dict_get kdf_params ''r'' = Inr 8"
  "dict_get kdf_params ''p'' = Inr 1" "dict_get kdf_params ''dk_len'' = Inr 32"
  by (simp_all add: dict_get_def kdf_params_def)

lemma aead_soundD:
  assumes "aead_sound L" "length key = 32" "length nonce = lib_nonce_len alg"
  obtains ct where "aead_init L alg key = None"
    "aead_encrypt L alg key nonce data [] = Inr ct"
    "aead_decrypt L alg key nonce ct [] = Inr data"
  using assms unfolding aead_sound_def by blast

lemma getitem_out_json [simp]:
  "getitem (out_json out) ''aead'' = Inr (JStr (out_aead out))"
  "getitem (out_json out) ''vault_key_enc_b64'' = Inr (JStr (out_vault_key_enc_b64 out))"
  "getitem (out_json out) ''enc_dek_b64'' = Inr (JStr (out_enc_dek_b64 out))"
  "getitem (out_json out) ''nonce_payload_b64'' = Inr (JStr (out_nonce_payload_b64 out))"
  "getitem (out_json out) ''ciphertext_b64'' = Inr (JStr (out_ciphertext_b64 out))"
  "getitem (out_json out) ''kdf'' =
     Inr (JObj [(''type'', JStr (out_kdf_type out)),
                (''salt_b64'', JStr (out_kdf_salt_b64 out)),
                (''params'', params_json (out_kdf_params out))])"
  by (simp_all add: out_json_def)

lemma b64_roundtripD:
  assumes "b64_roundtrip L"
  shows "is_ascii (b64encode L x)" "b64decode L (b64encode L x) = Inr x"
  using assms by (simp_all add: b64_roundtrip_def)

lemma dec_load_sealed:
  assumes "b64_roundtrip L"
    and "out_vault_key_enc_b64 out = b64encode L vault_key_enc"
    and "out_enc_dek_b64 out = b64encode L enc_dek"
    and "out_nonce_payload_b64 out = b64encode L nonce_payload"
    and "out_ciphertext_b64 out = b64encode L ciphertext"
  shows "dec_load L (out_json out) =
           Inr (JStr (out_aead out), vault_key_enc, enc_dek, nonce_payload, ciphertext)"
  using assms by (simp add: dec_load_def b64_roundtripD)

lemma dec_kdf_args_sealed:
  assumes "b64_roundtrip L" and "utf8_encode L W = Inr pw"
    and "out_kdf_salt_b64 out = b64encode L kdf_salt"
    and "out_kdf_params out = kdf_params"
  shows "dec_kdf_args L (out_json out) W = Inr (pw, kdf_salt, 16384, 8, 1, 32)"
  using assms by (simp add: dec_kdf_args_def params_json_def kdf_params_def b64_roundtripD)

lemma written_append [simp]: "written name (xs @ ys) = written name xs @ written name ys"
  by (induction name xs rule: written.induct) simp_all

lemma stdout_of_append [simp]: "stdout_of (xs @ ys) = stdout_of xs @ stdout_of ys"
  by (induction xs rule: stdout_of.induct) simp_all

lemma stderr_of_append [simp]: "stderr_of (xs @ ys) = stderr_of xs @ stderr_of ys"
  by (induction xs rule: stderr_of.induct) simp_all

lemma dec_layers_opens:
  assumes cfg: "AEAD = ''xchacha20poly1305'' \<and> NonceLen = 24 \<and> alg = XChaCha20Poly1305
                  \<and> has_xchacha L
              \<or> AEAD = ''chacha20poly1305'' \<and> NonceLen = 12 \<and> alg = ChaCha20Poly1305
                  \<and> has_chacha L"
    and len: "length nonce_vault = NonceLen" "length nonce_dek = NonceLen"
    and l1: "aead_init L alg master_key = None"
      "aead_decrypt L alg master_key nonce_vault vault_key_enc [] = Inr vault_key"
    and l2: "aead_init L alg vault_key = None"
      "aead_decrypt L alg vault_key nonce_dek ct_dek [] = Inr dek"
    and l3: "aead_init L alg dek = None"
      "aead_decrypt L alg dek nonce_payload ciphertext [] = Inr P"
    and decoded: "utf8_decode L P = Inr text"
  shows "dec_layers L (JStr AEAD) master_key (nonce_vault @ vault_key_enc)
           (nonce_dek @ ct_dek) nonce_payload ciphertext w =
         (Inr 0,
          w\<lparr>trace := trace w @
             [Construct alg master_key, Decrypt alg master_key nonce_vault vault_key_enc [],
              Construct alg vault_key, Decrypt alg vault_key nonce_dek ct_dek [],
              Construct alg dek, Decrypt alg dek nonce_payload ciphertext [],
              Stdout (text @ nl)]\<rparr>)"
  using cfg len l1 l2 l3 decoded
  by (elim disjE conjE) (simp_all add: dec_layers_def dec_aead_new_def)

section \<open>The small library meets the contracts\<close>

lemma index_of_nth: "distinct xs \<Longrightarrow> i < length xs \<Longrightarrow> index_of (xs ! i) xs = Some i"
proof (induction xs arbitrary: i)
  case Nil
  then show ?case by simp
next
  case (Cons x xs)
  then show ?case by (cases i) auto
qed

lemma b64_alphabet_distinct: "distinct b64_alphabet"
  by (simp add: b64_alphabet_def)

lemma b64_alphabet_length: "length b64_alphabet = 64"
  by (simp add: b64_alphabet_def)

lemma b64_index_char [simp]: "i < 64 \<Longrightarrow> b64_index (b64_char i) = Some i"
  by (simp add: b64_index_def b64_char_def index_of_nth b64_alphabet_distinct b64_alphabet_length)

lemma b64_alphabet_plain:
  "list_all (\<lambda>c. (of_char c :: nat) < 128 \<and> c \<noteq> CHR ''='' \<and> c \<noteq> CHR 0x0A) b64_alphabet"
  by (simp add: b64_alphabet_def)

lemma b64_char_plain [simp]:
  assumes "i < 64"
  shows "(of_char (b64_char i) :: nat) < 128" "b64_char i \<noteq> CHR ''=''"
    "b64_char i \<noteq> CHR 0x0A" "CHR 0x0A \<noteq> b64_char i"
  using assms b64_alphabet_plain
  by (auto simp add: list_all_length b64_char_def b64_alphabet_length)

lemma byte_less: "unat (a :: byte) < 256"
  using unsigned_less [of a, where ?'a = nat] by simp

lemma byte_div_less: "unat (a :: byte) div 4 < 64" "unat a div 16 < 16" "unat a div 64 < 4"
  using byte_less [of a] by (simp_all add: div_less_iff_less_mult)

lemma sextet_less [simp]:
  "sextet1 a < 64" "sextet2 a b < 64" "sextet3 b c < 64" "sextet4 c < 64"
proof -
  show "sextet1 a < 64"
    unfolding sextet1_def by (rule byte_div_less)
  have "unat a mod 4 < 4" by simp
  then have "unat a mod 4 * 16 \<le> 48" by linarith
  with byte_div_less(2) [of b] show "sextet2 a b < 64"
    unfolding sextet2_def by linarith
  have "unat b mod 16 < 16" by simp
  then have "unat b mod 16 * 4 \<le> 60" by linarith
  with byte_div_less(3) [of c] show "sextet3 b c < 64"
    unfolding sextet3_def by linarith
  show "sextet4 c < 64"
    unfolding sextet4_def by simp
qed

lemma octet_sextet [simp]:
  "octet1 (sextet1 a) (sextet2 a b) = a"
  "octet2 (sextet2 a b) (sextet3 b c) = b"
  "octet3 (sextet3 b c) (sextet4 c) = c"
proof -
  have "sextet2 a b div 16 = unat a mod 4"
    unfolding sextet2_def using byte_div_less(2) [of b] by simp
  then have "sextet1 a * 4 + sextet2 a b div 16 = unat a"
    unfolding sextet1_def by simp
  then show "octet1 (sextet1 a) (sextet2 a b) = a"
    unfolding octet1_def by simp
  have "sextet2 a b mod 16 = unat b div 16"
    unfolding sextet2_def using byte_div_less(2) [of b] by simp
  moreover have "sextet3 b c div 4 = unat b mod 16"
    unfolding sextet3_def using byte_div_less(3) [of c] by simp
  ultimately have "sextet2 a b mod 16 * 16 + sextet3 b c div 4 = unat b"
    by simp
  then show "octet2 (sextet2 a b) (sextet3 b c) = b"
    unfolding octet2_def by simp
  have "sextet3 b c mod 4 = unat c div 64"
    unfolding sextet3_def using byte_div_less(3) [of c] by simp
  then have "sextet3 b c mod 4 * 64 + sextet4 c = unat c"
    unfolding sextet4_def by simp
  then show "octet3 (sextet3 b c) (sextet4 c) = c"
    unfolding octet3_def by simp
qed

lemma toy_b64decode_encode [simp]: "toy_b64decode (toy_b64encode x) = Inr x"
  by (induction x rule: toy_b64encode.induct) simp_all

lemma toy_b64encode_ascii [simp]: "is_ascii (toy_b64encode x)"
  by (induction x rule: toy_b64encode.induct) (simp_all add: is_ascii_def)

lemma b64_index_eval:
  "b64_index CHR ''A'' = Some 0" "b64_index CHR ''B'' = Some 1" "b64_index CHR ''C'' = Some 2"
  "b64_index CHR ''D'' = Some 3" "b64_index CHR ''E'' = Some 4"
  by (simp_all add: b64_index_def b64_alphabet_def)

lemma toy_b64_roundtrip: "b64_roundtrip toy_lib"
  by (simp add: b64_roundtrip_def)

lemma small_doc_loads:
  "dec_load toy_lib small_doc = Inr (JStr ''chacha20poly1305'', [0, 0, 1], [0, 0, 2], [0, 0, 3], [0, 0, 4])"
  by (simp add: dec_load_def small_doc_def is_ascii_def b64_index_eval
      octet1_def octet2_def octet3_def)

lemma toy_aead_sound: "aead_sound toy_lib"
  by (simp add: aead_sound_def toy_init_def toy_encrypt_def toy_decrypt_def)

lemma toy_scrypt_total: "scrypt_total toy_lib"
  by (auto simp add: scrypt_total_def toy_scrypt_def)


section \<open>A run of the sealer\<close>

lemma enc_import_selects:
  assumes "has_xchacha L \<or> has_chacha L"
  shows "enc_import L w =
           (Inr (if has_xchacha L then (''xchacha20poly1305'', 24) else (''chacha20poly1305'', 12)),
            w\<lparr>trace := trace w @ fallback_notice L\<rparr>)"
  using assms by (auto simp add: enc_import_def fallback_notice_def)

text \<open>
  A run of the sealer's \<^verbatim>\<open>main\<close> in which every library call succeeds, with the values
  it draws, derives and computes collected in \<open>s\<close>.
\<close>

lemma enc_main_run:
  assumes ok: "sealing_ok L pw P s"
    and P: "utf8_encode L (rstrip_nl stdin_line) = Inr P" "P \<noteq> []"
    and W: "W \<noteq> []" "utf8_encode L W = Inr pw"
    and draws: "s_kdf_salt s = draw (entropy w0) 16"
      "s_vault_key s = draw (shift (entropy w0) 16) 32"
      "s_nonce_vault s = draw (shift (shift (entropy w0) 16) 32) (s_NonceLen s)"
      "s_dek s = draw (shift (shift (shift (entropy w0) 16) 32) (s_NonceLen s)) 32"
      "s_nonce_dek s =
         draw (shift (shift (shift (shift (entropy w0) 16) 32) (s_NonceLen s)) 32)
           (s_NonceLen s)"
      "s_nonce_payload s =
         draw (shift (shift (shift (shift (shift (entropy w0) 16) 32) (s_NonceLen s)) 32)
                 (s_NonceLen s))
           (s_NonceLen s)"
  shows "enc_main L (s_AEAD s) (s_NonceLen s) stdin_line W w0 =
           (Inr 0, w0\<lparr>trace := trace w0 @ sealing_trace L pw P s,
                     entropy := entropy_after (entropy w0) (s_NonceLen s)\<rparr>)"
proof -
  have cfg: "s_AEAD s = ''xchacha20poly1305'' \<and> s_alg s = XChaCha20Poly1305
             \<or> s_AEAD s = ''chacha20poly1305'' \<and> s_alg s = ChaCha20Poly1305"
    using ok unfolding sealing_ok_def by blast
  have facts: "scrypt L pw (s_kdf_salt s) 16384 8 1 32 = Inr (s_master_key s)"
    "aead_init L (s_alg s) (s_master_key s) = None"
    "aead_encrypt L (s_alg s) (s_master_key s) (s_nonce_vault s) (s_vault_key s) []
       = Inr (s_vault_key_enc s)"
    "aead_init L (s_alg s) (s_vault_key s) = None"
    "aead_encrypt L (s_alg s) (s_vault_key s) (s_nonce_dek s) (s_dek s) []
       = Inr (s_ct_dek s)"
    "aead_init L (s_alg s) (s_dek s) = None"
    "aead_encrypt L (s_alg s) (s_dek s) (s_nonce_payload s) P [] = Inr (s_ciphertext s)"
    using ok unfolding sealing_ok_def by blast+
  show ?thesis
    using cfg P W facts [unfolded draws]
    by (elim disjE conjE)
      (simp_all add: enc_main_def enc_aead_new_def b64_def Let_def sealing_trace_def
        sealing_out_def draws entropy_after_def)
qed

lemma enc_main_seals:
  assumes cfg: "AEAD = ''xchacha20poly1305'' \<and> NonceLen = 24 \<and> alg = XChaCha20Poly1305
                  \<and> has_xchacha L
              \<or> AEAD = ''chacha20poly1305'' \<and> NonceLen = 12 \<and> alg = ChaCha20Poly1305
                  \<and> \<not> has_xchacha L \<and> has_chacha L"
    and sound: "aead_sound L" and kdf: "scrypt_total L"
    and P: "utf8_encode L (rstrip_nl stdin_line) = Inr P" "P \<noteq> []"
    and W: "W \<noteq> []" "utf8_encode L W = Inr pw"
  shows "\<exists>s g'. s_AEAD s = AEAD \<and> s_NonceLen s = NonceLen \<and> s_alg s = alg \<and>
           s_kdf_salt s = draw (entropy w0) 16 \<and>
           sealing_ok L pw P s \<and>
           aead_decrypt L alg (s_master_key s) (s_nonce_vault s) (s_vault_key_enc s) []
             = Inr (s_vault_key s) \<and>
           aead_decrypt L alg (s_vault_key s) (s_nonce_dek s) (s_ct_dek s) []
             = Inr (s_dek s) \<and>
           aead_decrypt L alg (s_dek s) (s_nonce_payload s) (s_ciphertext s) [] = Inr P \<and>
           enc_main L AEAD NonceLen stdin_line W w0 =
             (Inr 0, w0\<lparr>trace := trace w0 @ sealing_trace L pw P s, entropy := g'\<rparr>)"
proof -
  define g where "g = entropy w0"
  define kdf_salt where "kdf_salt = draw g 16"
  define vault_key where "vault_key = draw (shift g 16) 32"
  define nonce_vault where "nonce_vault = draw (shift (shift g 16) 32) NonceLen"
  define dek where "dek = draw (shift (shift (shift g 16) 32) NonceLen) 32"
  define nonce_dek where
    "nonce_dek = draw (shift (shift (shift (shift g 16) 32) NonceLen) 32) NonceLen"
  define nonce_payload where
    "nonce_payload =
       draw (shift (shift (shift (shift (shift g 16) 32) NonceLen) 32) NonceLen) NonceLen"
  have len: "NonceLen = lib_nonce_len alg"
    using cfg by auto
  obtain master_key where mk: "scrypt L pw kdf_salt 16384 8 1 32 = Inr master_key"
    "length master_key = 32"
  proof -
    from kdf have "\<exists>k. scrypt L pw kdf_salt 16384 8 1 32 = Inr k \<and> length k = 32"
      by (simp add: scrypt_total_def)
    then show ?thesis using that by blast
  qed
  have lens: "length vault_key = 32" "length dek = 32"
    "length nonce_vault = lib_nonce_len alg" "length nonce_dek = lib_nonce_len alg"
    "length nonce_payload = lib_nonce_len alg"
    by (simp_all add: vault_key_def dek_def nonce_vault_def nonce_dek_def
        nonce_payload_def len)
  obtain vault_key_enc where l1: "aead_init L alg master_key = None"
    "aead_encrypt L alg master_key nonce_vault vault_key [] = Inr vault_key_enc"
    "aead_decrypt L alg master_key nonce_vault vault_key_enc [] = Inr vault_key"
    using aead_soundD [OF sound mk(2) lens(3)] by blast
  obtain ct_dek where l2: "aead_init L alg vault_key = None"
    "aead_encrypt L alg vault_key nonce_dek dek [] = Inr ct_dek"
    "aead_decrypt L alg vault_key nonce_dek ct_dek [] = Inr dek"
    using aead_soundD [OF sound lens(1) lens(4)] by blast
  obtain ciphertext where l3: "aead_init L alg dek = None"
    "aead_encrypt L alg dek nonce_payload P [] = Inr ciphertext"
    "aead_decrypt L alg dek nonce_payload ciphertext [] = Inr P"
    using aead_soundD [OF sound lens(2) lens(5)] by blast
  define s where "s = \<lparr>s_AEAD = AEAD, s_NonceLen = NonceLen, s_alg = alg,
    s_kdf_salt = kdf_salt, s_master_key = master_key, s_vault_key = vault_key,
    s_nonce_vault = nonce_vault, s_vault_key_enc = vault_key_enc, s_dek = dek,
    s_nonce_dek = nonce_dek, s_ct_dek = ct_dek, s_nonce_payload = nonce_payload,
    s_ciphertext = ciphertext\<rparr>"
  have sel: "s_AEAD s = AEAD" "s_NonceLen s = NonceLen" "s_alg s = alg"
    "s_kdf_salt s = kdf_salt" "s_master_key s = master_key" "s_vault_key s = vault_key"
    "s_nonce_vault s = nonce_vault" "s_vault_key_enc s = vault_key_enc" "s_dek s = dek"
    "s_nonce_dek s = nonce_dek" "s_ct_dek s = ct_dek" "s_nonce_payload s = nonce_payload"
    "s_ciphertext s = ciphertext"
    by (simp_all add: s_def)
  have ok: "sealing_ok L pw P s"
    using cfg mk l1 l2 l3 lens len
    by (simp add: sealing_ok_def sel kdf_salt_def)
  have "enc_main L AEAD NonceLen stdin_line W w0 =
       (Inr 0, w0\<lparr>trace := trace w0 @ sealing_trace L pw P s,
                 entropy := entropy_after (entropy w0) NonceLen\<rparr>)"
    using enc_main_run [OF ok P W, of w0] unfolding sel
    by (simp add: kdf_salt_def vault_key_def nonce_vault_def dek_def nonce_dek_def
        nonce_payload_def g_def)
  moreover have "s_kdf_salt s = draw (entropy w0) 16"
    by (simp add: sel kdf_salt_def g_def)
  ultimately show ?thesis
    using ok l1(3) l2(3) l3(3) sel by blast
qed

lemma enc_script_seals:
  assumes avail: "has_xchacha L \<or> has_chacha L"
    and sound: "aead_sound L" and kdf: "scrypt_total L"
    and P: "utf8_encode L (rstrip_nl stdin_line) = Inr P" "P \<noteq> []"
    and W: "W \<noteq> []" "utf8_encode L W = Inr pw"
  shows "\<exists>s g'. sealing_ok L pw P s \<and> s_kdf_salt s = draw g 16 \<and>
           aead_decrypt L (s_alg s) (s_master_key s) (s_nonce_vault s) (s_vault_key_enc s) []
             = Inr (s_vault_key s) \<and>
           aead_decrypt L (s_alg s) (s_vault_key s) (s_nonce_dek s) (s_ct_dek s) []
             = Inr (s_dek s) \<and>
           aead_decrypt L (s_alg s) (s_dek s) (s_nonce_payload s) (s_ciphertext s) []
             = Inr P \<and>
           enc_script L stdin_line W (start g) =
             (Inr 0, \<lparr>trace = fallback_notice L @ sealing_trace L pw P s, entropy = g'\<rparr>)"
proof -
  define AEAD where "AEAD = (if has_xchacha L then ''xchacha20poly1305'' else ''chacha20poly1305'')"
  define NonceLen :: nat where "NonceLen = (if has_xchacha L then 24 else 12)"
  define alg where "alg = (if has_xchacha L then XChaCha20Poly1305 else ChaCha20Poly1305)"
  have cfg: "AEAD = ''xchacha20poly1305'' \<and> NonceLen = 24 \<and> alg = XChaCha20Poly1305
                  \<and> has_xchacha L
              \<or> AEAD = ''chacha20poly1305'' \<and> NonceLen = 12 \<and> alg = ChaCha20Poly1305
                  \<and> \<not> has_xchacha L \<and> has_chacha L"
    using avail by (auto simp add: AEAD_def NonceLen_def alg_def)
  have imp: "enc_import L (start g) =
      (Inr (AEAD, NonceLen), \<lparr>trace = fallback_notice L, entropy = g\<rparr>)"
    using enc_import_selects [OF avail, of "start g"]
    by (simp add: start_def AEAD_def NonceLen_def)
  from enc_main_seals [OF cfg sound kdf P W, of "\<lparr>trace = fallback_notice L, entropy = g\<rparr>"]
  obtain s g' where s: "s_alg s = alg" "sealing_ok L pw P s"
    "aead_decrypt L alg (s_master_key s) (s_nonce_vault s) (s_vault_key_enc s) []
             = Inr (s_vault_key s)"
    "aead_decrypt L alg (s_vault_key s) (s_nonce_dek s) (s_ct_dek s) []
             = Inr (s_dek s)"
    "aead_decrypt L alg (s_dek s) (s_nonce_payload s) (s_ciphertext s) [] = Inr P"
    "enc_main L AEAD NonceLen stdin_line W \<lparr>trace = fallback_notice L, entropy = g\<rparr> =
             (Inr 0, \<lparr>trace = fallback_notice L @ sealing_trace L pw P s, entropy = g'\<rparr>)"
    "s_kdf_salt s = draw g 16"
    by (elim exE conjE) simp
  have "enc_script L stdin_line W (start g) =
      (Inr 0, \<lparr>trace = fallback_notice L @ sealing_trace L pw P s, entropy = g'\<rparr>)"
    using imp s(6) by (simp add: enc_script_def bind_io_def)
  with s show ?thesis
    by blast
qed

section \<open>Observations of a sealing run\<close>

lemma kdf_calls_append [simp]: "kdf_calls (xs @ ys) = kdf_calls xs @ kdf_calls ys"
  by (induction xs rule: kdf_calls.induct) simp_all

lemma aead_keys_append [simp]: "aead_keys (xs @ ys) = aead_keys xs @ aead_keys ys"
  by (induction xs rule: aead_keys.induct) simp_all

lemma encryptions_append [simp]: "encryptions (xs @ ys) = encryptions xs @ encryptions ys"
  by (induction xs rule: encryptions.induct) simp_all

lemma decryptions_append [simp]: "decryptions (xs @ ys) = decryptions xs @ decryptions ys"
  by (induction xs rule: decryptions.induct) simp_all

lemma fallback_notice_obs [simp]:
  "stdout_of (fallback_notice L) = []" "written name (fallback_notice L) = []"
  "crypto_ops (fallback_notice L) = []" "kdf_calls (fallback_notice L) = []"
  "aead_keys (fallback_notice L) = []" "encryptions (fallback_notice L) = []"
  by (simp_all add: fallback_notice_def crypto_ops_def)

lemma sealing_trace_obs [simp]:
  "written ''demo.json'' (sealing_trace L pw P s) = [Json (out_json (sealing_out L s))]"
  "written ''demo.jsonc'' (sealing_trace L pw P s) = [Text (jsonc_text L (sealing_out L s))]"
  "kdf_calls (sealing_trace L pw P s) = [Scrypt pw (s_kdf_salt s) 16384 8 1 32]"
  "aead_keys (sealing_trace L pw P s) = [s_master_key s, s_vault_key s, s_dek s]"
  "encryptions (sealing_trace L pw P s) =
     [Encrypt (s_alg s) (s_master_key s) (s_nonce_vault s) (s_vault_key s) [],
      Encrypt (s_alg s) (s_vault_key s) (s_nonce_dek s) (s_dek s) [],
      Encrypt (s_alg s) (s_dek s) (s_nonce_payload s) P []]"
  by (simp_all add: sealing_trace_def)

lemma dec_main_sealed:
  assumes b64: "b64_roundtrip L"
    and W: "W \<noteq> []" "utf8_encode L W = Inr pw"
    and mk: "scrypt L pw (s_kdf_salt s) 16384 8 1 32 = Inr master_key"
  shows "dec_main L (Doc (out_json (sealing_out L s))) W w =
           dec_layers L (JStr (s_AEAD s)) master_key
             (s_nonce_vault s @ s_vault_key_enc s) (s_nonce_dek s @ s_ct_dek s)
             (s_nonce_payload s) (s_ciphertext s)
             (w\<lparr>trace := trace w @
                [Getpass ''Master password: '',
                 Scrypt pw (s_kdf_salt s) 16384 8 1 32]\<rparr>)"
proof -
  have load: "dec_load L (out_json (sealing_out L s)) =
      Inr (JStr (s_AEAD s), s_nonce_vault s @ s_vault_key_enc s,
           s_nonce_dek s @ s_ct_dek s, s_nonce_payload s, s_ciphertext s)"
    using dec_load_sealed [OF b64, of "sealing_out L s"] by (simp add: sealing_out_def)
  have args: "dec_kdf_args L (out_json (sealing_out L s)) W
      = Inr (pw, s_kdf_salt s, 16384, 8, 1, 32)"
    using dec_kdf_args_sealed [OF b64 W(2), of "sealing_out L s"]
    by (simp add: sealing_out_def)
  show ?thesis
    using W(1) mk by (simp add: dec_main_def load args)
qed

section \<open>Failing layers, and the worked example\<close>

lemma example_password:
  "utf8_encode toy_lib ''correct horse'' = Inr (map of_char ''correct horse'')"
  by (simp add: toy_utf8_encode_def is_ascii_def)

lemma unat_of_char [simp]: "unat (of_char c :: byte) = of_char c"
proof -
  have "(of_char c :: byte) = of_nat (of_char c)"
    by (simp add: of_nat_of_char)
  then have "unat (of_char c :: byte) = (of_char c :: nat) mod 256"
    by (simp add: unat_of_nat)
  then show ?thesis by simp
qed

lemma toy_utf8_decode_encode:
  "is_ascii s \<Longrightarrow> toy_utf8_decode (map of_char s) = Inr s"
proof -
  assume "is_ascii s"
  then have "list_all (\<lambda>x. x < 128) (map of_char s :: bytes)"
    by (induction s) (simp_all add: is_ascii_def word_less_nat_alt)
  moreover have "map (\<lambda>x. char_of (unat x)) (map of_char s :: bytes) = s"
    by (induction s) simp_all
  ultimately show ?thesis
    by (simp add: toy_utf8_decode_def)
qed

lemma example_text:
  "utf8_decode toy_lib (map of_char ''hello vault'') = Inr ''hello vault''"
  by (simp add: toy_utf8_decode_encode is_ascii_def del: list.map)

lemma dec_layers_vault_fails:
  assumes cfg: "aead = JStr ''xchacha20poly1305'' \<and> n = 24 \<and> alg = XChaCha20Poly1305
                  \<and> has_xchacha L
              \<or> aead = JStr ''chacha20poly1305'' \<and> n = 12 \<and> alg = ChaCha20Poly1305
                  \<and> has_chacha L"
    and init: "aead_init L alg master_key = None"
    and fail: "aead_decrypt L alg master_key (take n vault_key_enc) (drop n vault_key_enc) []
                 = Inl e"
  shows "dec_layers L aead master_key vault_key_enc enc_dek nonce_payload ciphertext w =
         (Inr 3,
          w\<lparr>trace := trace w @
             [Construct alg master_key,
              Decrypt alg master_key (take n vault_key_enc) (drop n vault_key_enc) [],
              Stderr (''decrypt failed (wrong master password?)'' @ nl)]\<rparr>)"
  using cfg init fail
  by (elim disjE conjE) (simp_all add: dec_layers_def dec_aead_new_def)

lemma example_other_password:
  "utf8_encode toy_lib ''wrong horse'' = Inr (map of_char ''wrong horse'')"
  by (simp add: toy_utf8_encode_def is_ascii_def)

lemma draw_shift: "draw (shift g k) n = map g [k..<k + n]"
proof -
  have "map (\<lambda>i. g (i + k)) [0..<n] = map g (map (\<lambda>i. i + k) [0..<n])"
    by simp
  also have "\<dots> = map g [k..<n + k]"
    by (simp only: map_add_upt)
  finally show ?thesis
    by (simp add: draw_def shift_def add.commute)
qed

lemma shift_shift: "shift (shift g a) b = shift g (a + b)"
  by (rule ext) (simp add: shift_def ac_simps)

lemma draw_example:
  "draw example_entropy n = map of_nat [0..<n]"
  "draw (shift example_entropy k) n = map of_nat [k..<k + n]"
proof -
  have g: "example_entropy = of_nat"
    by (rule ext) (simp add: example_entropy_def)
  show "draw example_entropy n = map of_nat [0..<n]"
    by (simp add: draw_def g)
  show "draw (shift example_entropy k) n = map of_nat [k..<k + n]"
    by (simp add: draw_shift g)
qed

lemma replicate_3: "replicate 3 x = [x, x, x]"
  by (simp add: numeral_3_eq_3)

lemma example_sealing_ok:
  "sealing_ok toy_lib (map of_char ''correct horse'') (map of_char ''hello vault'')
     example_sealing"
  by (simp add: sealing_ok_def example_sealing_def toy_scrypt_def toy_init_def
      toy_encrypt_def replicate_3)

lemma enc_script_run:
  assumes ok: "sealing_ok L pw P s"
    and P: "utf8_encode L (rstrip_nl stdin_line) = Inr P" "P \<noteq> []"
    and W: "W \<noteq> []" "utf8_encode L W = Inr pw"
    and draws: "s_kdf_salt s = draw g 16"
      "s_vault_key s = draw (shift g 16) 32"
      "s_nonce_vault s = draw (shift (shift g 16) 32) (s_NonceLen s)"
      "s_dek s = draw (shift (shift (shift g 16) 32) (s_NonceLen s)) 32"
      "s_nonce_dek s =
         draw (shift (shift (shift (shift g 16) 32) (s_NonceLen s)) 32) (s_NonceLen s)"
      "s_nonce_payload s =
         draw (shift (shift (shift (shift (shift g 16) 32) (s_NonceLen s)) 32)
                 (s_NonceLen s))
           (s_NonceLen s)"
  shows "enc_script L stdin_line W (start g) =
           (Inr 0, \<lparr>trace = fallback_notice L @ sealing_trace L pw P s,
                     entropy = entropy_after g (s_NonceLen s)\<rparr>)"
proof -
  have cfg: "has_xchacha L \<and> s_AEAD s = ''xchacha20poly1305'' \<and> s_NonceLen s = 24
             \<or> \<not> has_xchacha L \<and> has_chacha L \<and> s_AEAD s = ''chacha20poly1305''
                \<and> s_NonceLen s = 12"
    using ok unfolding sealing_ok_def by blast
  then have avail: "has_xchacha L \<or> has_chacha L"
    by blast
  have imp: "enc_import L (start g) =
      (Inr (s_AEAD s, s_NonceLen s), \<lparr>trace = fallback_notice L, entropy = g\<rparr>)"
    using enc_import_selects [OF avail, of "start g"] cfg
    by (auto simp add: start_def)
  show ?thesis
    using enc_main_run [OF ok P W, of "\<lparr>trace = fallback_notice L, entropy = g\<rparr>"] draws
    by (simp add: enc_script_def bind_io_def imp)
qed

lemma example_seal_run:
  "enc_script toy_lib (''hello vault'' @ nl) ''correct horse'' (start example_entropy) =
     (Inr 0,
      \<lparr>trace = fallback_notice toy_lib @
         sealing_trace toy_lib (map of_char ''correct horse'') (map of_char ''hello vault'')
           example_sealing,
       entropy = entropy_after example_entropy 12\<rparr>)"
proof -
  have nonempty: "(map of_char ''hello vault'' :: bytes) \<noteq> []" "''correct horse'' \<noteq> []"
    by simp_all
  have sel: "s_NonceLen example_sealing = 12"
    by (simp add: example_sealing_def)
  show ?thesis
    using enc_script_run [OF example_sealing_ok example_payload nonempty example_password,
        of example_entropy]
    unfolding sel
    by (simp add: example_sealing_def draw_example shift_shift)
qed

lemma toy_b64encode_inj:
  assumes "toy_b64encode x = toy_b64encode y"
  shows "x = y"
proof -
  have "toy_b64decode (toy_b64encode x) = toy_b64decode (toy_b64encode y)"
    by (simp only: assms)
  then show ?thesis by simp
qed

lemma dec_main_out:
  assumes b64: "b64_roundtrip L"
    and W: "W \<noteq> []" "utf8_encode L W = Inr pw"
    and out: "out_kdf_salt_b64 out = b64encode L kdf_salt" "out_kdf_params out = kdf_params"
      "out_vault_key_enc_b64 out = b64encode L vault_key_enc"
      "out_enc_dek_b64 out = b64encode L enc_dek"
      "out_nonce_payload_b64 out = b64encode L nonce_payload"
      "out_ciphertext_b64 out = b64encode L ciphertext"
    and mk: "scrypt L pw kdf_salt 16384 8 1 32 = Inr master_key"
  shows "dec_main L (Doc (out_json out)) W w =
           dec_layers L (JStr (out_aead out)) master_key vault_key_enc enc_dek
             nonce_payload ciphertext
             (w\<lparr>trace := trace w @
                [Getpass ''Master password: '', Scrypt pw kdf_salt 16384 8 1 32]\<rparr>)"
  using W(1) mk
  by (simp add: dec_main_def dec_load_sealed [OF b64 out(3-6)]
      dec_kdf_args_sealed [OF b64 W(2) out(1,2)])

lemma dec_layers_dek_fails:
  assumes cfg: "aead = JStr ''xchacha20poly1305'' \<and> n = 24 \<and> alg = XChaCha20Poly1305
                  \<and> has_xchacha L
              \<or> aead = JStr ''chacha20poly1305'' \<and> n = 12 \<and> alg = ChaCha20Poly1305
                  \<and> has_chacha L"
    and l1: "aead_init L alg master_key = None"
      "aead_decrypt L alg master_key (take n vault_key_enc) (drop n vault_key_enc) []
         = Inr vault_key"
    and l2: "aead_init L alg vault_key = None"
      "aead_decrypt L alg vault_key (take n enc_dek) (drop n enc_dek) [] = Inl e"
  shows "dec_layers L aead master_key vault_key_enc enc_dek nonce_payload ciphertext w =
         (Inl e,
          w\<lparr>trace := trace w @
             [Construct alg master_key,
              Decrypt alg master_key (take n vault_key_enc) (drop n vault_key_enc) [],
              Construct alg vault_key,
              Decrypt alg vault_key (take n enc_dek) (drop n enc_dek) []]\<rparr>)"
  using cfg l1 l2
  by (elim disjE conjE) (simp_all add: dec_layers_def dec_aead_new_def)

lemma dec_layers_payload_fails:
  assumes cfg: "aead = JStr ''xchacha20poly1305'' \<and> n = 24 \<and> alg = XChaCha20Poly1305
                  \<and> has_xchacha L
              \<or> aead = JStr ''chacha20poly1305'' \<and> n = 12 \<and> alg = ChaCha20Poly1305
                  \<and> has_chacha L"
    and l1: "aead_init L alg master_key = None"
      "aead_decrypt L alg master_key (take n vault_key_enc) (drop n vault_key_enc) []
         = Inr vault_key"
    and l2: "aead_init L alg vault_key = None"
      "aead_decrypt L alg vault_key (take n enc_dek) (drop n enc_dek) [] = Inr dek"
    and l3: "aead_init L alg dek = None"
      "aead_decrypt L alg dek nonce_payload ciphertext [] = Inl e"
  shows "dec_layers L aead master_key vault_key_enc enc_dek nonce_payload ciphertext w =
         (Inl e,
          w\<lparr>trace := trace w @
             [Construct alg master_key,
              Decrypt alg master_key (take n vault_key_enc) (drop n vault_key_enc) [],
              Construct alg vault_key,
              Decrypt alg vault_key (take n enc_dek) (drop n enc_dek) [],
              Construct alg dek,
              Decrypt alg dek nonce_payload ciphertext []]\<rparr>)"
  using cfg l1 l2 l3
  by (elim disjE conjE) (simp_all add: dec_layers_def dec_aead_new_def)

lemma example_cfg:
  "JStr ''chacha20poly1305'' = JStr ''xchacha20poly1305'' \<and> (12::nat) = 24
     \<and> ChaCha20Poly1305 = XChaCha20Poly1305 \<and> has_xchacha toy_lib
   \<or> JStr ''chacha20poly1305'' = JStr ''chacha20poly1305'' \<and> (12::nat) = 12
     \<and> ChaCha20Poly1305 = ChaCha20Poly1305 \<and> has_chacha toy_lib"
  by simp

lemma example_master_key:
  "scrypt toy_lib (map of_char ''correct horse'') (s_kdf_salt example_sealing) 16384 8 1 32
     = Inr (s_master_key example_sealing)"
  using example_sealing_ok unfolding sealing_ok_def by blast

lemma upt_0_16: "[0..<16] = 0 # [1..<16]"
  by (simp add: upt_conv_Cons)

lemma example_nonce_lengths [simp]:
  "length (s_nonce_vault example_sealing) = 12" "length (s_nonce_dek example_sealing) = 12"
  "length (s_nonce_payload example_sealing) = 12"
  by (simp_all add: example_sealing_def)

lemma tampered_vault_run:
  "dec_main toy_lib (Doc tampered_vault) ''correct horse'' (start example_entropy) =
     (Inr 3,
      \<lparr>trace =
         [Getpass ''Master password: '',
          Scrypt (map of_char ''correct horse'') (s_kdf_salt example_sealing) 16384 8 1 32,
          Construct ChaCha20Poly1305 (s_master_key example_sealing),
          Decrypt ChaCha20Poly1305 (s_master_key example_sealing)
            (s_nonce_vault example_sealing)
            (flip_bit_at 0 0 (s_vault_key_enc example_sealing)) [],
          Stderr (''decrypt failed (wrong master password?)'' @ nl)],
       entropy = example_entropy\<rparr>)"
proof -
  let ?blob = "flip_bit_at 12 0
            (s_nonce_vault example_sealing @ s_vault_key_enc example_sealing)"
  have W: "''correct horse'' \<noteq> []"
    by simp
  have sel: "s_AEAD example_sealing = ''chacha20poly1305''"
    by (simp add: example_sealing_def)
  have split: "take 12 ?blob = s_nonce_vault example_sealing"
    "drop 12 ?blob = flip_bit_at 0 0 (s_vault_key_enc example_sealing)"
    by (simp_all add: flip_bit_at_def example_sealing_def list_update_append)
  have init: "aead_init toy_lib ChaCha20Poly1305 (s_master_key example_sealing) = None"
    by (simp add: toy_init_def example_sealing_def)
  have fail: "aead_decrypt toy_lib ChaCha20Poly1305 (s_master_key example_sealing)
      (take 12 ?blob) (drop 12 ?blob) [] = Inl InvalidTag"
    unfolding split by (simp add: toy_decrypt_def example_sealing_def flip_bit_at_def upt_0_16)
  show ?thesis
    unfolding tampered_vault_def
    by (subst dec_main_out [OF toy_b64_roundtrip W example_password _ _ _ _ _ _
          example_master_key, where vault_key_enc = ?blob])
      (simp_all add: sealing_out_def b64_def sel
        dec_layers_vault_fails [OF example_cfg init fail] split start_def)
qed


lemma tampered_dek_run:
  "dec_main toy_lib (Doc tampered_dek) ''correct horse'' (start example_entropy) =
     (Inl InvalidTag,
      \<lparr>trace =
         [Getpass ''Master password: '',
          Scrypt (map of_char ''correct horse'') (s_kdf_salt example_sealing) 16384 8 1 32,
          Construct ChaCha20Poly1305 (s_master_key example_sealing),
          Decrypt ChaCha20Poly1305 (s_master_key example_sealing)
            (s_nonce_vault example_sealing) (s_vault_key_enc example_sealing) [],
          Construct ChaCha20Poly1305 (s_vault_key example_sealing),
          Decrypt ChaCha20Poly1305 (s_vault_key example_sealing)
            (s_nonce_dek example_sealing) (flip_bit_at 0 0 (s_ct_dek example_sealing)) []],
       entropy = example_entropy\<rparr>)"
proof -
  let ?blob = "flip_bit_at 12 0 (s_nonce_dek example_sealing @ s_ct_dek example_sealing)"
  let ?vault = "s_nonce_vault example_sealing @ s_vault_key_enc example_sealing"
  have W: "''correct horse'' \<noteq> []"
    by simp
  have sel: "s_AEAD example_sealing = ''chacha20poly1305''"
    by (simp add: example_sealing_def)
  have split: "take 12 ?blob = s_nonce_dek example_sealing"
    "drop 12 ?blob = flip_bit_at 0 0 (s_ct_dek example_sealing)"
    "take 12 ?vault = s_nonce_vault example_sealing"
    "drop 12 ?vault = s_vault_key_enc example_sealing"
    by (simp_all add: flip_bit_at_def example_sealing_def list_update_append)
  have l1: "aead_init toy_lib ChaCha20Poly1305 (s_master_key example_sealing) = None"
    "aead_decrypt toy_lib ChaCha20Poly1305 (s_master_key example_sealing)
      (take 12 ?vault) (drop 12 ?vault) [] = Inr (s_vault_key example_sealing)"
    unfolding split by (simp_all add: toy_init_def toy_decrypt_def example_sealing_def)
  have l2: "aead_init toy_lib ChaCha20Poly1305 (s_vault_key example_sealing) = None"
    "aead_decrypt toy_lib ChaCha20Poly1305 (s_vault_key example_sealing)
      (take 12 ?blob) (drop 12 ?blob) [] = Inl InvalidTag"
    unfolding split
    by (simp_all add: toy_init_def toy_decrypt_def example_sealing_def flip_bit_at_def)
  show ?thesis
    unfolding tampered_dek_def
    by (subst dec_main_out [OF toy_b64_roundtrip W example_password _ _ _ _ _ _
          example_master_key, where enc_dek = ?blob],
        simp_all add: sealing_out_def b64_def sel,
        subst dec_layers_dek_fails [OF example_cfg l1 l2],
        simp add: split start_def)
qed

lemma tampered_payload_run:
  "dec_main toy_lib (Doc tampered_payload) ''correct horse'' (start example_entropy) =
     (Inl InvalidTag,
      \<lparr>trace =
         [Getpass ''Master password: '',
          Scrypt (map of_char ''correct horse'') (s_kdf_salt example_sealing) 16384 8 1 32,
          Construct ChaCha20Poly1305 (s_master_key example_sealing),
          Decrypt ChaCha20Poly1305 (s_master_key example_sealing)
            (s_nonce_vault example_sealing) (s_vault_key_enc example_sealing) [],
          Construct ChaCha20Poly1305 (s_vault_key example_sealing),
          Decrypt ChaCha20Poly1305 (s_vault_key example_sealing)
            (s_nonce_dek example_sealing) (s_ct_dek example_sealing) [],
          Construct ChaCha20Poly1305 (s_dek example_sealing),
          Decrypt ChaCha20Poly1305 (s_dek example_sealing)
            (s_nonce_payload example_sealing)
            (flip_bit_at 0 0 (s_ciphertext example_sealing)) []],
       entropy = example_entropy\<rparr>)"
proof -
  let ?blob = "flip_bit_at 0 0 (s_ciphertext example_sealing)"
  let ?vault = "s_nonce_vault example_sealing @ s_vault_key_enc example_sealing"
  let ?dek = "s_nonce_dek example_sealing @ s_ct_dek example_sealing"
  have W: "''correct horse'' \<noteq> []"
    by simp
  have sel: "s_AEAD example_sealing = ''chacha20poly1305''"
    by (simp add: example_sealing_def)
  have split: "take 12 ?dek = s_nonce_dek example_sealing"
    "drop 12 ?dek = s_ct_dek example_sealing"
    "take 12 ?vault = s_nonce_vault example_sealing"
    "drop 12 ?vault = s_vault_key_enc example_sealing"
    by (simp_all add: example_sealing_def)
  have l1: "aead_init toy_lib ChaCha20Poly1305 (s_master_key example_sealing) = None"
    "aead_decrypt toy_lib ChaCha20Poly1305 (s_master_key example_sealing)
      (take 12 ?vault) (drop 12 ?vault) [] = Inr (s_vault_key example_sealing)"
    unfolding split by (simp_all add: toy_init_def toy_decrypt_def example_sealing_def)
  have l2: "aead_init toy_lib ChaCha20Poly1305 (s_vault_key example_sealing) = None"
    "aead_decrypt toy_lib ChaCha20Poly1305 (s_vault_key example_sealing)
      (take 12 ?dek) (drop 12 ?dek) [] = Inr (s_dek example_sealing)"
    unfolding split by (simp_all add: toy_init_def toy_decrypt_def example_sealing_def)
  have l3: "aead_init toy_lib ChaCha20Poly1305 (s_dek example_sealing) = None"
    "aead_decrypt toy_lib ChaCha20Poly1305 (s_dek example_sealing)
      (s_nonce_payload example_sealing) ?blob [] = Inl InvalidTag"
    by (simp_all add: toy_init_def toy_decrypt_def example_sealing_def flip_bit_at_def)
  show ?thesis
    unfolding tampered_payload_def
    by (subst dec_main_out [OF toy_b64_roundtrip W example_password _ _ _ _ _ _
          example_master_key, where ciphertext = ?blob],
        simp_all add: sealing_out_def b64_def sel,
        subst dec_layers_payload_fails [OF example_cfg l1 l2 l3],
        simp add: split start_def)
qed

section \<open>The decryptions the opener attempts\<close>

lemma dec_layers_unwraps:
  assumes cfg: "AEAD = ''xchacha20poly1305'' \<and> NonceLen = 24 \<and> alg = XChaCha20Poly1305
                  \<and> has_xchacha L
              \<or> AEAD = ''chacha20poly1305'' \<and> NonceLen = 12 \<and> alg = ChaCha20Poly1305
                  \<and> has_chacha L"
    and len: "length nonce_vault = NonceLen" "length nonce_dek = NonceLen"
    and l1: "aead_init L alg master_key = None"
      "aead_decrypt L alg master_key nonce_vault vault_key_enc [] = Inr vault_key"
    and l2: "aead_init L alg vault_key = None"
      "aead_decrypt L alg vault_key nonce_dek ct_dek [] = Inr dek"
    and l3: "aead_init L alg dek = None"
      "aead_decrypt L alg dek nonce_payload ciphertext [] = Inr P"
  shows "aead_keys (trace (snd (dec_layers L (JStr AEAD) master_key
           (nonce_vault @ vault_key_enc) (nonce_dek @ ct_dek) nonce_payload ciphertext w)))
         = aead_keys (trace w) @ [master_key, vault_key, dek]"
    and "kdf_calls (trace (snd (dec_layers L (JStr AEAD) master_key
           (nonce_vault @ vault_key_enc) (nonce_dek @ ct_dek) nonce_payload ciphertext w)))
         = kdf_calls (trace w)"
  using cfg len l1 l2 l3
  by (cases "utf8_decode L P"; elim disjE conjE;
      simp add: dec_layers_def dec_aead_new_def)+

lemma dec_aead_new_declares:
  "dec_aead_new L aead key w = (Inr (c, n), w') \<Longrightarrow>
     aead = JStr ''xchacha20poly1305'' \<and> n = 24 \<or> aead = JStr ''chacha20poly1305'' \<and> n = 12"
  by (auto simp add: dec_aead_new_def construct_def bind_io_def emit_def raise_io_def
      return_io_def split: if_splits option.splits)

lemma dec_layers_decryptions:
  assumes cfg: "aead = JStr ''xchacha20poly1305'' \<and> n = 24 \<and> alg = XChaCha20Poly1305
                  \<and> has_xchacha L
              \<or> aead = JStr ''chacha20poly1305'' \<and> n = 12 \<and> alg = ChaCha20Poly1305
                  \<and> has_chacha L"
  shows "decryptions (trace (snd
           (dec_layers L aead master_key vault_key_enc enc_dek nonce_payload ciphertext w)))
         = decryptions (trace w) @
           (case aead_init L alg master_key of
              Some e \<Rightarrow> []
            | None \<Rightarrow>
                Decrypt alg master_key (take n vault_key_enc) (drop n vault_key_enc) [] #
                (case aead_decrypt L alg master_key
                        (take n vault_key_enc) (drop n vault_key_enc) [] of
                   Inl e \<Rightarrow> []
                 | Inr vault_key \<Rightarrow>
                     (case aead_init L alg vault_key of
                        Some e \<Rightarrow> []
                      | None \<Rightarrow>
                          Decrypt alg vault_key (take n enc_dek) (drop n enc_dek) [] #
                          (case aead_decrypt L alg vault_key
                                  (take n enc_dek) (drop n enc_dek) [] of
                             Inl e \<Rightarrow> []
                           | Inr dek \<Rightarrow>
                               (case aead_init L alg dek of
                                  Some e \<Rightarrow> []
                                | None \<Rightarrow> [Decrypt alg dek nonce_payload ciphertext []])))))"
proof -
  have ready: "dec_aead_new L aead key = bind_io (construct L alg key) (\<lambda>c. return_io (c, n))"
    for key
    using cfg by (auto simp add: dec_aead_new_def)
  show ?thesis
  proof (cases "aead_init L alg master_key")
    case (Some e)
    then show ?thesis
      by (simp add: dec_layers_def ready)
  next
    case i1: None
    show ?thesis
    proof (cases "aead_decrypt L alg master_key (take n vault_key_enc) (drop n vault_key_enc) []")
      case (Inl e)
      with i1 show ?thesis
        by (simp add: dec_layers_def ready)
    next
      case d1: (Inr vault_key)
      show ?thesis
      proof (cases "aead_init L alg vault_key")
        case (Some e)
        with i1 d1 show ?thesis
          by (simp add: dec_layers_def ready)
      next
        case i2: None
        show ?thesis
        proof (cases "aead_decrypt L alg vault_key (take n enc_dek) (drop n enc_dek) []")
          case (Inl e)
          with i1 d1 i2 show ?thesis
            by (simp add: dec_layers_def ready)
        next
          case d2: (Inr dek)
          show ?thesis
          proof (cases "aead_init L alg dek")
            case (Some e)
            with i1 d1 i2 d2 show ?thesis
              by (simp add: dec_layers_def ready)
          next
            case i3: None
            show ?thesis
            proof (cases "aead_decrypt L alg dek nonce_payload ciphertext []")
              case (Inl e)
              with i1 d1 i2 d2 i3 show ?thesis
                by (simp add: dec_layers_def ready)
            next
              case d3: (Inr plaintext)
              with i1 d1 i2 d2 i3 show ?thesis
                by (cases "utf8_decode L plaintext") (simp_all add: dec_layers_def ready)
            qed
          qed
        qed
      qed
    qed
  qed
qed


lemma dec_aead_new_ready:
  assumes cfg: "aead = JStr ''xchacha20poly1305'' \<and> n = 24 \<and> alg = XChaCha20Poly1305
                  \<and> has_xchacha L
              \<or> aead = JStr ''chacha20poly1305'' \<and> n = 12 \<and> alg = ChaCha20Poly1305
                  \<and> has_chacha L"
  shows "dec_aead_new L aead key w =
           (case aead_init L alg key of
              Some e \<Rightarrow> Inl e
            | None \<Rightarrow> Inr (Cipher alg key, n),
            w\<lparr>trace := trace w @ [Construct alg key]\<rparr>)"
  using cfg
  by (cases "aead_init L alg key") (auto simp add: dec_aead_new_def)

lemma toy_rejects_bad_nonce: "rejects_bad_nonce toy_lib"
  by (simp add: rejects_bad_nonce_def toy_decrypt_def)

section \<open>Loading a document\<close>

lemma bind_exn_eq_Inr: "bind_exn r f = Inr x \<longleftrightarrow> (\<exists>a. r = Inr a \<and> f a = Inr x)"
  by (cases r) simp_all

lemma dec_load_InrD:
  assumes "dec_load L doc = Inr (aead, vault_key_enc, enc_dek, nonce_payload, ciphertext)"
  shows "getitem doc ''aead'' = Inr aead"
    and "\<exists>v. getitem doc ''vault_key_enc_b64'' = Inr v \<and> b64d L v = Inr vault_key_enc"
    and "\<exists>v. getitem doc ''enc_dek_b64'' = Inr v \<and> b64d L v = Inr enc_dek"
    and "\<exists>v. getitem doc ''nonce_payload_b64'' = Inr v \<and> b64d L v = Inr nonce_payload"
    and "\<exists>v. getitem doc ''ciphertext_b64'' = Inr v \<and> b64d L v = Inr ciphertext"
  using assms unfolding dec_load_def bind_exn_eq_Inr by auto

lemma dec_kdf_args_InrD:
  assumes "dec_kdf_args L doc W = Inr (pw, salt, n, r, p, dklen)"
  shows "\<exists>kdf params.
           getitem doc ''kdf'' = Inr kdf \<and> getitem kdf ''params'' = Inr params \<and>
           (\<exists>v. getitem kdf ''salt_b64'' = Inr v \<and> b64d L v = Inr salt) \<and>
           utf8_encode L W = Inr pw \<and>
           (\<exists>v. getitem params ''n'' = Inr v \<and> py_int L v = Inr n) \<and>
           (\<exists>v. getitem params ''r'' = Inr v \<and> py_int L v = Inr r) \<and>
           (\<exists>v. getitem params ''p'' = Inr v \<and> py_int L v = Inr p) \<and>
           (\<exists>v. getitem params ''dk_len'' = Inr v \<and> py_int L v = Inr dklen)"
  using assms unfolding dec_kdf_args_def bind_exn_eq_Inr by auto

lemma getitem_missing: "map_of kvs k = None \<Longrightarrow> getitem (JObj kvs) k = Inl (KeyError k)"
  by simp

lemma unknown_aead_doc_loads:
  "dec_load toy_lib unknown_aead_doc
     = Inr (JStr ''aes256gcm'', [0, 0, 1], [0, 0, 2], [0, 0, 3], [0, 0, 4])"
  "dec_kdf_args toy_lib unknown_aead_doc ''correct horse''
     = Inr (map of_char ''correct horse'', [0, 0, 1], 16384, 8, 1, 32)"
  by (simp_all add: dec_load_def dec_kdf_args_def unknown_aead_doc_def is_ascii_def
      b64_index_eval octet1_def octet2_def octet3_def params_json_def kdf_params_def
      toy_utf8_encode_def)

section \<open>Reading the annotated text\<close>

lemma one_line_simps [simp]:
  "one_line []" "one_line (c # s) \<longleftrightarrow> c \<noteq> CHR 0x0A \<and> one_line s"
  "one_line (s @ t) \<longleftrightarrow> one_line s \<and> one_line t"
  by (auto simp add: one_line_def)

lemma split_lines_line:
  "one_line l \<Longrightarrow> split_lines (l @ CHR 0x0A # rest) = l # split_lines rest"
  by (induction l) simp_all

lemma split_lines_concat:
  "list_all one_line ls \<Longrightarrow> split_lines (concat (map (\<lambda>l. l @ nl) ls)) = ls"
  by (induction ls) (simp_all add: nl_def split_lines_line)

lemma jsonc_text_lines: "jsonc_text L out = concat (map (\<lambda>l. l @ nl) (jsonc_lines L out))"
  by (simp add: jsonc_text_def jsonc_lines_def)

lemma split_lines_jsonc:
  assumes "one_line (out_aead out)" "one_line (out_vault_key_enc_b64 out)"
    "one_line (out_enc_dek_b64 out)" "one_line (out_nonce_payload_b64 out)"
    "one_line (out_ciphertext_b64 out)" "one_line (out_kdf_type out)"
    "one_line (out_kdf_salt_b64 out)"
    "one_line (json_dumps L (params_json (out_kdf_params out)))"
  shows "split_lines (jsonc_text L out) = jsonc_lines L out"
proof -
  have "list_all one_line (jsonc_lines L out)"
    using assms by (simp add: jsonc_lines_def dq_def)
  then show ?thesis
    by (simp only: jsonc_text_lines split_lines_concat)
qed

lemma strip_comma_entry [simp]: "strip_comma (CHR 0x22 # v @ [CHR 0x22, CHR '','']) = CHR 0x22 # v @ [CHR 0x22]"
  by (simp add: strip_comma_def butlast_append)

lemma jsonc_field_values:
  assumes lines: "split_lines (jsonc_text L out) = jsonc_lines L out"
    and params: "strip_comma (json_dumps L (params_json (out_kdf_params out)))
                   = json_dumps L (params_json (out_kdf_params out))"
  shows "jsonc_field ''aead'' (jsonc_text L out) = Some (dq @ out_aead out @ dq)"
    and "jsonc_field ''vault_key_enc_b64'' (jsonc_text L out)
           = Some (dq @ out_vault_key_enc_b64 out @ dq)"
    and "jsonc_field ''enc_dek_b64'' (jsonc_text L out) = Some (dq @ out_enc_dek_b64 out @ dq)"
    and "jsonc_field ''nonce_payload_b64'' (jsonc_text L out)
           = Some (dq @ out_nonce_payload_b64 out @ dq)"
    and "jsonc_field ''ciphertext_b64'' (jsonc_text L out)
           = Some (dq @ out_ciphertext_b64 out @ dq)"
    and "jsonc_field ''type'' (jsonc_text L out) = Some (dq @ out_kdf_type out @ dq)"
    and "jsonc_field ''salt_b64'' (jsonc_text L out) = Some (dq @ out_kdf_salt_b64 out @ dq)"
    and "jsonc_field ''params'' (jsonc_text L out)
           = Some (json_dumps L (params_json (out_kdf_params out)))"
  unfolding jsonc_field_def lines
  by (simp_all add: jsonc_lines_def is_comment_def strip_indent_def entry_value_def dq_def
      params)

lemma toy_b64encode_one_line: "one_line (toy_b64encode x)"
  by (induction x rule: toy_b64encode.induct) (simp_all add: one_line_def)

lemma toy_b64_one_line: "b64_one_line toy_lib"
  by (simp add: b64_one_line_def toy_b64encode_one_line)

lemma toy_dumps_params:
  "toy_dumps (params_json kdf_params) =
     ''{'' @ dq @ ''dk_len'' @ dq @ '': 32, '' @ dq @ ''n'' @ dq @ '': 16384, ''
       @ dq @ ''p'' @ dq @ '': 1, '' @ dq @ ''r'' @ dq @ '': 8}''"
  by (simp add: params_json_def kdf_params_def toy_digits.simps dq_def sort_keys_def)

lemma toy_params_one_line: "params_one_line toy_lib"
  by (simp add: params_one_line_def toy_dumps_params strip_comma_def one_line_def dq_def)

section \<open>Passwords and derived keys\<close>

lemma toy_rejects_wrong_key: "rejects_wrong_key toy_lib"
proof -
  have "\<exists>e. toy_decrypt alg k2 nonce ct [] = Inl e"
    if len: "length k1 = 32" "length k2 = 32" and ne: "k1 \<noteq> k2"
      and ct: "toy_encrypt alg k1 nonce data [] = Inr ct"
    for alg k1 k2 nonce data ct
  proof -
    from ct have "ct = k1 @ nonce @ data"
      by (simp add: toy_encrypt_def split: if_splits)
    with len ne show ?thesis
      by (simp add: toy_decrypt_def)
  qed
  then show ?thesis
    unfolding rejects_wrong_key_def toy_lib_sel by blast
qed

lemma example_keys_differ:
  "scrypt toy_lib (map of_char ''correct horse'') (draw example_entropy 16) 16384 8 1 32
     \<noteq> scrypt toy_lib (map of_char ''wrong horse'') (draw example_entropy 16) 16384 8 1 32"
  by (simp add: toy_scrypt_def draw_example)

lemma example_nul_password:
  "utf8_encode toy_lib (''correct horse'' @ [CHR 0x00])
     = Inr (map of_char ''correct horse'' @ [0])"
  by (simp add: toy_utf8_encode_def is_ascii_def)

lemma example_nul_master_key:
  "scrypt toy_lib (map of_char ''correct horse'' @ [0]) (s_kdf_salt example_sealing)
     16384 8 1 32 = Inr (s_master_key example_sealing)"
  by (simp add: toy_scrypt_def example_sealing_def numeral_2_eq_2)

section \<open>The key derivation of the opener\<close>

lemma dec_main_derives:
  assumes load: "dec_load L doc = Inr (aead, vault_key_enc, enc_dek, nonce_payload, ciphertext)"
    and W: "W \<noteq> []"
    and args: "dec_kdf_args L doc W = Inr (pw, salt, n, r, p, dklen)"
  shows "dec_main L (Doc doc) W w =
           (case scrypt L pw salt n r p dklen of
              Inl e \<Rightarrow>
                (Inl e, w\<lparr>trace := trace w @ [Getpass ''Master password: '',
                                              Scrypt pw salt n r p dklen]\<rparr>)
            | Inr master_key \<Rightarrow>
                dec_layers L aead master_key vault_key_enc enc_dek nonce_payload ciphertext
                  (w\<lparr>trace := trace w @ [Getpass ''Master password: '',
                                          Scrypt pw salt n r p dklen]\<rparr>))"
  using load W args
  by (simp add: dec_main_def hashlib_scrypt_def split: sum.splits)

lemma custom_kdf_doc_loads:
  "dec_load toy_lib custom_kdf_doc
     = Inr (JStr ''chacha20poly1305'', [0, 0, 1], [0, 0, 2], [0, 0, 3], [0, 0, 4])"
  by (simp add: dec_load_def custom_kdf_doc_def is_ascii_def b64_index_eval
      octet1_def octet2_def octet3_def)

lemma dec_load_fields:
  assumes "getitem doc ''aead'' = Inr aead"
    and "getitem doc ''vault_key_enc_b64'' = Inr (JStr v1)" "is_ascii v1"
      "b64decode L v1 = Inr vault_key_enc"
    and "getitem doc ''enc_dek_b64'' = Inr (JStr v2)" "is_ascii v2"
      "b64decode L v2 = Inr enc_dek"
    and "getitem doc ''nonce_payload_b64'' = Inr (JStr v3)" "is_ascii v3"
      "b64decode L v3 = Inr nonce_payload"
    and "getitem doc ''ciphertext_b64'' = Inr (JStr v4)" "is_ascii v4"
      "b64decode L v4 = Inr ciphertext"
  shows "dec_load L doc = Inr (aead, vault_key_enc, enc_dek, nonce_payload, ciphertext)"
  using assms by (simp add: dec_load_def)

lemma b64decode_AAAB: "b64decode toy_lib ''AAAB'' = Inr [0, 0, 1]" "is_ascii ''AAAB''"
  by (simp_all add: is_ascii_def b64_index_eval octet1_def octet2_def octet3_def)

section \<open>Empty inputs\<close>

text \<open>
  C7. The sealer with an empty payload returns 2 after the message
  \<^verbatim>\<open>plaintext cannot be empty\<close>; with an empty password it returns 2 after
  \<^verbatim>\<open>master password cannot be empty\<close>; the opener, given a document whose five
  top-level fields load, returns 2 with the same message on an empty password. In each
  case the trace of the run is exactly the prompts and the message: no random bytes were
  drawn, no key was derived, no AEAD object was built or used.
\<close>

theorem empty_input_rejection:
  "(utf8_encode L (rstrip_nl stdin_line) = Inr [] \<longrightarrow>
      enc_main L AEAD NonceLen stdin_line typed (start g) =
        (Inr 2, \<lparr>trace = [Stdout (''Enter plaintext to encrypt:'' @ nl), ReadLine,
                            Stderr (''plaintext cannot be empty'' @ nl)],
                   entropy = g\<rparr>)
      \<and> crypto_ops (trace (snd (enc_main L AEAD NonceLen stdin_line typed (start g)))) = [])
   \<and> (utf8_encode L (rstrip_nl stdin_line) = Inr P \<and> P \<noteq> [] \<longrightarrow>
      enc_main L AEAD NonceLen stdin_line [] (start g) =
        (Inr 2, \<lparr>trace = [Stdout (''Enter plaintext to encrypt:'' @ nl), ReadLine,
                            Getpass ''Master password: '',
                            Stderr (''master password cannot be empty'' @ nl)],
                   entropy = g\<rparr>)
      \<and> crypto_ops (trace (snd (enc_main L AEAD NonceLen stdin_line [] (start g)))) = [])
   \<and> (dec_load L doc = Inr loaded \<longrightarrow>
      dec_main L (Doc doc) [] (start g) =
        (Inr 2, \<lparr>trace = [Getpass ''Master password: '',
                            Stderr (''master password cannot be empty'' @ nl)],
                   entropy = g\<rparr>)
      \<and> crypto_ops (trace (snd (dec_main L (Doc doc) [] (start g)))) = [])"
  by (cases loaded) (simp add: enc_main_def dec_main_def start_def crypto_ops_def)

theorem empty_input_rejection_witness:
  "fst (enc_main toy_lib ''chacha20poly1305'' 12 nl ''correct horse'' (start (\<lambda>i. 0))) = Inr 2
   \<and> fst (enc_main toy_lib ''chacha20poly1305'' 12 (''hello vault'' @ nl) [] (start (\<lambda>i. 0))) = Inr 2
   \<and> fst (dec_main toy_lib (Doc small_doc) [] (start (\<lambda>i. 0))) = Inr 2"
proof -
  have h1: "utf8_encode toy_lib (rstrip_nl nl) = Inr []"
    by (simp add: toy_utf8_encode_def is_ascii_def)
  have h2: "utf8_encode toy_lib (rstrip_nl (''hello vault'' @ nl)) = Inr (map of_char ''hello vault'')
            \<and> (map of_char ''hello vault'' :: bytes) \<noteq> []"
    using example_payload by simp
  note r1 = empty_input_rejection [THEN conjunct1, rule_format, OF h1, THEN conjunct1,
      of "''chacha20poly1305''" 12 "''correct horse''" "\<lambda>i. 0"]
  note r2 = empty_input_rejection [THEN conjunct2, THEN conjunct1, rule_format, OF h2,
      THEN conjunct1, of "''chacha20poly1305''" 12 "\<lambda>i. 0"]
  note r3 = empty_input_rejection [THEN conjunct2, THEN conjunct2, rule_format,
      OF small_doc_loads, THEN conjunct1, of "\<lambda>i. 0"]
  show ?thesis
    by (simp only: r1 r2 r3 fst_conv simp_thms)
qed

section \<open>Round trip\<close>

text \<open>
  C1. Sealing a line of text under a non-empty password and opening the written
  \<^verbatim>\<open>demo.json\<close> with the same password succeeds: the sealer returns 0, the opener
  returns 0, the last decryption of the opener yields exactly the payload bytes \<open>P\<close> that
  the sealer encrypted, and what the opener prints is \<open>P\<close> decoded followed by a newline,
  with nothing on stderr. The library is assumed to do its part: base64 decodes what it
  encodes, the AEAD decrypts what it encrypts, scrypt returns a 32-byte key.
\<close>

theorem seal_open_roundtrip:
  assumes avail: "has_xchacha L \<or> has_chacha L"
    and b64: "b64_roundtrip L" and sound: "aead_sound L" and kdf: "scrypt_total L"
    and P: "utf8_encode L (rstrip_nl stdin_line) = Inr P" "P \<noteq> []"
    and W: "W \<noteq> []" "utf8_encode L W = Inr pw"
    and decoded: "utf8_decode L P = Inr text"
  shows "\<exists>w doc w' alg dek nonce ciphertext.
           enc_script L stdin_line W (start g) = (Inr 0, w) \<and>
           written ''demo.json'' (trace w) = [Json doc] \<and>
           dec_main L (Doc doc) W (start g') = (Inr 0, w') \<and>
           last (decryptions (trace w')) = Decrypt alg dek nonce ciphertext [] \<and>
           aead_decrypt L alg dek nonce ciphertext [] = Inr P \<and>
           stdout_of (trace w') = [text @ nl] \<and> stderr_of (trace w') = []"
proof -
  from enc_script_seals [OF avail sound kdf P W, of g]
  obtain s g6 where ok: "sealing_ok L pw P s"
    and l1: "aead_decrypt L (s_alg s) (s_master_key s) (s_nonce_vault s) (s_vault_key_enc s) []
             = Inr (s_vault_key s)"
    and l2: "aead_decrypt L (s_alg s) (s_vault_key s) (s_nonce_dek s) (s_ct_dek s) []
             = Inr (s_dek s)"
    and l3: "aead_decrypt L (s_alg s) (s_dek s) (s_nonce_payload s) (s_ciphertext s) []
             = Inr P"
    and run: "enc_script L stdin_line W (start g) =
             (Inr 0, \<lparr>trace = fallback_notice L @ sealing_trace L pw P s, entropy = g6\<rparr>)"
    by blast
  have cfg: "s_AEAD s = ''xchacha20poly1305'' \<and> s_NonceLen s = 24
                  \<and> s_alg s = XChaCha20Poly1305 \<and> has_xchacha L
              \<or> s_AEAD s = ''chacha20poly1305'' \<and> s_NonceLen s = 12
                  \<and> s_alg s = ChaCha20Poly1305 \<and> has_chacha L"
    using ok unfolding sealing_ok_def by blast
  have facts: "length (s_nonce_vault s) = s_NonceLen s" "length (s_nonce_dek s) = s_NonceLen s"
    "scrypt L pw (s_kdf_salt s) 16384 8 1 32 = Inr (s_master_key s)"
    "aead_init L (s_alg s) (s_master_key s) = None"
    "aead_init L (s_alg s) (s_vault_key s) = None"
    "aead_init L (s_alg s) (s_dek s) = None"
    using ok unfolding sealing_ok_def by blast+
  have "dec_main L (Doc (out_json (sealing_out L s))) W (start g') =
      (Inr 0, \<lparr>trace =
         [Getpass ''Master password: '', Scrypt pw (s_kdf_salt s) 16384 8 1 32,
          Construct (s_alg s) (s_master_key s),
          Decrypt (s_alg s) (s_master_key s) (s_nonce_vault s) (s_vault_key_enc s) [],
          Construct (s_alg s) (s_vault_key s),
          Decrypt (s_alg s) (s_vault_key s) (s_nonce_dek s) (s_ct_dek s) [],
          Construct (s_alg s) (s_dek s),
          Decrypt (s_alg s) (s_dek s) (s_nonce_payload s) (s_ciphertext s) [],
          Stdout (text @ nl)], entropy = g'\<rparr>)"
    by (simp add: dec_main_sealed [OF b64 W facts(3)]
        dec_layers_opens [OF cfg facts(1,2,4) l1 facts(5) l2 facts(6) l3 decoded] start_def)
  with run l3 show ?thesis
    by simp
qed

theorem seal_open_roundtrip_witness:
  "\<exists>w doc w' alg dek nonce ciphertext.
     enc_script toy_lib (''hello vault'' @ nl) ''correct horse'' (start (\<lambda>i. of_nat i))
       = (Inr 0, w) \<and>
     written ''demo.json'' (trace w) = [Json doc] \<and>
     dec_main toy_lib (Doc doc) ''correct horse'' (start (\<lambda>i. 0)) = (Inr 0, w') \<and>
     last (decryptions (trace w')) = Decrypt alg dek nonce ciphertext [] \<and>
     aead_decrypt toy_lib alg dek nonce ciphertext [] = Inr (map of_char ''hello vault'') \<and>
     stdout_of (trace w') = [''hello vault'' @ nl] \<and> stderr_of (trace w') = []"
proof -
  have avail: "has_xchacha toy_lib \<or> has_chacha toy_lib"
    by simp
  have nonempty: "(map of_char ''hello vault'' :: bytes) \<noteq> []" "''correct horse'' \<noteq> []"
    by simp_all
  show ?thesis
    by (rule seal_open_roundtrip [OF avail toy_b64_roundtrip toy_aead_sound toy_scrypt_total
          example_payload nonempty(1) nonempty(2) example_password example_text])
qed

section \<open>Wrong password\<close>

text \<open>
  C3, as the code has it. What the opener checks is the key, not the password: the
  first decryption runs under the key scrypt derives from the typed password and the
  stored salt. When that key differs from the one the sealer derived from \<open>W1\<close> (with
  the salt \<open>draw g 16\<close> it drew), opening with \<open>W2\<close> returns 3 after the message
  \<^verbatim>\<open>decrypt failed (wrong master password?)\<close>; nothing is written to stdout and only the
  first of the three decryptions is attempted. The library is assumed to do its part;
  \<open>rejects_wrong_key\<close> is the authentication of the AEAD.
\<close>

theorem wrong_password_fails_closed:
  assumes avail: "has_xchacha L \<or> has_chacha L"
    and b64: "b64_roundtrip L" and sound: "aead_sound L" and kdf: "scrypt_total L"
    and strict: "rejects_wrong_key L"
    and P: "utf8_encode L (rstrip_nl stdin_line) = Inr P" "P \<noteq> []"
    and W1: "W1 \<noteq> []" "utf8_encode L W1 = Inr pw1"
    and W2: "W2 \<noteq> []" "utf8_encode L W2 = Inr pw2"
    and differ: "scrypt L pw1 (draw g 16) 16384 8 1 32 \<noteq> scrypt L pw2 (draw g 16) 16384 8 1 32"
  shows "\<exists>w doc w'.
           enc_script L stdin_line W1 (start g) = (Inr 0, w) \<and>
           written ''demo.json'' (trace w) = [Json doc] \<and>
           dec_main L (Doc doc) W2 (start g') = (Inr 3, w') \<and>
           stdout_of (trace w') = [] \<and>
           stderr_of (trace w') = [''decrypt failed (wrong master password?)'' @ nl] \<and>
           length (decryptions (trace w')) = 1"
proof -
  from enc_script_seals [OF avail sound kdf P W1, of g]
  obtain s g6 where ok: "sealing_ok L pw1 P s" and salt: "s_kdf_salt s = draw g 16"
    and run: "enc_script L stdin_line W1 (start g) =
             (Inr 0, \<lparr>trace = fallback_notice L @ sealing_trace L pw1 P s, entropy = g6\<rparr>)"
    by blast
  have cfg: "JStr (s_AEAD s) = JStr ''xchacha20poly1305'' \<and> s_NonceLen s = 24
                  \<and> s_alg s = XChaCha20Poly1305 \<and> has_xchacha L
              \<or> JStr (s_AEAD s) = JStr ''chacha20poly1305'' \<and> s_NonceLen s = 12
                  \<and> s_alg s = ChaCha20Poly1305 \<and> has_chacha L"
    using ok unfolding sealing_ok_def by blast
  have facts: "length (s_nonce_vault s) = s_NonceLen s"
    "scrypt L pw1 (s_kdf_salt s) 16384 8 1 32 = Inr (s_master_key s)"
    "aead_encrypt L (s_alg s) (s_master_key s) (s_nonce_vault s) (s_vault_key s) []
       = Inr (s_vault_key_enc s)"
    using ok unfolding sealing_ok_def by blast+
  obtain mk1 where mk1: "scrypt L pw1 (s_kdf_salt s) 16384 8 1 32 = Inr mk1" "length mk1 = 32"
  proof -
    from kdf have "\<exists>k. scrypt L pw1 (s_kdf_salt s) 16384 8 1 32 = Inr k \<and> length k = 32"
      by (simp add: scrypt_total_def)
    then show ?thesis using that by blast
  qed
  obtain mk2 where mk2: "scrypt L pw2 (s_kdf_salt s) 16384 8 1 32 = Inr mk2" "length mk2 = 32"
  proof -
    from kdf have "\<exists>k. scrypt L pw2 (s_kdf_salt s) 16384 8 1 32 = Inr k \<and> length k = 32"
      by (simp add: scrypt_total_def)
    then show ?thesis using that by blast
  qed
  have key: "s_master_key s = mk1"
    using facts(2) mk1(1) by simp
  have ne: "s_master_key s \<noteq> mk2"
    using differ facts(2) mk2(1) unfolding salt by auto
  have "lib_nonce_len (s_alg s) = s_NonceLen s"
    using cfg by auto
  with facts(1) have "length (s_nonce_vault s) = lib_nonce_len (s_alg s)"
    by simp
  from aead_soundD [OF sound mk2(2) this]
  have init: "aead_init L (s_alg s) mk2 = None"
    by blast
  have "\<exists>e. aead_decrypt L (s_alg s) mk2 (s_nonce_vault s) (s_vault_key_enc s) [] = Inl e"
    using strict mk1(2) mk2(2) ne facts(3) unfolding rejects_wrong_key_def key by blast
  then obtain e where
    "aead_decrypt L (s_alg s) mk2 (s_nonce_vault s) (s_vault_key_enc s) [] = Inl e"
    by blast
  then have fail: "aead_decrypt L (s_alg s) mk2
      (take (s_NonceLen s) (s_nonce_vault s @ s_vault_key_enc s))
      (drop (s_NonceLen s) (s_nonce_vault s @ s_vault_key_enc s)) [] = Inl e"
    using facts(1) by simp
  have "dec_main L (Doc (out_json (sealing_out L s))) W2 (start g') =
      (Inr 3, \<lparr>trace =
         [Getpass ''Master password: '', Scrypt pw2 (s_kdf_salt s) 16384 8 1 32,
          Construct (s_alg s) mk2,
          Decrypt (s_alg s) mk2 (s_nonce_vault s) (s_vault_key_enc s) [],
          Stderr (''decrypt failed (wrong master password?)'' @ nl)], entropy = g'\<rparr>)"
    using facts(1)
    by (simp add: dec_main_sealed [OF b64 W2 mk2(1)]
        dec_layers_vault_fails [OF cfg init fail] start_def)
  with run show ?thesis
    by simp
qed

theorem wrong_password_fails_closed_witness:
  "\<exists>w doc w'.
     enc_script toy_lib (''hello vault'' @ nl) ''correct horse'' (start example_entropy)
       = (Inr 0, w) \<and>
     written ''demo.json'' (trace w) = [Json doc] \<and>
     dec_main toy_lib (Doc doc) ''wrong horse'' (start (\<lambda>i. 0)) = (Inr 3, w') \<and>
     stdout_of (trace w') = [] \<and>
     stderr_of (trace w') = [''decrypt failed (wrong master password?)'' @ nl] \<and>
     length (decryptions (trace w')) = 1"
proof -
  have avail: "has_xchacha toy_lib \<or> has_chacha toy_lib"
    by simp
  have nonempty: "(map of_char ''hello vault'' :: bytes) \<noteq> []" "''correct horse'' \<noteq> []"
    "''wrong horse'' \<noteq> []"
    by simp_all
  show ?thesis
    by (rule wrong_password_fails_closed [OF avail toy_b64_roundtrip toy_aead_sound
          toy_scrypt_total toy_rejects_wrong_key example_payload nonempty(1) nonempty(2)
          example_password nonempty(3) example_other_password example_keys_differ])
qed

text \<open>
  The claim as the spec words it, for every pair of distinct passwords, fails where two
  passwords derive the same key. scrypt uses the password as an HMAC key, which is
  padded with zero bytes: \<^verbatim>\<open>correct horse\<close> and the same followed by a NUL character
  derive one key, in \<^verbatim>\<open>hashlib\<close> as in the small library, and the second password opens
  what the first sealed.
\<close>

theorem colliding_passwords_counterexample:
  "''correct horse'' \<noteq> ''correct horse'' @ [CHR 0x00]
   \<and> enc_script toy_lib (''hello vault'' @ nl) ''correct horse'' (start example_entropy)
     = (Inr 0,
        \<lparr>trace = fallback_notice toy_lib @
           sealing_trace toy_lib (map of_char ''correct horse'') (map of_char ''hello vault'')
             example_sealing,
         entropy = entropy_after example_entropy 12\<rparr>)
   \<and> written ''demo.json''
       (fallback_notice toy_lib @
        sealing_trace toy_lib (map of_char ''correct horse'') (map of_char ''hello vault'')
          example_sealing)
     = [Json (out_json (sealing_out toy_lib example_sealing))]
   \<and> fst (dec_main toy_lib (Doc (out_json (sealing_out toy_lib example_sealing)))
            (''correct horse'' @ [CHR 0x00]) (start example_entropy))
     = Inr 0
   \<and> stdout_of (trace (snd
        (dec_main toy_lib (Doc (out_json (sealing_out toy_lib example_sealing)))
           (''correct horse'' @ [CHR 0x00]) (start example_entropy))))
     = [''hello vault'' @ nl]
   \<and> stderr_of (trace (snd
        (dec_main toy_lib (Doc (out_json (sealing_out toy_lib example_sealing)))
           (''correct horse'' @ [CHR 0x00]) (start example_entropy))))
     = []"
proof -
  have W: "''correct horse'' @ [CHR 0x00] \<noteq> []"
    by simp
  have cfg: "s_AEAD example_sealing = ''xchacha20poly1305'' \<and> s_NonceLen example_sealing = 24
                  \<and> s_alg example_sealing = XChaCha20Poly1305 \<and> has_xchacha toy_lib
              \<or> s_AEAD example_sealing = ''chacha20poly1305'' \<and> s_NonceLen example_sealing = 12
                  \<and> s_alg example_sealing = ChaCha20Poly1305 \<and> has_chacha toy_lib"
    by (simp add: example_sealing_def)
  have len: "length (s_nonce_vault example_sealing) = s_NonceLen example_sealing"
    "length (s_nonce_dek example_sealing) = s_NonceLen example_sealing"
    by (simp_all add: example_sealing_def)
  have l1: "aead_init toy_lib (s_alg example_sealing) (s_master_key example_sealing) = None"
    "aead_decrypt toy_lib (s_alg example_sealing) (s_master_key example_sealing)
       (s_nonce_vault example_sealing) (s_vault_key_enc example_sealing) []
     = Inr (s_vault_key example_sealing)"
    by (simp_all add: example_sealing_def toy_init_def toy_decrypt_def)
  have l2: "aead_init toy_lib (s_alg example_sealing) (s_vault_key example_sealing) = None"
    "aead_decrypt toy_lib (s_alg example_sealing) (s_vault_key example_sealing)
       (s_nonce_dek example_sealing) (s_ct_dek example_sealing) []
     = Inr (s_dek example_sealing)"
    by (simp_all add: example_sealing_def toy_init_def toy_decrypt_def)
  have l3: "aead_init toy_lib (s_alg example_sealing) (s_dek example_sealing) = None"
    "aead_decrypt toy_lib (s_alg example_sealing) (s_dek example_sealing)
       (s_nonce_payload example_sealing) (s_ciphertext example_sealing) []
     = Inr (map of_char ''hello vault'')"
    by (simp_all add: example_sealing_def toy_init_def toy_decrypt_def)
  have opens: "dec_main toy_lib (Doc (out_json (sealing_out toy_lib example_sealing)))
      (''correct horse'' @ [CHR 0x00]) (start example_entropy) =
      (Inr 0, \<lparr>trace =
         [Getpass ''Master password: '',
          Scrypt (map of_char ''correct horse'' @ [0]) (s_kdf_salt example_sealing)
            16384 8 1 32,
          Construct (s_alg example_sealing) (s_master_key example_sealing),
          Decrypt (s_alg example_sealing) (s_master_key example_sealing)
            (s_nonce_vault example_sealing) (s_vault_key_enc example_sealing) [],
          Construct (s_alg example_sealing) (s_vault_key example_sealing),
          Decrypt (s_alg example_sealing) (s_vault_key example_sealing)
            (s_nonce_dek example_sealing) (s_ct_dek example_sealing) [],
          Construct (s_alg example_sealing) (s_dek example_sealing),
          Decrypt (s_alg example_sealing) (s_dek example_sealing)
            (s_nonce_payload example_sealing) (s_ciphertext example_sealing) [],
          Stdout (''hello vault'' @ nl)], entropy = example_entropy\<rparr>)"
    unfolding dec_main_sealed [OF toy_b64_roundtrip W example_nul_password
          example_nul_master_key]
    by (simp add: dec_layers_opens [OF cfg len l1 l2 l3 example_text] start_def)
  have files: "written ''demo.json''
       (fallback_notice toy_lib @
        sealing_trace toy_lib (map of_char ''correct horse'') (map of_char ''hello vault'')
          example_sealing)
     = [Json (out_json (sealing_out toy_lib example_sealing))]"
    by simp
  show ?thesis
    unfolding opens
    by (intro conjI example_seal_run files) simp_all
qed

section \<open>Layout of the blobs\<close>

text \<open>
  C5, as the code has it. The two wrapped keys are each stored as one blob, the nonce
  followed by the ciphertext, base64-encoded (\<^verbatim>\<open>vault_key_enc_b64\<close>, \<^verbatim>\<open>enc_dek_b64\<close>).
  The payload is stored differently: its nonce and its ciphertext are two fields,
  \<^verbatim>\<open>nonce_payload_b64\<close> and \<^verbatim>\<open>ciphertext_b64\<close>, each encoded on its own. The nonces and
  ciphertexts are those of the three encryptions of the run.
\<close>

theorem envelope_blob_layout:
  assumes avail: "has_xchacha L \<or> has_chacha L"
    and sound: "aead_sound L" and kdf: "scrypt_total L"
    and P: "utf8_encode L (rstrip_nl stdin_line) = Inr P" "P \<noteq> []"
    and W: "W \<noteq> []" "utf8_encode L W = Inr pw"
  shows "\<exists>w doc alg master_key nonce_vault vault_key vault_key_enc nonce_dek dek ct_dek
           nonce_payload ciphertext.
           enc_script L stdin_line W (start g) = (Inr 0, w) \<and>
           written ''demo.json'' (trace w) = [Json doc] \<and>
           encryptions (trace w) =
             [Encrypt alg master_key nonce_vault vault_key [],
              Encrypt alg vault_key nonce_dek dek [],
              Encrypt alg dek nonce_payload P []] \<and>
           aead_encrypt L alg master_key nonce_vault vault_key [] = Inr vault_key_enc \<and>
           aead_encrypt L alg vault_key nonce_dek dek [] = Inr ct_dek \<and>
           aead_encrypt L alg dek nonce_payload P [] = Inr ciphertext \<and>
           getitem doc ''vault_key_enc_b64'' = Inr (JStr (b64 L (nonce_vault @ vault_key_enc))) \<and>
           getitem doc ''enc_dek_b64'' = Inr (JStr (b64 L (nonce_dek @ ct_dek))) \<and>
           getitem doc ''nonce_payload_b64'' = Inr (JStr (b64 L nonce_payload)) \<and>
           getitem doc ''ciphertext_b64'' = Inr (JStr (b64 L ciphertext))"
proof -
  from enc_script_seals [OF avail sound kdf P W, of g]
  obtain s g6 where ok: "sealing_ok L pw P s"
    and run: "enc_script L stdin_line W (start g) =
             (Inr 0, \<lparr>trace = fallback_notice L @ sealing_trace L pw P s, entropy = g6\<rparr>)"
    by blast
  have facts:
    "aead_encrypt L (s_alg s) (s_master_key s) (s_nonce_vault s) (s_vault_key s) []
       = Inr (s_vault_key_enc s)"
    "aead_encrypt L (s_alg s) (s_vault_key s) (s_nonce_dek s) (s_dek s) []
       = Inr (s_ct_dek s)"
    "aead_encrypt L (s_alg s) (s_dek s) (s_nonce_payload s) P [] = Inr (s_ciphertext s)"
    using ok unfolding sealing_ok_def by blast+
  show ?thesis
    using run facts by (simp add: sealing_out_def b64_def)
qed

theorem envelope_blob_layout_witness:
  "\<exists>w doc alg master_key nonce_vault vault_key vault_key_enc nonce_dek dek ct_dek
     nonce_payload ciphertext.
     enc_script toy_lib (''hello vault'' @ nl) ''correct horse'' (start example_entropy)
       = (Inr 0, w) \<and>
     written ''demo.json'' (trace w) = [Json doc] \<and>
     encryptions (trace w) =
       [Encrypt alg master_key nonce_vault vault_key [],
        Encrypt alg vault_key nonce_dek dek [],
        Encrypt alg dek nonce_payload (map of_char ''hello vault'') []] \<and>
     aead_encrypt toy_lib alg master_key nonce_vault vault_key [] = Inr vault_key_enc \<and>
     aead_encrypt toy_lib alg vault_key nonce_dek dek [] = Inr ct_dek \<and>
     aead_encrypt toy_lib alg dek nonce_payload (map of_char ''hello vault'') []
       = Inr ciphertext \<and>
     getitem doc ''vault_key_enc_b64''
       = Inr (JStr (b64 toy_lib (nonce_vault @ vault_key_enc))) \<and>
     getitem doc ''enc_dek_b64'' = Inr (JStr (b64 toy_lib (nonce_dek @ ct_dek))) \<and>
     getitem doc ''nonce_payload_b64'' = Inr (JStr (b64 toy_lib nonce_payload)) \<and>
     getitem doc ''ciphertext_b64'' = Inr (JStr (b64 toy_lib ciphertext))"
proof -
  have avail: "has_xchacha toy_lib \<or> has_chacha toy_lib"
    by simp
  have nonempty: "(map of_char ''hello vault'' :: bytes) \<noteq> []" "''correct horse'' \<noteq> []"
    by simp_all
  show ?thesis
    by (rule envelope_blob_layout [OF avail toy_aead_sound toy_scrypt_total
          example_payload nonempty example_password])
qed

text \<open>
  The claim as the spec words it, that the payload nonce and ciphertext travel as one
  concatenated blob, fails on the worked example: \<^verbatim>\<open>ciphertext_b64\<close> holds the encoding
  of the ciphertext alone, not of the 12-byte nonce followed by the ciphertext.
\<close>

theorem payload_blob_counterexample:
  "written ''demo.json''
     (trace (snd (enc_script toy_lib (''hello vault'' @ nl) ''correct horse''
                    (start example_entropy))))
     = [Json (out_json (sealing_out toy_lib example_sealing))]
   \<and> encryptions
     (trace (snd (enc_script toy_lib (''hello vault'' @ nl) ''correct horse''
                    (start example_entropy))))
     ! 2 = Encrypt ChaCha20Poly1305 (s_dek example_sealing) (s_nonce_payload example_sealing)
             (map of_char ''hello vault'') []
   \<and> aead_encrypt toy_lib ChaCha20Poly1305 (s_dek example_sealing)
       (s_nonce_payload example_sealing) (map of_char ''hello vault'') []
     = Inr (s_ciphertext example_sealing)
   \<and> length (s_nonce_payload example_sealing) = 12
   \<and> getitem (out_json (sealing_out toy_lib example_sealing)) ''nonce_payload_b64''
     = Inr (JStr (b64 toy_lib (s_nonce_payload example_sealing)))
   \<and> getitem (out_json (sealing_out toy_lib example_sealing)) ''ciphertext_b64''
     = Inr (JStr (b64 toy_lib (s_ciphertext example_sealing)))
   \<and> getitem (out_json (sealing_out toy_lib example_sealing)) ''ciphertext_b64''
     \<noteq> Inr (JStr (b64 toy_lib
                      (s_nonce_payload example_sealing @ s_ciphertext example_sealing)))"
proof -
  have ok: "aead_encrypt toy_lib ChaCha20Poly1305 (s_dek example_sealing)
       (s_nonce_payload example_sealing) (map of_char ''hello vault'') []
     = Inr (s_ciphertext example_sealing)" "s_alg example_sealing = ChaCha20Poly1305"
    "length (s_nonce_payload example_sealing) = 12"
    by (simp_all add: example_sealing_def toy_encrypt_def)
  have "s_ciphertext example_sealing
      \<noteq> s_nonce_payload example_sealing @ s_ciphertext example_sealing"
    using ok(3) by (metis append_self_conv2 length_0_conv zero_neq_numeral)
  then have "b64 toy_lib (s_ciphertext example_sealing)
      \<noteq> b64 toy_lib (s_nonce_payload example_sealing @ s_ciphertext example_sealing)"
    using toy_b64encode_inj by (auto simp add: b64_def)
  then show ?thesis
    unfolding example_seal_run using ok by (simp add: sealing_out_def b64_def)
qed

section \<open>Tampering\<close>

text \<open>
  C2. A flipped bit is detected at every layer, but not reported the same way. On the
  sealed example, a bit flipped in the vault-key wrap makes the opener return 3 after
  \<^verbatim>\<open>decrypt failed (wrong master password?)\<close>: the first decryption sits in a
  \<^verbatim>\<open>try\<close>. A bit flipped in the DEK wrap or in the payload ciphertext makes the second
  or third decryption raise, and those two calls have no handler: the run ends with the
  uncaught \<^verbatim>\<open>InvalidTag\<close> and no message. An observer tells the failing layer from the
  exit status and from stderr.
\<close>

theorem tamper_failure_depends_on_layer:
  "fst (dec_main toy_lib (Doc tampered_vault) ''correct horse'' (start example_entropy))
     = Inr 3
   \<and> stderr_of (trace (snd
        (dec_main toy_lib (Doc tampered_vault) ''correct horse'' (start example_entropy))))
     = [''decrypt failed (wrong master password?)'' @ nl]
   \<and> fst (dec_main toy_lib (Doc tampered_dek) ''correct horse'' (start example_entropy))
     = Inl InvalidTag
   \<and> stderr_of (trace (snd
        (dec_main toy_lib (Doc tampered_dek) ''correct horse'' (start example_entropy))))
     = []
   \<and> fst (dec_main toy_lib (Doc tampered_payload) ''correct horse'' (start example_entropy))
     = Inl InvalidTag
   \<and> stderr_of (trace (snd
        (dec_main toy_lib (Doc tampered_payload) ''correct horse'' (start example_entropy))))
     = []"
  unfolding tampered_vault_run tampered_dek_run tampered_payload_run by simp

section \<open>Key derivation\<close>

text \<open>
  C8. The opener derives the master key from what the envelope stores. For any document
  whose top-level fields load and whose \<^verbatim>\<open>kdf\<close> section holds a salt and integer
  parameters \<^verbatim>\<open>n\<close>, \<^verbatim>\<open>r\<close>, \<^verbatim>\<open>p\<close>, \<^verbatim>\<open>dk_len\<close>, the run is the prompt, one call of scrypt
  with the bytes of the typed password, the decoded salt and exactly those parameters,
  and then the three layers under the key that call returned; nothing of the state of
  the run enters the call. On the document a sealing run wrote, the call has the
  arguments of the sealer's call, so the key is the sealer's master key, and with it
  the vault key and the DEK are recovered: both runs construct their AEAD objects from
  the same three keys. That equal arguments give equal keys is \<^verbatim>\<open>hashlib.scrypt\<close>'s
  part: the library call is a function of its six arguments.
\<close>

theorem kdf_rederivation:
  assumes avail: "has_xchacha L \<or> has_chacha L"
    and b64: "b64_roundtrip L" and sound: "aead_sound L" and kdf: "scrypt_total L"
    and P: "utf8_encode L (rstrip_nl stdin_line) = Inr P" "P \<noteq> []"
    and W: "W \<noteq> []" "utf8_encode L W = Inr pw"
  shows "(dec_load L doc' = Inr (aead, vault_key_enc, enc_dek, nonce_payload, ciphertext) \<and>
          getitem doc' ''kdf'' = Inr kdf_obj \<and>
          getitem kdf_obj ''params'' = Inr params \<and>
          getitem kdf_obj ''salt_b64'' = Inr (JStr salt_b64) \<and>
          is_ascii salt_b64 \<and> b64decode L salt_b64 = Inr salt' \<and>
          getitem params ''n'' = Inr (JInt n) \<and> getitem params ''r'' = Inr (JInt r) \<and>
          getitem params ''p'' = Inr (JInt p) \<and>
          getitem params ''dk_len'' = Inr (JInt dklen) \<longrightarrow>
          dec_main L (Doc doc') W (start g') =
            (case scrypt L pw salt' n r p dklen of
               Inl e \<Rightarrow>
                 (Inl e, \<lparr>trace = [Getpass ''Master password: '',
                                    Scrypt pw salt' n r p dklen],
                          entropy = g'\<rparr>)
             | Inr master_key \<Rightarrow>
                 dec_layers L aead master_key vault_key_enc enc_dek nonce_payload ciphertext
                   \<lparr>trace = [Getpass ''Master password: '', Scrypt pw salt' n r p dklen],
                    entropy = g'\<rparr>))
         \<and> (\<exists>w doc salt key vault_key dek.
              enc_script L stdin_line W (start g) = (Inr 0, w) \<and>
              written ''demo.json'' (trace w) = [Json doc] \<and>
              kdf_calls (trace w) = [Scrypt pw salt 16384 8 1 32] \<and>
              kdf_calls (trace (snd (dec_main L (Doc doc) W (start g'))))
                = [Scrypt pw salt 16384 8 1 32] \<and>
              scrypt L pw salt 16384 8 1 32 = Inr key \<and>
              aead_keys (trace w) = [key, vault_key, dek] \<and>
              aead_keys (trace (snd (dec_main L (Doc doc) W (start g'))))
                = [key, vault_key, dek])"
proof (intro conjI impI)
  assume stored:
    "dec_load L doc' = Inr (aead, vault_key_enc, enc_dek, nonce_payload, ciphertext) \<and>
     getitem doc' ''kdf'' = Inr kdf_obj \<and>
     getitem kdf_obj ''params'' = Inr params \<and>
     getitem kdf_obj ''salt_b64'' = Inr (JStr salt_b64) \<and>
     is_ascii salt_b64 \<and> b64decode L salt_b64 = Inr salt' \<and>
     getitem params ''n'' = Inr (JInt n) \<and> getitem params ''r'' = Inr (JInt r) \<and>
     getitem params ''p'' = Inr (JInt p) \<and>
     getitem params ''dk_len'' = Inr (JInt dklen)"
  then have args: "dec_kdf_args L doc' W = Inr (pw, salt', n, r, p, dklen)"
    using W(2) by (simp add: dec_kdf_args_def)
  from stored have load:
    "dec_load L doc' = Inr (aead, vault_key_enc, enc_dek, nonce_payload, ciphertext)"
    by simp
  show "dec_main L (Doc doc') W (start g') =
            (case scrypt L pw salt' n r p dklen of
               Inl e \<Rightarrow>
                 (Inl e, \<lparr>trace = [Getpass ''Master password: '',
                                    Scrypt pw salt' n r p dklen],
                          entropy = g'\<rparr>)
             | Inr master_key \<Rightarrow>
                 dec_layers L aead master_key vault_key_enc enc_dek nonce_payload ciphertext
                   \<lparr>trace = [Getpass ''Master password: '', Scrypt pw salt' n r p dklen],
                    entropy = g'\<rparr>)"
    unfolding dec_main_derives [OF load W(1) args]
    by (simp add: start_def split: sum.splits)
next
  from enc_script_seals [OF avail sound kdf P W, of g]
  obtain s g6 where ok: "sealing_ok L pw P s"
    and l1: "aead_decrypt L (s_alg s) (s_master_key s) (s_nonce_vault s) (s_vault_key_enc s) []
             = Inr (s_vault_key s)"
    and l2: "aead_decrypt L (s_alg s) (s_vault_key s) (s_nonce_dek s) (s_ct_dek s) []
             = Inr (s_dek s)"
    and l3: "aead_decrypt L (s_alg s) (s_dek s) (s_nonce_payload s) (s_ciphertext s) []
             = Inr P"
    and run: "enc_script L stdin_line W (start g) =
             (Inr 0, \<lparr>trace = fallback_notice L @ sealing_trace L pw P s, entropy = g6\<rparr>)"
    by blast
  have cfg: "s_AEAD s = ''xchacha20poly1305'' \<and> s_NonceLen s = 24
                  \<and> s_alg s = XChaCha20Poly1305 \<and> has_xchacha L
              \<or> s_AEAD s = ''chacha20poly1305'' \<and> s_NonceLen s = 12
                  \<and> s_alg s = ChaCha20Poly1305 \<and> has_chacha L"
    using ok unfolding sealing_ok_def by blast
  have facts: "length (s_nonce_vault s) = s_NonceLen s" "length (s_nonce_dek s) = s_NonceLen s"
    "scrypt L pw (s_kdf_salt s) 16384 8 1 32 = Inr (s_master_key s)"
    "aead_init L (s_alg s) (s_master_key s) = None"
    "aead_init L (s_alg s) (s_vault_key s) = None"
    "aead_init L (s_alg s) (s_dek s) = None"
    using ok unfolding sealing_ok_def by blast+
  note opened = dec_layers_unwraps [OF cfg facts(1,2,4) l1 facts(5) l2 facts(6) l3]
  have "kdf_calls (trace (snd (dec_main L (Doc (out_json (sealing_out L s))) W (start g'))))
          = [Scrypt pw (s_kdf_salt s) 16384 8 1 32]"
    "aead_keys (trace (snd (dec_main L (Doc (out_json (sealing_out L s))) W (start g'))))
          = [s_master_key s, s_vault_key s, s_dek s]"
    by (simp_all add: dec_main_sealed [OF b64 W facts(3)] opened start_def)
  with run facts(3)
  show "\<exists>w doc salt key vault_key dek.
              enc_script L stdin_line W (start g) = (Inr 0, w) \<and>
              written ''demo.json'' (trace w) = [Json doc] \<and>
              kdf_calls (trace w) = [Scrypt pw salt 16384 8 1 32] \<and>
              kdf_calls (trace (snd (dec_main L (Doc doc) W (start g'))))
                = [Scrypt pw salt 16384 8 1 32] \<and>
              scrypt L pw salt 16384 8 1 32 = Inr key \<and>
              aead_keys (trace w) = [key, vault_key, dek] \<and>
              aead_keys (trace (snd (dec_main L (Doc doc) W (start g'))))
                = [key, vault_key, dek]"
    by simp
qed

theorem kdf_rederivation_witness:
  "dec_main toy_lib (Doc custom_kdf_doc) ''correct horse'' (start (\<lambda>i. 0)) =
     dec_layers toy_lib (JStr ''chacha20poly1305'')
       ([0, 0, 1] @ map of_char ''correct horse'' @ replicate 16 0)
       [0, 0, 1] [0, 0, 2] [0, 0, 3] [0, 0, 4]
       \<lparr>trace = [Getpass ''Master password: '',
                 Scrypt (map of_char ''correct horse'') [0, 0, 1] 1024 4 2 32],
        entropy = (\<lambda>i. 0)\<rparr>
   \<and> (\<exists>w doc salt key vault_key dek.
        enc_script toy_lib (''hello vault'' @ nl) ''correct horse'' (start example_entropy)
          = (Inr 0, w) \<and>
        written ''demo.json'' (trace w) = [Json doc] \<and>
        kdf_calls (trace w) = [Scrypt (map of_char ''correct horse'') salt 16384 8 1 32] \<and>
        kdf_calls (trace (snd (dec_main toy_lib (Doc doc) ''correct horse'' (start (\<lambda>i. 0)))))
          = [Scrypt (map of_char ''correct horse'') salt 16384 8 1 32] \<and>
        scrypt toy_lib (map of_char ''correct horse'') salt 16384 8 1 32 = Inr key \<and>
        aead_keys (trace w) = [key, vault_key, dek] \<and>
        aead_keys (trace (snd (dec_main toy_lib (Doc doc) ''correct horse'' (start (\<lambda>i. 0)))))
          = [key, vault_key, dek])"
proof -
  have avail: "has_xchacha toy_lib \<or> has_chacha toy_lib"
    by simp
  have nonempty: "(map of_char ''hello vault'' :: bytes) \<noteq> []" "''correct horse'' \<noteq> []"
    by simp_all
  note inst = kdf_rederivation [OF avail toy_b64_roundtrip toy_aead_sound toy_scrypt_total
      example_payload nonempty example_password]
  have stored: "dec_load toy_lib custom_kdf_doc
        = Inr (JStr ''chacha20poly1305'', [0, 0, 1], [0, 0, 2], [0, 0, 3], [0, 0, 4]) \<and>
      getitem custom_kdf_doc ''kdf''
        = Inr (JObj [(''type'', JStr ''scrypt''), (''salt_b64'', JStr ''AAAB''),
                     (''params'', JObj [(''n'', JInt 1024), (''r'', JInt 4),
                                        (''p'', JInt 2), (''dk_len'', JInt 32)])]) \<and>
      getitem (JObj [(''type'', JStr ''scrypt''), (''salt_b64'', JStr ''AAAB''),
                     (''params'', JObj [(''n'', JInt 1024), (''r'', JInt 4),
                                        (''p'', JInt 2), (''dk_len'', JInt 32)])]) ''params''
        = Inr (JObj [(''n'', JInt 1024), (''r'', JInt 4), (''p'', JInt 2),
                     (''dk_len'', JInt 32)]) \<and>
      getitem (JObj [(''type'', JStr ''scrypt''), (''salt_b64'', JStr ''AAAB''),
                     (''params'', JObj [(''n'', JInt 1024), (''r'', JInt 4),
                                        (''p'', JInt 2), (''dk_len'', JInt 32)])]) ''salt_b64''
        = Inr (JStr ''AAAB'') \<and>
      is_ascii ''AAAB'' \<and> b64decode toy_lib ''AAAB'' = Inr [0, 0, 1] \<and>
      getitem (JObj [(''n'', JInt 1024), (''r'', JInt 4), (''p'', JInt 2),
                     (''dk_len'', JInt 32)]) ''n'' = Inr (JInt 1024) \<and>
      getitem (JObj [(''n'', JInt 1024), (''r'', JInt 4), (''p'', JInt 2),
                     (''dk_len'', JInt 32)]) ''r'' = Inr (JInt 4) \<and>
      getitem (JObj [(''n'', JInt 1024), (''r'', JInt 4), (''p'', JInt 2),
                     (''dk_len'', JInt 32)]) ''p'' = Inr (JInt 2) \<and>
      getitem (JObj [(''n'', JInt 1024), (''r'', JInt 4), (''p'', JInt 2),
                     (''dk_len'', JInt 32)]) ''dk_len'' = Inr (JInt 32)"
    by (intro conjI custom_kdf_doc_loads)
      (simp_all add: custom_kdf_doc_def is_ascii_def b64_index_eval
        octet1_def octet2_def octet3_def)
  have key: "scrypt toy_lib (map of_char ''correct horse'') [0, 0, 1] 1024 4 2 32
      = Inr ([0, 0, 1] @ map of_char ''correct horse'' @ replicate 16 0)"
    by (simp add: toy_scrypt_def)
  note a = inst [THEN conjunct1, THEN mp, OF stored, of "\<lambda>i. 0", unfolded key sum.case]
  note b = inst [THEN conjunct2, of example_entropy "\<lambda>i. 0"]
  show ?thesis
    by (intro conjI a b)
qed

section \<open>Splitting a blob into nonce and ciphertext\<close>

text \<open>
  C6. For an algorithm identifier the opener knows, \<^verbatim>\<open>aead_new\<close> returns, with the AEAD
  object, the nonce length \<open>n\<close> of that algorithm: 24 for \<^verbatim>\<open>xchacha20poly1305\<close>, 12 for
  \<^verbatim>\<open>chacha20poly1305\<close>. The decryptions the three layers attempt are exactly those listed:
  the vault-key wrap is decrypted with its first \<open>n\<close> bytes as the nonce and the rest as
  the ciphertext, and so is the DEK wrap, with the \<open>n\<close> that \<^verbatim>\<open>aead_new\<close> returned for the
  stored identifier; the payload is decrypted with the stored payload nonce. A layer is
  reached only when the layers before it succeeded.
\<close>

theorem nonce_split_by_declared_length:
  assumes cfg: "aead = JStr ''xchacha20poly1305'' \<and> n = 24 \<and> alg = XChaCha20Poly1305
                  \<and> has_xchacha L
              \<or> aead = JStr ''chacha20poly1305'' \<and> n = 12 \<and> alg = ChaCha20Poly1305
                  \<and> has_chacha L"
  shows "dec_aead_new L aead key w =
           (case aead_init L alg key of
              Some e \<Rightarrow> Inl e
            | None \<Rightarrow> Inr (Cipher alg key, n),
            w\<lparr>trace := trace w @ [Construct alg key]\<rparr>)
         \<and> decryptions (trace (snd
             (dec_layers L aead master_key vault_key_enc enc_dek nonce_payload ciphertext
                (start g))))
           = (case aead_init L alg master_key of
                Some e \<Rightarrow> []
              | None \<Rightarrow>
                  Decrypt alg master_key (take n vault_key_enc) (drop n vault_key_enc) [] #
                  (case aead_decrypt L alg master_key
                          (take n vault_key_enc) (drop n vault_key_enc) [] of
                     Inl e \<Rightarrow> []
                   | Inr vault_key \<Rightarrow>
                       (case aead_init L alg vault_key of
                          Some e \<Rightarrow> []
                        | None \<Rightarrow>
                            Decrypt alg vault_key (take n enc_dek) (drop n enc_dek) [] #
                            (case aead_decrypt L alg vault_key
                                    (take n enc_dek) (drop n enc_dek) [] of
                               Inl e \<Rightarrow> []
                             | Inr dek \<Rightarrow>
                                 (case aead_init L alg dek of
                                    Some e \<Rightarrow> []
                                  | None \<Rightarrow>
                                      [Decrypt alg dek nonce_payload ciphertext []])))))"
  using dec_aead_new_ready [OF cfg] dec_layers_decryptions [OF cfg, of _ _ _ _ _ "start g"]
  by (simp add: start_def)

theorem nonce_split_by_declared_length_witness:
  "dec_aead_new toy_lib (JStr ''chacha20poly1305'') (s_master_key example_sealing)
     (start example_entropy)
     = (Inr (Cipher ChaCha20Poly1305 (s_master_key example_sealing), 12),
        \<lparr>trace = [Construct ChaCha20Poly1305 (s_master_key example_sealing)],
         entropy = example_entropy\<rparr>)
   \<and> decryptions (trace (snd
       (dec_layers toy_lib (JStr ''chacha20poly1305'') (s_master_key example_sealing)
          (s_nonce_vault example_sealing @ s_vault_key_enc example_sealing)
          (s_nonce_dek example_sealing @ s_ct_dek example_sealing)
          (s_nonce_payload example_sealing) (s_ciphertext example_sealing)
          (start example_entropy))))
     = [Decrypt ChaCha20Poly1305 (s_master_key example_sealing)
          (s_nonce_vault example_sealing) (s_vault_key_enc example_sealing) [],
        Decrypt ChaCha20Poly1305 (s_vault_key example_sealing)
          (s_nonce_dek example_sealing) (s_ct_dek example_sealing) [],
        Decrypt ChaCha20Poly1305 (s_dek example_sealing)
          (s_nonce_payload example_sealing) (s_ciphertext example_sealing) []]"
proof -
  have init: "toy_init ChaCha20Poly1305 (s_master_key example_sealing) = None"
    "toy_init ChaCha20Poly1305 (s_vault_key example_sealing) = None"
    "toy_init ChaCha20Poly1305 (s_dek example_sealing) = None"
    by (simp_all add: toy_init_def example_sealing_def)
  have dec: "toy_decrypt ChaCha20Poly1305 (s_master_key example_sealing)
      (s_nonce_vault example_sealing) (s_vault_key_enc example_sealing) []
      = Inr (s_vault_key example_sealing)"
    "toy_decrypt ChaCha20Poly1305 (s_vault_key example_sealing)
      (s_nonce_dek example_sealing) (s_ct_dek example_sealing) []
      = Inr (s_dek example_sealing)"
    by (simp_all add: toy_decrypt_def example_sealing_def)
  note split = nonce_split_by_declared_length [OF example_cfg,
      of "s_master_key example_sealing" "start example_entropy"
         "s_master_key example_sealing"
         "s_nonce_vault example_sealing @ s_vault_key_enc example_sealing"
         "s_nonce_dek example_sealing @ s_ct_dek example_sealing"
         "s_nonce_payload example_sealing" "s_ciphertext example_sealing" example_entropy]
  show ?thesis
    by (intro conjI; subst split [THEN conjunct1] split [THEN conjunct2])
      (simp_all add: init dec start_def)
qed

section \<open>Blobs shorter than a nonce\<close>

text \<open>
  C10. Nothing between the document and the decryption checks the length of a
  wrapped-key blob. The loader takes whatever the base64 decoder returns, so a document
  with a short blob loads, and the opener goes on to the prompt, the key derivation and
  the layers. When the vault-key blob is shorter than the nonce length, the slices
  \<^verbatim>\<open>blob[:n]\<close> and \<^verbatim>\<open>blob[n:]\<close> are the whole blob and the empty byte string, and the
  decryption is called with them. The AEAD refuses a nonce of the wrong length, so the
  defect shows as a failed decryption: the opener returns 3 after
  \<^verbatim>\<open>decrypt failed (wrong master password?)\<close>. When the DEK blob is the short one, the
  second decryption is called with the whole blob as its nonce and its exception ends
  the run.
\<close>

theorem short_blob_fails_at_decryption:
  assumes cfg: "aead = JStr ''xchacha20poly1305'' \<and> n = 24 \<and> alg = XChaCha20Poly1305
                  \<and> has_xchacha L
              \<or> aead = JStr ''chacha20poly1305'' \<and> n = 12 \<and> alg = ChaCha20Poly1305
                  \<and> has_chacha L"
    and strict: "rejects_bad_nonce L"
    and stored: "getitem doc ''aead'' = Inr aead"
      "getitem doc ''vault_key_enc_b64'' = Inr (JStr v1)" "is_ascii v1"
      "b64decode L v1 = Inr vault_key_enc"
      "getitem doc ''enc_dek_b64'' = Inr (JStr v2)" "is_ascii v2"
      "b64decode L v2 = Inr enc_dek"
      "getitem doc ''nonce_payload_b64'' = Inr (JStr v3)" "is_ascii v3"
      "b64decode L v3 = Inr nonce_payload"
      "getitem doc ''ciphertext_b64'' = Inr (JStr v4)" "is_ascii v4"
      "b64decode L v4 = Inr ciphertext"
    and W: "W \<noteq> []"
    and args: "dec_kdf_args L doc W = Inr (pw, salt, kn, r, p, dklen)"
    and mk: "scrypt L pw salt kn r p dklen = Inr master_key"
    and init: "aead_init L alg master_key = None"
  shows "dec_load L doc = Inr (aead, vault_key_enc, enc_dek, nonce_payload, ciphertext)
         \<and> (length vault_key_enc < n \<longrightarrow>
            take n vault_key_enc = vault_key_enc \<and> drop n vault_key_enc = [] \<and>
            dec_main L (Doc doc) W (start g)
            = (Inr 3,
               \<lparr>trace =
                  [Getpass ''Master password: '', Scrypt pw salt kn r p dklen,
                   Construct alg master_key,
                   Decrypt alg master_key vault_key_enc [] [],
                   Stderr (''decrypt failed (wrong master password?)'' @ nl)],
                entropy = g\<rparr>))
         \<and> (length enc_dek < n \<and>
            aead_decrypt L alg master_key (take n vault_key_enc) (drop n vault_key_enc) []
              = Inr vault_key \<and>
            aead_init L alg vault_key = None \<longrightarrow>
            take n enc_dek = enc_dek \<and> drop n enc_dek = [] \<and>
            (\<exists>e. dec_main L (Doc doc) W (start g)
                 = (Inl e,
                    \<lparr>trace =
                       [Getpass ''Master password: '', Scrypt pw salt kn r p dklen,
                        Construct alg master_key,
                        Decrypt alg master_key
                          (take n vault_key_enc) (drop n vault_key_enc) [],
                        Construct alg vault_key,
                        Decrypt alg vault_key enc_dek [] []],
                     entropy = g\<rparr>)))"
proof (intro conjI impI)
  show load: "dec_load L doc = Inr (aead, vault_key_enc, enc_dek, nonce_payload, ciphertext)"
    by (rule dec_load_fields [OF stored])
  have n: "n = lib_nonce_len alg"
    using cfg by auto
  have main: "dec_main L (Doc doc) W (start g) =
      dec_layers L aead master_key vault_key_enc enc_dek nonce_payload ciphertext
        \<lparr>trace = [Getpass ''Master password: '', Scrypt pw salt kn r p dklen],
         entropy = g\<rparr>"
    unfolding dec_main_derives [OF load W args] by (simp add: mk start_def)
  {
    assume short: "length vault_key_enc < n"
    then show "take n vault_key_enc = vault_key_enc" "drop n vault_key_enc = []"
      by simp_all
    then have split: "take n vault_key_enc = vault_key_enc" "drop n vault_key_enc = []" .
    have "length vault_key_enc \<noteq> lib_nonce_len alg"
      using short n by simp
    with strict have "\<exists>e. aead_decrypt L alg master_key vault_key_enc [] [] = Inl e"
      unfolding rejects_bad_nonce_def by blast
    then obtain e where "aead_decrypt L alg master_key vault_key_enc [] [] = Inl e"
      by blast
    then have fail: "aead_decrypt L alg master_key
        (take n vault_key_enc) (drop n vault_key_enc) [] = Inl e"
      by (simp add: split)
    show "dec_main L (Doc doc) W (start g)
            = (Inr 3,
               \<lparr>trace =
                  [Getpass ''Master password: '', Scrypt pw salt kn r p dklen,
                   Construct alg master_key,
                   Decrypt alg master_key vault_key_enc [] [],
                   Stderr (''decrypt failed (wrong master password?)'' @ nl)],
                entropy = g\<rparr>)"
      unfolding main
      by (subst dec_layers_vault_fails [OF cfg init fail]) (simp add: split)
  }
  {
    assume a: "length enc_dek < n \<and>
            aead_decrypt L alg master_key (take n vault_key_enc) (drop n vault_key_enc) []
              = Inr vault_key \<and>
            aead_init L alg vault_key = None"
    then show "take n enc_dek = enc_dek" "drop n enc_dek = []"
      by simp_all
    then have split: "take n enc_dek = enc_dek" "drop n enc_dek = []" .
    have "length enc_dek \<noteq> lib_nonce_len alg"
      using a n by simp
    with strict have "\<exists>e. aead_decrypt L alg vault_key enc_dek [] [] = Inl e"
      unfolding rejects_bad_nonce_def by blast
    then obtain e where "aead_decrypt L alg vault_key enc_dek [] [] = Inl e"
      by blast
    then have fail: "aead_decrypt L alg vault_key (take n enc_dek) (drop n enc_dek) [] = Inl e"
      by (simp add: split)
    from a have l1: "aead_decrypt L alg master_key
        (take n vault_key_enc) (drop n vault_key_enc) [] = Inr vault_key"
      and i2: "aead_init L alg vault_key = None"
      by simp_all
    have "dec_main L (Doc doc) W (start g)
                 = (Inl e,
                    \<lparr>trace =
                       [Getpass ''Master password: '', Scrypt pw salt kn r p dklen,
                        Construct alg master_key,
                        Decrypt alg master_key
                          (take n vault_key_enc) (drop n vault_key_enc) [],
                        Construct alg vault_key,
                        Decrypt alg vault_key enc_dek [] []],
                     entropy = g\<rparr>)"
      unfolding main
      by (subst dec_layers_dek_fails [OF cfg init l1 i2 fail]) (simp add: split)
    then show "\<exists>e. dec_main L (Doc doc) W (start g)
                 = (Inl e,
                    \<lparr>trace =
                       [Getpass ''Master password: '', Scrypt pw salt kn r p dklen,
                        Construct alg master_key,
                        Decrypt alg master_key
                          (take n vault_key_enc) (drop n vault_key_enc) [],
                        Construct alg vault_key,
                        Decrypt alg vault_key enc_dek [] []],
                     entropy = g\<rparr>)"
      by blast
  }
qed

theorem short_blob_fails_at_decryption_witness:
  "dec_load toy_lib short_vault_doc
     = Inr (JStr ''chacha20poly1305'', [0, 0, 1],
            s_nonce_dek example_sealing @ s_ct_dek example_sealing,
            s_nonce_payload example_sealing, s_ciphertext example_sealing)
   \<and> (take 12 [0, 0, 1] = [0, 0, 1 :: byte] \<and> drop 12 [0, 0, 1 :: byte] = [] \<and>
      dec_main toy_lib (Doc short_vault_doc) ''correct horse'' (start example_entropy)
      = (Inr 3,
         \<lparr>trace =
            [Getpass ''Master password: '',
             Scrypt (map of_char ''correct horse'') (s_kdf_salt example_sealing) 16384 8 1 32,
             Construct ChaCha20Poly1305 (s_master_key example_sealing),
             Decrypt ChaCha20Poly1305 (s_master_key example_sealing) [0, 0, 1] [] [],
             Stderr (''decrypt failed (wrong master password?)'' @ nl)],
          entropy = example_entropy\<rparr>))
   \<and> dec_load toy_lib short_dek_doc
     = Inr (JStr ''chacha20poly1305'',
            s_nonce_vault example_sealing @ s_vault_key_enc example_sealing, [0, 0, 1],
            s_nonce_payload example_sealing, s_ciphertext example_sealing)
   \<and> (take 12 [0, 0, 1] = [0, 0, 1 :: byte] \<and> drop 12 [0, 0, 1 :: byte] = [] \<and>
      (\<exists>e. dec_main toy_lib (Doc short_dek_doc) ''correct horse'' (start example_entropy)
           = (Inl e,
              \<lparr>trace =
                 [Getpass ''Master password: '',
                  Scrypt (map of_char ''correct horse'') (s_kdf_salt example_sealing)
                    16384 8 1 32,
                  Construct ChaCha20Poly1305 (s_master_key example_sealing),
                  Decrypt ChaCha20Poly1305 (s_master_key example_sealing)
                    (take 12 (s_nonce_vault example_sealing @ s_vault_key_enc example_sealing))
                    (drop 12 (s_nonce_vault example_sealing @ s_vault_key_enc example_sealing))
                    [],
                  Construct ChaCha20Poly1305 (s_vault_key example_sealing),
                  Decrypt ChaCha20Poly1305 (s_vault_key example_sealing) [0, 0, 1] [] []],
               entropy = example_entropy\<rparr>)))"
proof -
  have W: "''correct horse'' \<noteq> []"
    by simp
  have init: "aead_init toy_lib ChaCha20Poly1305 (s_master_key example_sealing) = None"
    by (simp add: toy_init_def example_sealing_def)
  have f1: "getitem short_vault_doc ''aead'' = Inr (JStr ''chacha20poly1305'')"
    "getitem short_vault_doc ''vault_key_enc_b64'' = Inr (JStr ''AAAB'')"
    "getitem short_vault_doc ''enc_dek_b64''
       = Inr (JStr (b64encode toy_lib (s_nonce_dek example_sealing @ s_ct_dek example_sealing)))"
    "getitem short_vault_doc ''nonce_payload_b64''
       = Inr (JStr (b64encode toy_lib (s_nonce_payload example_sealing)))"
    "getitem short_vault_doc ''ciphertext_b64''
       = Inr (JStr (b64encode toy_lib (s_ciphertext example_sealing)))"
    unfolding short_vault_doc_def
    by (simp_all add: sealing_out_def) (simp add: example_sealing_def)
  have f2: "getitem short_dek_doc ''aead'' = Inr (JStr ''chacha20poly1305'')"
    "getitem short_dek_doc ''vault_key_enc_b64''
       = Inr (JStr (b64encode toy_lib
                      (s_nonce_vault example_sealing @ s_vault_key_enc example_sealing)))"
    "getitem short_dek_doc ''enc_dek_b64'' = Inr (JStr ''AAAB'')"
    "getitem short_dek_doc ''nonce_payload_b64''
       = Inr (JStr (b64encode toy_lib (s_nonce_payload example_sealing)))"
    "getitem short_dek_doc ''ciphertext_b64''
       = Inr (JStr (b64encode toy_lib (s_ciphertext example_sealing)))"
    unfolding short_dek_doc_def
    by (simp_all add: sealing_out_def) (simp add: example_sealing_def)
  have enc: "is_ascii (b64encode toy_lib x)" "b64decode toy_lib (b64encode toy_lib x) = Inr x"
    for x
    by simp_all
  have a1: "dec_kdf_args toy_lib short_vault_doc ''correct horse''
      = Inr (map of_char ''correct horse'', s_kdf_salt example_sealing, 16384, 8, 1, 32)"
    unfolding short_vault_doc_def
    by (rule dec_kdf_args_sealed [OF toy_b64_roundtrip example_password])
      (simp_all add: sealing_out_def)
  have a2: "dec_kdf_args toy_lib short_dek_doc ''correct horse''
      = Inr (map of_char ''correct horse'', s_kdf_salt example_sealing, 16384, 8, 1, 32)"
    unfolding short_dek_doc_def
    by (rule dec_kdf_args_sealed [OF toy_b64_roundtrip example_password])
      (simp_all add: sealing_out_def)
  note i1 = short_blob_fails_at_decryption [OF example_cfg toy_rejects_bad_nonce
      f1(1) f1(2) b64decode_AAAB(2) b64decode_AAAB(1) f1(3) enc f1(4) enc f1(5) enc
      W a1 example_master_key init, where g = example_entropy]
  note i2 = short_blob_fails_at_decryption [OF example_cfg toy_rejects_bad_nonce
      f2(1) f2(2) enc f2(3) b64decode_AAAB(2) b64decode_AAAB(1) f2(4) enc f2(5) enc
      W a2 example_master_key init, where g = example_entropy]
  have short: "length [0, 0, 1 :: byte] < 12"
    by simp
  have layer2: "length [0, 0, 1 :: byte] < 12 \<and>
      aead_decrypt toy_lib ChaCha20Poly1305 (s_master_key example_sealing)
        (take 12 (s_nonce_vault example_sealing @ s_vault_key_enc example_sealing))
        (drop 12 (s_nonce_vault example_sealing @ s_vault_key_enc example_sealing)) []
        = Inr (s_vault_key example_sealing) \<and>
      aead_init toy_lib ChaCha20Poly1305 (s_vault_key example_sealing) = None"
    by (simp add: toy_init_def toy_decrypt_def example_sealing_def)
  show ?thesis
    by (intro conjI i1 [THEN conjunct1] i1 [THEN conjunct2, THEN conjunct1, THEN mp, OF short]
        i2 [THEN conjunct1] i2 [THEN conjunct2, THEN conjunct2, THEN mp, OF layer2])
qed

section \<open>Structural defects\<close>

text \<open>
  C4, as the code has it. A document that lacks one of the five top-level fields, or
  whose blobs do not all decode, ends the opener with the exception of that lookup or
  decoding before anything else happens: no prompt, no cryptographic operation. With
  the top-level fields loaded and a non-empty password, the opener reads the \<^verbatim>\<open>kdf\<close>
  section: a missing \<^verbatim>\<open>kdf\<close>, \<^verbatim>\<open>params\<close> or \<^verbatim>\<open>salt_b64\<close>, a salt that does not decode, or a
  missing parameter \<^verbatim>\<open>n\<close>, \<^verbatim>\<open>r\<close>, \<^verbatim>\<open>p\<close> or \<^verbatim>\<open>dk_len\<close> ends it after the prompt and before
  the key derivation. An algorithm identifier that is neither of the two known ones is
  found only by \<^verbatim>\<open>aead_new\<close>, which is given the derived key: the run ends with
  \<^verbatim>\<open>unsupported AEAD\<close> after scrypt has run, and before any AEAD object is built or used.
\<close>

theorem structural_rejection:
  "(dec_load L doc = Inl e \<longrightarrow> dec_main L (Doc doc) W (start g) = (Inl e, start g))
   \<and> (k \<in> set [''aead'', ''vault_key_enc_b64'', ''enc_dek_b64'', ''nonce_payload_b64'',
                 ''ciphertext_b64''] \<and>
      map_of kvs k = None \<longrightarrow> (\<exists>e. dec_load L (JObj kvs) = Inl e))
   \<and> (k \<in> set [''vault_key_enc_b64'', ''enc_dek_b64'', ''nonce_payload_b64'',
                 ''ciphertext_b64''] \<and>
      getitem doc k = Inr v \<and> b64d L v = Inl e \<longrightarrow> (\<exists>e'. dec_load L doc = Inl e'))
   \<and> (dec_load L doc = Inr loaded \<and> W \<noteq> [] \<and> dec_kdf_args L doc W = Inl e \<longrightarrow>
      dec_main L (Doc doc) W (start g)
        = (Inl e, \<lparr>trace = [Getpass ''Master password: ''], entropy = g\<rparr>))
   \<and> (map_of kvs ''kdf'' = None \<longrightarrow> dec_kdf_args L (JObj kvs) W = Inl (KeyError ''kdf''))
   \<and> (getitem doc ''kdf'' = Inr (JObj kkvs) \<and> k \<in> set [''params'', ''salt_b64''] \<and>
      map_of kkvs k = None \<longrightarrow> (\<exists>e'. dec_kdf_args L doc W = Inl e'))
   \<and> (getitem doc ''kdf'' = Inr kdf \<and> getitem kdf ''salt_b64'' = Inr v \<and>
      b64d L v = Inl e \<longrightarrow> (\<exists>e'. dec_kdf_args L doc W = Inl e'))
   \<and> (getitem doc ''kdf'' = Inr kdf \<and> getitem kdf ''params'' = Inr (JObj pkvs) \<and>
      k \<in> set [''n'', ''r'', ''p'', ''dk_len''] \<and> map_of pkvs k = None \<longrightarrow>
      (\<exists>e'. dec_kdf_args L doc W = Inl e'))
   \<and> (dec_load L doc = Inr (aead, vault_key_enc, enc_dek, nonce_payload, ciphertext) \<and>
      W \<noteq> [] \<and> dec_kdf_args L doc W = Inr (pw, salt, n, r, p, dklen) \<and>
      scrypt L pw salt n r p dklen = Inr master_key \<and>
      aead \<noteq> JStr ''xchacha20poly1305'' \<and> aead \<noteq> JStr ''chacha20poly1305'' \<longrightarrow>
      dec_main L (Doc doc) W (start g)
        = (Inl (RuntimeError_unsupported aead),
           \<lparr>trace = [Getpass ''Master password: '', Scrypt pw salt n r p dklen],
            entropy = g\<rparr>))"
proof (intro conjI impI)
  show "dec_main L (Doc doc) W (start g) = (Inl e, start g)" if "dec_load L doc = Inl e"
    using that by (simp add: dec_main_def)
  show "\<exists>e. dec_load L (JObj kvs) = Inl e"
    if "k \<in> set [''aead'', ''vault_key_enc_b64'', ''enc_dek_b64'', ''nonce_payload_b64'',
                 ''ciphertext_b64''] \<and> map_of kvs k = None"
  proof (cases "dec_load L (JObj kvs)")
    case (Inl e)
    then show ?thesis by blast
  next
    case (Inr loaded)
    obtain a b c d f where "loaded = (a, b, c, d, f)"
      by (cases loaded) auto
    from dec_load_InrD [OF Inr [unfolded this]] that show ?thesis
      by auto
  qed
  show "\<exists>e'. dec_load L doc = Inl e'"
    if "k \<in> set [''vault_key_enc_b64'', ''enc_dek_b64'', ''nonce_payload_b64'',
                 ''ciphertext_b64''] \<and> getitem doc k = Inr v \<and> b64d L v = Inl e"
  proof (cases "dec_load L doc")
    case (Inl e)
    then show ?thesis by blast
  next
    case (Inr loaded)
    obtain a b c d f where "loaded = (a, b, c, d, f)"
      by (cases loaded) auto
    from dec_load_InrD [OF Inr [unfolded this]] that show ?thesis
      by auto
  qed
  show "dec_main L (Doc doc) W (start g)
        = (Inl e, \<lparr>trace = [Getpass ''Master password: ''], entropy = g\<rparr>)"
    if "dec_load L doc = Inr loaded \<and> W \<noteq> [] \<and> dec_kdf_args L doc W = Inl e"
    using that by (cases loaded) (simp add: dec_main_def start_def)
  show "dec_kdf_args L (JObj kvs) W = Inl (KeyError ''kdf'')" if "map_of kvs ''kdf'' = None"
    using that by (simp add: dec_kdf_args_def)
  show "\<exists>e'. dec_kdf_args L doc W = Inl e'"
    if "getitem doc ''kdf'' = Inr (JObj kkvs) \<and> k \<in> set [''params'', ''salt_b64''] \<and>
        map_of kkvs k = None"
  proof (cases "dec_kdf_args L doc W")
    case (Inl e)
    then show ?thesis by blast
  next
    case (Inr args)
    obtain a b c d f h where "args = (a, b, c, d, f, h)"
      by (cases args) auto
    from dec_kdf_args_InrD [OF Inr [unfolded this]] that show ?thesis
      by auto
  qed
  show "\<exists>e'. dec_kdf_args L doc W = Inl e'"
    if "getitem doc ''kdf'' = Inr kdf \<and> getitem kdf ''salt_b64'' = Inr v \<and> b64d L v = Inl e"
  proof (cases "dec_kdf_args L doc W")
    case (Inl e)
    then show ?thesis by blast
  next
    case (Inr args)
    obtain a b c d f h where "args = (a, b, c, d, f, h)"
      by (cases args) auto
    from dec_kdf_args_InrD [OF Inr [unfolded this]] that show ?thesis
      by auto
  qed
  show "\<exists>e'. dec_kdf_args L doc W = Inl e'"
    if "getitem doc ''kdf'' = Inr kdf \<and> getitem kdf ''params'' = Inr (JObj pkvs) \<and>
        k \<in> set [''n'', ''r'', ''p'', ''dk_len''] \<and> map_of pkvs k = None"
  proof (cases "dec_kdf_args L doc W")
    case (Inl e)
    then show ?thesis by blast
  next
    case (Inr args)
    obtain a b c d f h where "args = (a, b, c, d, f, h)"
      by (cases args) auto
    from dec_kdf_args_InrD [OF Inr [unfolded this]] that show ?thesis
      by auto
  qed
  show "dec_main L (Doc doc) W (start g)
        = (Inl (RuntimeError_unsupported aead),
           \<lparr>trace = [Getpass ''Master password: '', Scrypt pw salt n r p dklen],
            entropy = g\<rparr>)"
    if "dec_load L doc = Inr (aead, vault_key_enc, enc_dek, nonce_payload, ciphertext) \<and>
      W \<noteq> [] \<and> dec_kdf_args L doc W = Inr (pw, salt, n, r, p, dklen) \<and>
      scrypt L pw salt n r p dklen = Inr master_key \<and>
      aead \<noteq> JStr ''xchacha20poly1305'' \<and> aead \<noteq> JStr ''chacha20poly1305''"
    using that by (simp add: dec_main_def dec_layers_def dec_aead_new_def start_def)
qed


text \<open>
  The claim as the spec words it, that an unknown algorithm identifier is rejected before
  any cryptographic operation, key derivation included, fails: on a document naming
  \<^verbatim>\<open>aes256gcm\<close> the opener has called scrypt when it raises.
\<close>

theorem unknown_aead_counterexample:
  "fst (dec_main toy_lib (Doc unknown_aead_doc) ''correct horse'' (start example_entropy))
     = Inl (RuntimeError_unsupported (JStr ''aes256gcm''))
   \<and> crypto_ops (trace (snd
        (dec_main toy_lib (Doc unknown_aead_doc) ''correct horse'' (start example_entropy))))
     = [Scrypt (map of_char ''correct horse'') [0, 0, 1] 16384 8 1 32]
   \<and> crypto_ops (trace (snd
        (dec_main toy_lib (Doc unknown_aead_doc) ''correct horse'' (start example_entropy))))
     \<noteq> []"
  by (simp add: dec_main_def unknown_aead_doc_loads toy_scrypt_def dec_layers_def
      dec_aead_new_def crypto_ops_def start_def)

theorem structural_rejection_witness:
  "dec_main toy_lib (Doc no_aead_doc) ''correct horse'' (start example_entropy)
     = (Inl (KeyError ''aead''), start example_entropy)
   \<and> (\<exists>e. dec_load toy_lib no_aead_doc = Inl e)
   \<and> (\<exists>e'. dec_load toy_lib bad_base64_doc = Inl e')
   \<and> dec_main toy_lib (Doc small_doc) ''correct horse'' (start example_entropy)
     = (Inl (KeyError ''kdf''),
        \<lparr>trace = [Getpass ''Master password: ''], entropy = example_entropy\<rparr>)
   \<and> dec_kdf_args toy_lib small_doc ''correct horse'' = Inl (KeyError ''kdf'')
   \<and> (\<exists>e'. dec_kdf_args toy_lib no_params_doc ''correct horse'' = Inl e')
   \<and> (\<exists>e'. dec_kdf_args toy_lib bad_salt_doc ''correct horse'' = Inl e')
   \<and> (\<exists>e'. dec_kdf_args toy_lib no_n_doc ''correct horse'' = Inl e')
   \<and> dec_main toy_lib (Doc unknown_aead_doc) ''correct horse'' (start example_entropy)
     = (Inl (RuntimeError_unsupported (JStr ''aes256gcm'')),
        \<lparr>trace = [Getpass ''Master password: '',
                  Scrypt (map of_char ''correct horse'') [0, 0, 1] 16384 8 1 32],
         entropy = example_entropy\<rparr>)"
proof -
  note inst = structural_rejection [where L = toy_lib and W = "''correct horse''"
      and g = example_entropy]
  have h1: "dec_load toy_lib no_aead_doc = Inl (KeyError ''aead'')"
    by (simp add: dec_load_def no_aead_doc_def)
  have h2: "''aead'' \<in> set [''aead'', ''vault_key_enc_b64'', ''enc_dek_b64'',
        ''nonce_payload_b64'', ''ciphertext_b64''] \<and>
      map_of [(''vault_key_enc_b64'', JStr ''AAAB''), (''enc_dek_b64'', JStr ''AAAC''),
              (''nonce_payload_b64'', JStr ''AAAD''), (''ciphertext_b64'', JStr ''AAAE'')]
        ''aead'' = None"
    by simp
  have h3: "''enc_dek_b64'' \<in> set [''vault_key_enc_b64'', ''enc_dek_b64'',
        ''nonce_payload_b64'', ''ciphertext_b64''] \<and>
      getitem bad_base64_doc ''enc_dek_b64'' = Inr (JStr ''A'') \<and>
      b64d toy_lib (JStr ''A'') = Inl BinasciiError"
    by (simp add: bad_base64_doc_def is_ascii_def)
  have h4: "dec_load toy_lib small_doc
        = Inr (JStr ''chacha20poly1305'', [0, 0, 1], [0, 0, 2], [0, 0, 3], [0, 0, 4]) \<and>
      ''correct horse'' \<noteq> [] \<and>
      dec_kdf_args toy_lib small_doc ''correct horse'' = Inl (KeyError ''kdf'')"
    by (simp add: small_doc_loads) (simp add: dec_kdf_args_def small_doc_def)
  have h5: "map_of [(''aead'', JStr ''chacha20poly1305''),
                     (''vault_key_enc_b64'', JStr ''AAAB''),
                     (''enc_dek_b64'', JStr ''AAAC''),
                     (''nonce_payload_b64'', JStr ''AAAD''),
                     (''ciphertext_b64'', JStr ''AAAE'')] ''kdf'' = None"
    by simp
  have h6: "getitem no_params_doc ''kdf''
        = Inr (JObj [(''type'', JStr ''scrypt''), (''salt_b64'', JStr ''AAAB'')]) \<and>
      ''params'' \<in> set [''params'', ''salt_b64''] \<and>
      map_of [(''type'', JStr ''scrypt''), (''salt_b64'', JStr ''AAAB'')] ''params'' = None"
    by (simp add: no_params_doc_def)
  have h7: "getitem bad_salt_doc ''kdf''
        = Inr (JObj [(''type'', JStr ''scrypt''), (''salt_b64'', JStr ''A''),
                     (''params'', params_json kdf_params)]) \<and>
      getitem (JObj [(''type'', JStr ''scrypt''), (''salt_b64'', JStr ''A''),
                     (''params'', params_json kdf_params)]) ''salt_b64'' = Inr (JStr ''A'') \<and>
      b64d toy_lib (JStr ''A'') = Inl BinasciiError"
    by (simp add: bad_salt_doc_def is_ascii_def)
  have h8: "getitem no_n_doc ''kdf''
        = Inr (JObj [(''type'', JStr ''scrypt''), (''salt_b64'', JStr ''AAAB''),
                     (''params'', JObj [(''r'', JInt 8), (''p'', JInt 1),
                                        (''dk_len'', JInt 32)])]) \<and>
      getitem (JObj [(''type'', JStr ''scrypt''), (''salt_b64'', JStr ''AAAB''),
                     (''params'', JObj [(''r'', JInt 8), (''p'', JInt 1),
                                        (''dk_len'', JInt 32)])]) ''params''
        = Inr (JObj [(''r'', JInt 8), (''p'', JInt 1), (''dk_len'', JInt 32)]) \<and>
      ''n'' \<in> set [''n'', ''r'', ''p'', ''dk_len''] \<and>
      map_of [(''r'', JInt 8), (''p'', JInt 1), (''dk_len'', JInt 32)] ''n'' = None"
    by (simp add: no_n_doc_def)
  have h9: "dec_load toy_lib unknown_aead_doc
        = Inr (JStr ''aes256gcm'', [0, 0, 1], [0, 0, 2], [0, 0, 3], [0, 0, 4]) \<and>
      ''correct horse'' \<noteq> [] \<and>
      dec_kdf_args toy_lib unknown_aead_doc ''correct horse''
        = Inr (map of_char ''correct horse'', [0, 0, 1], 16384, 8, 1, 32) \<and>
      scrypt toy_lib (map of_char ''correct horse'') [0, 0, 1] 16384 8 1 32
        = Inr (take 32 ([0, 0, 1] @ map of_char ''correct horse'' @ replicate 32 0)) \<and>
      JStr ''aes256gcm'' \<noteq> JStr ''xchacha20poly1305'' \<and>
      JStr ''aes256gcm'' \<noteq> JStr ''chacha20poly1305''"
    by (simp add: unknown_aead_doc_loads toy_scrypt_def)
  note c1 = inst [THEN conjunct1, THEN mp, OF h1]
  note c2 = inst [THEN conjunct2, THEN conjunct1, THEN mp, OF h2, folded no_aead_doc_def]
  note c3 = inst [THEN conjunct2, THEN conjunct2, THEN conjunct1, THEN mp, OF h3]
  note c4 = inst [THEN conjunct2, THEN conjunct2, THEN conjunct2, THEN conjunct1, THEN mp,
      OF h4]
  note c5 = inst [THEN conjunct2, THEN conjunct2, THEN conjunct2, THEN conjunct2,
      THEN conjunct1, THEN mp, OF h5, folded small_doc_def]
  note c6 = inst [THEN conjunct2, THEN conjunct2, THEN conjunct2, THEN conjunct2,
      THEN conjunct2, THEN conjunct1, THEN mp, OF h6]
  note c7 = inst [THEN conjunct2, THEN conjunct2, THEN conjunct2, THEN conjunct2,
      THEN conjunct2, THEN conjunct2, THEN conjunct1, THEN mp, OF h7]
  note c8 = inst [THEN conjunct2, THEN conjunct2, THEN conjunct2, THEN conjunct2,
      THEN conjunct2, THEN conjunct2, THEN conjunct2, THEN conjunct1, THEN mp, OF h8]
  note c9 = inst [THEN conjunct2, THEN conjunct2, THEN conjunct2, THEN conjunct2,
      THEN conjunct2, THEN conjunct2, THEN conjunct2, THEN conjunct2, THEN mp, OF h9]
  show ?thesis
    by (intro conjI c1 c2 c3 c4 c5 c6 c7 c8 c9)
qed

section \<open>The annotated rendering\<close>

text \<open>
  C9. A sealing run that returns 0 writes \<^verbatim>\<open>demo.json\<close> and \<^verbatim>\<open>demo.jsonc\<close> once each,
  and the two carry the same field values: for \<^verbatim>\<open>aead\<close>, \<^verbatim>\<open>vault_key_enc_b64\<close>,
  \<^verbatim>\<open>enc_dek_b64\<close>, \<^verbatim>\<open>nonce_payload_b64\<close>, \<^verbatim>\<open>ciphertext_b64\<close> and, inside \<^verbatim>\<open>kdf\<close>,
  \<^verbatim>\<open>type\<close> and \<^verbatim>\<open>salt_b64\<close>, what a reader of the annotated text finds for the key is
  the string of the structured document between double quotes; for \<^verbatim>\<open>params\<close> it is
  \<^verbatim>\<open>json.dumps\<close> of the object the structured document holds. The library is assumed to
  do its part: the AEAD encrypts, scrypt returns a 32-byte key, base64 text holds no
  newline, and \<^verbatim>\<open>json.dumps\<close> renders the parameters on one line.
\<close>

theorem jsonc_same_field_values:
  assumes avail: "has_xchacha L \<or> has_chacha L"
    and sound: "aead_sound L" and kdf: "scrypt_total L"
    and P: "utf8_encode L (rstrip_nl stdin_line) = Inr P" "P \<noteq> []"
    and W: "W \<noteq> []" "utf8_encode L W = Inr pw"
    and b64: "b64_one_line L" and dumps: "params_one_line L"
  shows "\<exists>w doc text aead vault_key_enc enc_dek nonce_payload ciphertext
           kdf_obj kdf_type salt params.
           enc_script L stdin_line W (start g) = (Inr 0, w) \<and>
           written ''demo.json'' (trace w) = [Json doc] \<and>
           written ''demo.jsonc'' (trace w) = [Text text] \<and>
           getitem doc ''aead'' = Inr (JStr aead) \<and>
           jsonc_field ''aead'' text = Some (dq @ aead @ dq) \<and>
           getitem doc ''vault_key_enc_b64'' = Inr (JStr vault_key_enc) \<and>
           jsonc_field ''vault_key_enc_b64'' text = Some (dq @ vault_key_enc @ dq) \<and>
           getitem doc ''enc_dek_b64'' = Inr (JStr enc_dek) \<and>
           jsonc_field ''enc_dek_b64'' text = Some (dq @ enc_dek @ dq) \<and>
           getitem doc ''nonce_payload_b64'' = Inr (JStr nonce_payload) \<and>
           jsonc_field ''nonce_payload_b64'' text = Some (dq @ nonce_payload @ dq) \<and>
           getitem doc ''ciphertext_b64'' = Inr (JStr ciphertext) \<and>
           jsonc_field ''ciphertext_b64'' text = Some (dq @ ciphertext @ dq) \<and>
           getitem doc ''kdf'' = Inr kdf_obj \<and>
           getitem kdf_obj ''type'' = Inr (JStr kdf_type) \<and>
           jsonc_field ''type'' text = Some (dq @ kdf_type @ dq) \<and>
           getitem kdf_obj ''salt_b64'' = Inr (JStr salt) \<and>
           jsonc_field ''salt_b64'' text = Some (dq @ salt @ dq) \<and>
           getitem kdf_obj ''params'' = Inr params \<and>
           jsonc_field ''params'' text = Some (json_dumps L params)"
proof -
  from enc_script_seals [OF avail sound kdf P W, of g]
  obtain s g6 where ok: "sealing_ok L pw P s"
    and run: "enc_script L stdin_line W (start g) =
             (Inr 0, \<lparr>trace = fallback_notice L @ sealing_trace L pw P s, entropy = g6\<rparr>)"
    by blast
  define out where "out = sealing_out L s"
  have aead: "out_aead out = ''xchacha20poly1305'' \<or> out_aead out = ''chacha20poly1305''"
    using ok unfolding sealing_ok_def out_def sealing_out_def by auto
  have flds: "one_line (out_aead out)" "one_line (out_vault_key_enc_b64 out)"
    "one_line (out_enc_dek_b64 out)" "one_line (out_nonce_payload_b64 out)"
    "one_line (out_ciphertext_b64 out)" "one_line (out_kdf_type out)"
    "one_line (out_kdf_salt_b64 out)"
    using aead b64 unfolding b64_one_line_def
    by (auto simp add: out_def sealing_out_def)
  have params: "out_kdf_params out = kdf_params"
    by (simp add: out_def sealing_out_def)
  have dumps': "one_line (json_dumps L (params_json (out_kdf_params out)))"
    "strip_comma (json_dumps L (params_json (out_kdf_params out)))
       = json_dumps L (params_json (out_kdf_params out))"
    using dumps unfolding params_one_line_def params by simp_all
  note vals = jsonc_field_values [OF split_lines_jsonc [OF flds dumps'(1)] dumps'(2)]
  have kdf_obj: "getitem (JObj [(''type'', JStr (out_kdf_type out)),
                (''salt_b64'', JStr (out_kdf_salt_b64 out)),
                (''params'', params_json (out_kdf_params out))]) ''type''
        = Inr (JStr (out_kdf_type out))"
    "getitem (JObj [(''type'', JStr (out_kdf_type out)),
                (''salt_b64'', JStr (out_kdf_salt_b64 out)),
                (''params'', params_json (out_kdf_params out))]) ''salt_b64''
        = Inr (JStr (out_kdf_salt_b64 out))"
    "getitem (JObj [(''type'', JStr (out_kdf_type out)),
                (''salt_b64'', JStr (out_kdf_salt_b64 out)),
                (''params'', params_json (out_kdf_params out))]) ''params''
        = Inr (params_json (out_kdf_params out))"
    by simp_all
  have files: "written ''demo.json'' (fallback_notice L @ sealing_trace L pw P s)
          = [Json (out_json out)]"
    "written ''demo.jsonc'' (fallback_notice L @ sealing_trace L pw P s)
          = [Text (jsonc_text L out)]"
    by (simp_all add: out_def)
  have "enc_script L stdin_line W (start g) =
          (Inr 0, \<lparr>trace = fallback_notice L @ sealing_trace L pw P s, entropy = g6\<rparr>) \<and>
        written ''demo.json''
          (trace \<lparr>trace = fallback_notice L @ sealing_trace L pw P s, entropy = g6\<rparr>)
          = [Json (out_json out)] \<and>
        written ''demo.jsonc''
          (trace \<lparr>trace = fallback_notice L @ sealing_trace L pw P s, entropy = g6\<rparr>)
          = [Text (jsonc_text L out)] \<and>
        getitem (out_json out) ''aead'' = Inr (JStr (out_aead out)) \<and>
        jsonc_field ''aead'' (jsonc_text L out) = Some (dq @ out_aead out @ dq) \<and>
        getitem (out_json out) ''vault_key_enc_b64'' = Inr (JStr (out_vault_key_enc_b64 out)) \<and>
        jsonc_field ''vault_key_enc_b64'' (jsonc_text L out)
          = Some (dq @ out_vault_key_enc_b64 out @ dq) \<and>
        getitem (out_json out) ''enc_dek_b64'' = Inr (JStr (out_enc_dek_b64 out)) \<and>
        jsonc_field ''enc_dek_b64'' (jsonc_text L out) = Some (dq @ out_enc_dek_b64 out @ dq) \<and>
        getitem (out_json out) ''nonce_payload_b64'' = Inr (JStr (out_nonce_payload_b64 out)) \<and>
        jsonc_field ''nonce_payload_b64'' (jsonc_text L out)
          = Some (dq @ out_nonce_payload_b64 out @ dq) \<and>
        getitem (out_json out) ''ciphertext_b64'' = Inr (JStr (out_ciphertext_b64 out)) \<and>
        jsonc_field ''ciphertext_b64'' (jsonc_text L out)
          = Some (dq @ out_ciphertext_b64 out @ dq) \<and>
        getitem (out_json out) ''kdf''
          = Inr (JObj [(''type'', JStr (out_kdf_type out)),
                       (''salt_b64'', JStr (out_kdf_salt_b64 out)),
                       (''params'', params_json (out_kdf_params out))]) \<and>
        getitem (JObj [(''type'', JStr (out_kdf_type out)),
                       (''salt_b64'', JStr (out_kdf_salt_b64 out)),
                       (''params'', params_json (out_kdf_params out))]) ''type''
          = Inr (JStr (out_kdf_type out)) \<and>
        jsonc_field ''type'' (jsonc_text L out) = Some (dq @ out_kdf_type out @ dq) \<and>
        getitem (JObj [(''type'', JStr (out_kdf_type out)),
                       (''salt_b64'', JStr (out_kdf_salt_b64 out)),
                       (''params'', params_json (out_kdf_params out))]) ''salt_b64''
          = Inr (JStr (out_kdf_salt_b64 out)) \<and>
        jsonc_field ''salt_b64'' (jsonc_text L out) = Some (dq @ out_kdf_salt_b64 out @ dq) \<and>
        getitem (JObj [(''type'', JStr (out_kdf_type out)),
                       (''salt_b64'', JStr (out_kdf_salt_b64 out)),
                       (''params'', params_json (out_kdf_params out))]) ''params''
          = Inr (params_json (out_kdf_params out)) \<and>
        jsonc_field ''params'' (jsonc_text L out)
          = Some (json_dumps L (params_json (out_kdf_params out)))"
    by (intro conjI run vals kdf_obj getitem_out_json)
      (simp_all only: world.simps files)
  then show ?thesis
    by (intro exI)
qed

theorem jsonc_same_field_values_witness:
  "\<exists>w doc text aead vault_key_enc enc_dek nonce_payload ciphertext
      kdf_obj kdf_type salt params.
     enc_script toy_lib (''hello vault'' @ nl) ''correct horse'' (start (\<lambda>i. of_nat i))
       = (Inr 0, w) \<and>
     written ''demo.json'' (trace w) = [Json doc] \<and>
     written ''demo.jsonc'' (trace w) = [Text text] \<and>
     getitem doc ''aead'' = Inr (JStr aead) \<and>
     jsonc_field ''aead'' text = Some (dq @ aead @ dq) \<and>
     getitem doc ''vault_key_enc_b64'' = Inr (JStr vault_key_enc) \<and>
     jsonc_field ''vault_key_enc_b64'' text = Some (dq @ vault_key_enc @ dq) \<and>
     getitem doc ''enc_dek_b64'' = Inr (JStr enc_dek) \<and>
     jsonc_field ''enc_dek_b64'' text = Some (dq @ enc_dek @ dq) \<and>
     getitem doc ''nonce_payload_b64'' = Inr (JStr nonce_payload) \<and>
     jsonc_field ''nonce_payload_b64'' text = Some (dq @ nonce_payload @ dq) \<and>
     getitem doc ''ciphertext_b64'' = Inr (JStr ciphertext) \<and>
     jsonc_field ''ciphertext_b64'' text = Some (dq @ ciphertext @ dq) \<and>
     getitem doc ''kdf'' = Inr kdf_obj \<and>
     getitem kdf_obj ''type'' = Inr (JStr kdf_type) \<and>
     jsonc_field ''type'' text = Some (dq @ kdf_type @ dq) \<and>
     getitem kdf_obj ''salt_b64'' = Inr (JStr salt) \<and>
     jsonc_field ''salt_b64'' text = Some (dq @ salt @ dq) \<and>
     getitem kdf_obj ''params'' = Inr params \<and>
     jsonc_field ''params'' text = Some (json_dumps toy_lib params)"
proof -
  have avail: "has_xchacha toy_lib \<or> has_chacha toy_lib"
    by simp
  have nonempty: "(map of_char ''hello vault'' :: bytes) \<noteq> []" "''correct horse'' \<noteq> []"
    by simp_all
  show ?thesis
    by (rule jsonc_same_field_values [OF avail toy_aead_sound toy_scrypt_total
          example_payload nonempty(1) nonempty(2) example_password
          toy_b64_one_line toy_params_one_line])
qed

end
